theory Spec2Isabelle
  imports Main "HOL-Library.Char_ord" "HOL-Library.List_Lexorder" "HOL-Library.Product_Lexorder"
    "HOL-Library.Multiset"
begin

section \<open>Python values, dictionaries and exceptions\<close>

text \<open>
  The engine is written in Python.  Values that travel through state dictionaries, task
  outputs and input records are modelled by \<open>pyval\<close>; a dictionary is an association
  list in insertion order (the order in which Python iterates it) whose keys are distinct;
  an exception is a value of \<open>error\<close>, and a function that can raise returns \<open>error + 'a\<close>
  with \<open>Inl\<close> for the exception.  \<open>NoSuchObject\<close> is not a Python exception: the objects
  of a workflow are referred to by their names, and it is the value of looking up a name
  that denotes no object, which a Python reference cannot do.
\<close>

datatype pyval = PyNone | PyBool bool | PyInt int | PyStr string | PyList "pyval list"

datatype error =
    TypeError | KeyError | AttributeError | IndexError | ValueError | NotImplementedError
  | Exception string | NoSuchObject

type_synonym 'v dict = "(string \<times> 'v) list"

text \<open>\<open>bool(v)\<close>, the test that \<open>if v:\<close> and \<open>if not v:\<close> apply to a builtin value.\<close>

fun truthy :: "pyval \<Rightarrow> bool" where
  "truthy PyNone = False"
| "truthy (PyBool b) = b"
| "truthy (PyInt i) = (i \<noteq> 0)"
| "truthy (PyStr s) = (s \<noteq> [])"
| "truthy (PyList xs) = (xs \<noteq> [])"

text \<open>\<open>d[k] = v\<close>: an existing key keeps its position, a new key goes to the end.\<close>

fun dict_set :: "('k \<times> 'v) list \<Rightarrow> 'k \<Rightarrow> 'v \<Rightarrow> ('k \<times> 'v) list" where
  "dict_set [] k v = [(k, v)]"
| "dict_set ((k', v') # d) k v = (if k' = k then (k, v) # d else (k', v') # dict_set d k v)"

text \<open>\<open>d[k]\<close> raises \<open>KeyError\<close> for a key that is not there.\<close>

definition dict_get :: "('k \<times> 'v) list \<Rightarrow> 'k \<Rightarrow> error + 'v" where
  "dict_get d k = (case map_of d k of None \<Rightarrow> Inl KeyError | Some v \<Rightarrow> Inr v)"

text \<open>\<open>d.update(e)\<close>.\<close>

fun dict_update :: "('k \<times> 'v) list \<Rightarrow> ('k \<times> 'v) list \<Rightarrow> ('k \<times> 'v) list" where
  "dict_update d [] = d"
| "dict_update d ((k, v) # e) = dict_update (dict_set d k v) e"

text \<open>\<open>sep.join(parts)\<close>.\<close>

fun join_str :: "string \<Rightarrow> string list \<Rightarrow> string" where
  "join_str sep [] = []"
| "join_str sep [x] = x"
| "join_str sep (x # y # ys) = x @ sep @ join_str sep (y # ys)"

text \<open>\<open>v[i]\<close> for a non-negative index on a builtin value.\<close>

fun py_getitem :: "pyval \<Rightarrow> nat \<Rightarrow> error + pyval" where
  "py_getitem (PyList xs) i = (if i < length xs then Inr (xs ! i) else Inl IndexError)"
| "py_getitem (PyStr s) i = (if i < length s then Inr (PyStr [s ! i]) else Inl IndexError)"
| "py_getitem v i = Inl TypeError"

text \<open>Sequencing of calls that may raise: the first exception ends the computation.\<close>

fun bnd :: "error + 'a \<Rightarrow> ('a \<Rightarrow> error + 'b) \<Rightarrow> error + 'b" where
  "bnd (Inl e) f = Inl e"
| "bnd (Inr x) f = f x"

text \<open>A \<open>for\<close> loop over a list whose body updates a state and may raise.\<close>

fun fold_err :: "('s \<Rightarrow> 'a \<Rightarrow> error + 's) \<Rightarrow> 's \<Rightarrow> 'a list \<Rightarrow> error + 's" where
  "fold_err f s [] = Inr s"
| "fold_err f s (x # xs) = (case f s x of Inl e \<Rightarrow> Inl e | Inr s' \<Rightarrow> fold_err f s' xs)"

text \<open>A list comprehension whose element expression may raise.\<close>

fun map_err :: "('a \<Rightarrow> error + 'b) \<Rightarrow> 'a list \<Rightarrow> error + 'b list" where
  "map_err f [] = Inr []"
| "map_err f (x # xs) =
     (case f x of
        Inl e \<Rightarrow> Inl e
      | Inr y \<Rightarrow> (case map_err f xs of Inl e \<Rightarrow> Inl e | Inr ys \<Rightarrow> Inr (y # ys)))"

text \<open>\<open>itertools.product(*iterables)\<close>: the rightmost axis advances fastest.\<close>

fun itertools_product :: "'a list list \<Rightarrow> 'a list list" where
  "itertools_product [] = [[]]"
| "itertools_product (xs # xss) = concat (map (\<lambda>x. map ((#) x) (itertools_product xss)) xs)"

text \<open>\<open>xs.index(x)\<close>.\<close>

definition list_index :: "'a list \<Rightarrow> 'a \<Rightarrow> error + nat" where
  "list_index xs x =
     (if x \<in> set xs then Inr (length (takeWhile (\<lambda>y. y \<noteq> x) xs)) else Inl ValueError)"

text \<open>
  Functions of the Python library and of numpy that the engine calls.  They are not part
  of the engine's sources, so every definition below takes them as a parameter:
  \<open>str_of v\<close> is \<open>str(v)\<close> (what \<open>"{}".format(v)\<close> inserts),
  \<open>np_take a i ax\<close> is \<open>np.take(a, indices=i, axis=ax)\<close>,
  \<open>np_shape a\<close> is \<open>a.shape\<close> and \<open>np_getitem a ind\<close> is \<open>a[ind]\<close> for an index tuple.
\<close>

record extern =
  str_of :: "pyval \<Rightarrow> string"
  np_take :: "pyval \<Rightarrow> nat \<Rightarrow> nat \<Rightarrow> error + pyval"
  np_shape :: "pyval \<Rightarrow> error + nat list"
  np_getitem :: "pyval \<Rightarrow> nat list \<Rightarrow> error + pyval"

text \<open>\<open>"{}:{}".format(i, j)\<close> for a string key \<open>i\<close>.\<close>

definition format_kv :: "extern \<Rightarrow> string \<times> pyval \<Rightarrow> string" where
  "format_kv ext kv = fst kv @ '':'' @ str_of ext (snd kv)"

text \<open>
  \<open>"_".join(["{}:{}".format(i, j) for i, j in list(d.items())])\<close>, the expression that
  node.py uses for every directory name.
\<close>

definition join_items :: "extern \<Rightarrow> pyval dict \<Rightarrow> string" where
  "join_items ext d = join_str ''_'' (map (format_kv ext) d)"

section \<open>helpers.py: the result cache\<close>

text \<open>
  A cache root is a directory whose sub-directories are named by checksums; a cache
  directory holds regular files, given by their contents.  \<open>loads\<close> is
  \<open>cloudpickle.loads\<close>, which may raise.
\<close>

type_synonym cache_dir = "string \<rightharpoonup> string"
type_synonym cache_root = "string \<rightharpoonup> cache_dir"

fun load_result_loop ::
  "(string \<Rightarrow> error + 'r) \<Rightarrow> string \<Rightarrow> cache_root list \<Rightarrow> error + 'r option" where
  "load_result_loop loads checksum [] = Inr None"
| "load_result_loop loads checksum (location # rest) =
     (case location checksum of
        Some d \<Rightarrow>
          (case d ''_result.pklz'' of
             Some bs \<Rightarrow>
               if length bs > 0
               then (case loads bs of Inl e \<Rightarrow> Inl e | Inr r \<Rightarrow> Inr (Some r))
               else Inr None
           | None \<Rightarrow> Inr None)
      | None \<Rightarrow> load_result_loop loads checksum rest)"

text \<open>\<open>cache_locations\<close> may be \<open>None\<close> or an empty list: both are falsy.\<close>

definition load_result ::
  "(string \<Rightarrow> error + 'r) \<Rightarrow> string \<Rightarrow> cache_root list option \<Rightarrow> error + 'r option" where
  "load_result loads checksum cache_locations =
     (case cache_locations of
        None \<Rightarrow> Inr None
      | Some [] \<Rightarrow> Inr None
      | Some locs \<Rightarrow> load_result_loop loads checksum locs)"

section \<open>node.py: the objects\<close>

text \<open>
  A splitter is a string (a field name), or a list or tuple of splitters.
\<close>

datatype splitter_expr = Str string | Lst "splitter_expr list" | Tup "splitter_expr list"

text \<open>The truth value of a splitter: an empty string, list or tuple is falsy.\<close>

fun splitter_truthy :: "splitter_expr \<Rightarrow> bool" where
  "splitter_truthy (Str s) = (s \<noteq> [])"
| "splitter_truthy (Lst xs) = (xs \<noteq> [])"
| "splitter_truthy (Tup xs) = (xs \<noteq> [])"

definition opt_truthy :: "splitter_expr option \<Rightarrow> bool" where
  "opt_truthy s = (case s of None \<Rightarrow> False | Some e \<Rightarrow> splitter_truthy e)"

text \<open>
  Modelled from the spec: \<open>aux.change_splitter\<close> (auxiliary.py is not among the sources).
  The spec's \<open>prepend_namespace\<close> rewrites each unqualified leaf to \<open>node.leaf\<close>; a leaf is
  qualified when it has the form \<open>node.field\<close>, that is, when it contains a dot.
\<close>

definition add_name :: "string \<Rightarrow> string \<Rightarrow> string" where
  "add_name name leaf = (if CHR ''.'' \<in> set leaf then leaf else name @ ''.'' @ leaf)"

fun change_splitter :: "splitter_expr \<Rightarrow> string \<Rightarrow> splitter_expr" where
  "change_splitter (Str s) name = Str (add_name name s)"
| "change_splitter (Lst xs) name = Lst (map (\<lambda>x. change_splitter x name) xs)"
| "change_splitter (Tup xs) name = Tup (map (\<lambda>x. change_splitter x name) xs)"

text \<open>
  Modelled from the spec: \<open>aux.change_splitter\<close> on \<open>None\<close> and on a list of variable names
  (a combiner); there is no leaf to rewrite in \<open>None\<close>.
\<close>

definition change_splitter_opt :: "splitter_expr option \<Rightarrow> string \<Rightarrow> splitter_expr option" where
  "change_splitter_opt s name = map_option (\<lambda>e. change_splitter e name) s"

definition change_combiner :: "string list \<Rightarrow> string \<Rightarrow> string list" where
  "change_combiner c name = map (add_name name) c"

text \<open>
  The class \<open>State\<close> (state.py) is not among the sources.  A state object is given by the
  attributes that node.py reads (the leading underscore of \<open>_splitter_rpn\<close>,
  \<open>_inner_splitter\<close>, ... is dropped) and by its two methods \<open>state_values(ind)\<close> and
  \<open>state_ind(ind)\<close>, which are parameters of the model.  \<open>all_elements\<close> is the list of
  index ranges, one per axis.
\<close>

record state =
  st_name :: string
  splitter_rpn :: "string list"
  splitter_rpn_comb :: "string list"
  inner_splitter :: "string list"
  inner_splitter_comb :: "string list"
  inner_combiner :: "string list"
  comb_inp_to_remove :: "string list"
  st_combiner :: "string list"
  all_elements :: "nat list list"
  axis_for_input :: "(string \<times> nat list) list"
  state_values :: "nat list \<Rightarrow> error + pyval dict"
  state_ind :: "nat list \<Rightarrow> error + pyval dict"
  splitter_comb :: "splitter_expr option"
  partial_comb_input_rem_axes :: "(string \<times> (nat \<times> nat) list) list"
  partial_comb_input_comb_axes :: "(string \<times> (nat \<times> nat) list) list"

text \<open>A result object, through its \<open>output\<close> record (field \<open>res_output\<close>) (attribute name and value).\<close>

record result =
  res_output :: "pyval dict"

text \<open>
  An entry of \<open>_output\<close>: a dictionary from directory names to values (to lists of
  values under a combiner), or the pair \<open>(state_surv_dict, value)\<close> of a node without
  splitter.
\<close>

datatype out_entry = OutDict "pyval dict" | OutTuple "pyval dict" pyval

text \<open>
  The attributes of a node object (\<open>NodeBase\<close> and \<open>Node\<close>); private attributes
  \<open>_x\<close> are named \<open>priv_x\<close>.

  \<^item> \<open>state\<close> is the object that the property \<open>NodeBase.state\<close> (node.py:140-160) returns
    and \<open>priv_splitter\<close> is \<open>_splitter\<close> as the property leaves it; the property builds
    the object with the constructor of the absent class \<open>State\<close>.  The property returns
    \<open>None\<close> exactly when it leaves \<open>_splitter\<close> \<open>None\<close> (node.py:145-159), so \<open>state\<close> is
    read only of an object whose \<open>priv_splitter\<close> is not \<open>None\<close> (\<open>state_of\<close> below).
  \<^item> \<open>obj_repr\<close> is \<open>str(self)\<close>, which the exception messages insert.
  \<^item> \<open>is_node_obj\<close> is \<open>isinstance(self, Node)\<close>.
  \<^item> \<open>state_inputs\<close>, \<open>priv_inputs\<close>, \<open>partial_split_input\<close> and \<open>partial_comb_input\<close>
    are attributes that exist only once they have been assigned (\<open>None\<close>: no such
    attribute); \<open>ready2run_attr\<close> is the instance attribute \<open>ready2run\<close> that
    \<open>Workflow.preparing\<close> assigns over the method.
  \<^item> \<open>output_names\<close> is the value of the property of that name (the fields of the
    output spec).
  \<^item> The multi-index of an element is a tuple of non-negative integers; an inner index
    is an integer or \<open>None\<close>.
\<close>

record node_core =
  name :: string
  obj_repr :: string
  is_node_obj :: bool
  inputs :: "pyval dict"
  state_inputs :: "pyval dict option"
  priv_inputs :: "pyval dict option"
  priv_splitter :: "splitter_expr option"
  priv_combiner :: "string list"
  state :: "state option"
  write_state :: bool
  priv_is_complete :: bool
  ready2run_attr :: "bool option"
  workingdir :: "string option"
  output_names :: "string list"
  results_dict :: "result dict"
  priv_output :: "out_entry dict"
  inner_states :: "(string \<times> (nat list \<times> (nat option \<times> pyval) list) list) list"
  inner_inputs_names :: "string list"
  wf_inner_splitters :: "string list"
  wf_inner_splitters_size :: "(string \<times> (nat list \<times> nat) list) list"
  partial_split_input :: "(string \<times> (nat \<times> nat) list) list option"
  partial_comb_input :: "(string \<times> (nat \<times> nat) list) list option"

text \<open>
  A node together with \<open>needed_outputs\<close>, the list of
  \<open>(upstream node, upstream field, local field)\<close>.  The upstream objects are held by
  reference in Python; the functions below read them and change only \<open>self\<close>.
\<close>

datatype node = Node (core: node_core) (needed_outputs: "(node \<times> string \<times> string) list")

definition upd_core :: "(node_core \<Rightarrow> node_core) \<Rightarrow> node \<Rightarrow> node" where
  "upd_core f n = Node (f (core n)) (needed_outputs n)"

section \<open>node.py: configuring a node\<close>

text \<open>
  The setter of the property \<open>splitter\<close> (node.py:166-170); the getter returns
  \<open>_splitter\<close>.
\<close>

definition splitter_setter :: "node \<Rightarrow> splitter_expr option \<Rightarrow> error + node" where
  "splitter_setter n splitter =
     (if opt_truthy (priv_splitter (core n)) \<and> priv_splitter (core n) \<noteq> splitter
      then Inl (Exception ''splitter is already set'')
      else Inr (upd_core (\<lambda>c. c\<lparr>priv_splitter := change_splitter_opt splitter (name c)\<rparr>) n))"

text \<open>
  \<open>dc.replace(self.inputs, **kwargs)\<close>: a keyword that is not a field of the input record
  is a \<open>TypeError\<close>.
\<close>

definition dc_replace :: "pyval dict \<Rightarrow> pyval dict \<Rightarrow> error + pyval dict" where
  "dc_replace inp kwargs =
     (if \<forall>k \<in> set (map fst kwargs). k \<in> set (map fst inp)
      then Inr (dict_update inp kwargs) else Inl TypeError)"

text \<open>\<open>NodeBase.split(splitter, **kwargs)\<close> (node.py:210-215).\<close>

definition split :: "node \<Rightarrow> splitter_expr option \<Rightarrow> pyval dict \<Rightarrow> error + node" where
  "split n splitter kwargs =
     (case splitter_setter n splitter of
        Inl e \<Rightarrow> Inl e
      | Inr n1 \<Rightarrow>
          if kwargs \<noteq> [] then
            (case dc_replace (inputs (core n1)) kwargs of
               Inl e \<Rightarrow> Inl e
             | Inr inp \<Rightarrow> Inr (upd_core (\<lambda>c. c\<lparr>inputs := inp, state_inputs := Some kwargs\<rparr>) n1))
          else Inr n1)"

text \<open>
  The argument of \<open>combine\<close>: \<open>None\<close>, a string, a list of names, or a value of another
  type (a tuple of names).
\<close>

datatype combiner_arg = CombNone | CombStr string | CombList "string list" | CombTuple "string list"

fun combiner_arg_truthy :: "combiner_arg \<Rightarrow> bool" where
  "combiner_arg_truthy CombNone = False"
| "combiner_arg_truthy (CombStr s) = (s \<noteq> [])"
| "combiner_arg_truthy (CombList xs) = (xs \<noteq> [])"
| "combiner_arg_truthy (CombTuple xs) = (xs \<noteq> [])"

text \<open>The setter of the property \<open>combiner\<close> (node.py:176-186).\<close>

definition combiner_setter :: "node \<Rightarrow> combiner_arg \<Rightarrow> error + node" where
  "combiner_setter n combiner =
     (if priv_combiner (core n) \<noteq> [] then Inl (Exception ''combiner is already set'')
      else if \<not> opt_truthy (priv_splitter (core n))
      then Inl (Exception ''splitter has to be set before setting combiner'')
      else (case combiner of
              CombStr s \<Rightarrow>
                Inr (upd_core (\<lambda>c. c\<lparr>priv_combiner := change_combiner [s] (name c)\<rparr>) n)
            | CombList xs \<Rightarrow>
                Inr (upd_core (\<lambda>c. c\<lparr>priv_combiner := change_combiner xs (name c)\<rparr>) n)
            | _ \<Rightarrow> Inl (Exception ''combiner should be a string or a list'')))"

text \<open>\<open>NodeBase.combine(combiner)\<close> (node.py:217-219).\<close>

definition combine :: "node \<Rightarrow> combiner_arg \<Rightarrow> error + node" where
  "combine n combiner = combiner_setter n combiner"

text \<open>
  \<open>NodeBase.is_finished\<close> (node.py:128-130) and \<open>NodeBase.ready2run\<close> (node.py:121-126).
\<close>

definition is_finished :: "node \<Rightarrow> nat list option \<Rightarrow> bool" where
  "is_finished n index = False"

fun ready2run_loop :: "(node \<times> string \<times> string) list \<Rightarrow> nat list option \<Rightarrow> bool" where
  "ready2run_loop [] index = True"
| "ready2run_loop ((nd, from_socket, to_socket) # rest) index =
     (if \<not> is_finished nd index then False else ready2run_loop rest index)"

definition ready2run :: "node \<Rightarrow> nat list option \<Rightarrow> bool" where
  "ready2run n index = ready2run_loop (needed_outputs n) index"

text \<open>
  What the constructors read from the class and from the file system: the fields of
  \<open>input_spec\<close> with their defaults (\<open>None\<close> for a spec that is falsy), the class
  attribute \<open>_input_sets\<close>, and the JSON files that \<open>inputs\<close> may name.
\<close>

record node_class =
  input_spec :: "(string \<times> pyval option) list option"
  input_sets :: "pyval dict dict option"
  json_files :: "string \<rightharpoonup> error + pyval dict"

datatype inputs_arg = InpNone | InpDict "pyval dict" | InpStr string

text \<open>The last step of \<open>NodeBase.__init__\<close> (node.py:76-86).\<close>

definition init_inputs :: "node_class \<Rightarrow> node \<Rightarrow> inputs_arg \<Rightarrow> error + node" where
  "init_inputs cls n inp =
     (let bind = (\<lambda>d. case dc_replace (inputs (core n)) d of
                         Inl e \<Rightarrow> Inl e
                       | Inr i \<Rightarrow> Inr (upd_core (\<lambda>c. c\<lparr>inputs := i, state_inputs := Some d\<rparr>) n))
      in case inp of
           InpNone \<Rightarrow> Inr n
         | InpDict d \<Rightarrow> if d = [] then Inr n else bind d
         | InpStr s \<Rightarrow>
             if s = [] then Inr n
             else (case json_files cls s of
                     Some (Inl e) \<Rightarrow> Inl e
                   | Some (Inr d) \<Rightarrow> bind d
                   | None \<Rightarrow>
                       (case map_of (case input_sets cls of None \<Rightarrow> [] | Some m \<Rightarrow> m) s of
                          None \<Rightarrow> Inl ValueError
                        | Some d \<Rightarrow> bind d)))"

text \<open>
  \<open>dc.fields(klass)\<close> for \<open>klass = make_klass(self.input_spec)\<close> (node.py:58-60):
  \<open>make_klass\<close> (helpers.py:174-202) builds the class with \<open>attr.make_class\<close>, and
  \<open>dataclasses.fields\<close> raises \<open>TypeError\<close> for a class that is not a dataclass.
\<close>

definition dc_fields :: "(string \<times> pyval option) list \<Rightarrow> error + (string \<times> pyval option) list"
  where "dc_fields flds = Inl TypeError"

text \<open>
  \<open>NodeBase.__init__(self, name, splitter=None, combiner=None, inputs=None,
  write_state=True)\<close> (node.py:31-86).  The attributes that it does not assign are left
  as the object \<open>self\<close> has them.  After \<open>self._state = None\<close> the property \<open>state\<close>
  builds the state object at its next read, with the constructor of the absent class
  \<open>State\<close>; until then the object has none.
\<close>

definition NodeBase_init ::
  "node_class \<Rightarrow> node \<Rightarrow> string \<Rightarrow> splitter_expr option \<Rightarrow> combiner_arg \<Rightarrow> inputs_arg \<Rightarrow> bool
   \<Rightarrow> error + node" where
  "NodeBase_init cls self nm splitter combiner inp ws =
     (case input_spec cls of
        None \<Rightarrow> Inl (Exception ''No input_spec in class'')
      | Some spec \<Rightarrow>
          bnd (dc_fields spec) (\<lambda>flds.
            (let n1 = Node ((core self)\<lparr>
                   name := nm,
                   inputs := map (\<lambda>(f, d). (f, case d of None \<Rightarrow> PyNone | Some v \<Rightarrow> v)) flds,
                   state := None,
                   priv_splitter :=
                     (if opt_truthy splitter then change_splitter_opt splitter nm else splitter),
                   priv_combiner := []\<rparr>) (needed_outputs self)
             in case (if combiner_arg_truthy combiner then combiner_setter n1 combiner
                      else Inr n1) of
                  Inl e \<Rightarrow> Inl e
                | Inr n2 \<Rightarrow>
                    init_inputs cls
                      (Node ((core n2)\<lparr>priv_is_complete := False, write_state := ws\<rparr>) []) inp)))"

text \<open>
  The parameters of \<open>NodeBase.__init__\<close> after \<open>self\<close> (node.py:31-33); it takes no
  \<open>**kwargs\<close>.  A call with a keyword that is not among them raises \<open>TypeError\<close> before
  the body runs.
\<close>

definition NodeBase_init_params :: "string list" where
  "NodeBase_init_params = [''name'', ''splitter'', ''combiner'', ''inputs'', ''write_state'']"

definition unexpected_keyword :: "string list \<Rightarrow> string list \<Rightarrow> string option" where
  "unexpected_keyword params keywords = find (\<lambda>k. k \<notin> set params) keywords"

text \<open>
  \<open>Node.__init__(self, name, inputs=None, splitter=None, workingdir=None,
  other_splitters=None, write_state=True, combiner=None)\<close> (node.py:468-482): it calls
  \<open>NodeBase.__init__\<close> with the keywords \<open>name\<close>, \<open>splitter\<close>, \<open>inputs\<close>,
  \<open>other_splitters\<close>, \<open>write_state\<close> and \<open>combiner\<close>, then assigns its own attributes.
\<close>

definition Node_init ::
  "node_class \<Rightarrow> node \<Rightarrow> string \<Rightarrow> inputs_arg \<Rightarrow> splitter_expr option \<Rightarrow> string option \<Rightarrow>
   pyval \<Rightarrow> bool \<Rightarrow> combiner_arg \<Rightarrow> error + node" where
  "Node_init cls self nm inp splitter wd other_splitters ws combiner =
     (case unexpected_keyword NodeBase_init_params
             [''name'', ''splitter'', ''inputs'', ''other_splitters'', ''write_state'', ''combiner''] of
        Some k \<Rightarrow> Inl TypeError
      | None \<Rightarrow>
          (case NodeBase_init cls self nm splitter combiner inp ws of
             Inl e \<Rightarrow> Inl e
           | Inr n \<Rightarrow>
               Inr (upd_core (\<lambda>c. c\<lparr>workingdir := wd, inner_inputs_names := [],
                      inner_states := [], wf_inner_splitters := [], results_dict := []\<rparr>) n)))"

section \<open>node.py: directory names\<close>

text \<open>
  \<open>self.state\<close> followed by the access to an attribute of the state.  The property
  returns \<open>None\<close>, which has no such attribute, for an object whose \<open>_splitter\<close> it leaves
  \<open>None\<close>.
\<close>

definition state_of :: "node \<Rightarrow> error + state" where
  "state_of n =
     (case priv_splitter (core n) of
        None \<Rightarrow> Inl AttributeError
      | Some splitter \<Rightarrow>
          (case state (core n) of None \<Rightarrow> Inl AttributeError | Some st \<Rightarrow> Inr st))"

text \<open>
  \<open>NodeBase._directory_name_state_surv(state_dict)\<close> (node.py:371-381).  The test
  \<open>key in self.state._splitter_rpn + self.state._inner_splitter\<close> is evaluated once per
  item, so an empty dictionary never reads \<open>self.state\<close>.
\<close>

definition directory_name_state_surv ::
  "extern \<Rightarrow> node \<Rightarrow> pyval dict \<Rightarrow> error + (string \<times> pyval dict)" where
  "directory_name_state_surv ext n state_dict =
     (if state_dict = [] then Inr ([], [])
      else bnd (state_of n) (\<lambda>st.
             (let state_surv_dict =
                    filter (\<lambda>(key, val). key \<in> set (splitter_rpn st @ inner_splitter st))
                      state_dict
              in Inr (join_items ext state_surv_dict, state_surv_dict))))"

section \<open>node.py: the inputs of one element\<close>

text \<open>\<open>getattr(n.results_dict[dir_nm].output, field)\<close>.\<close>

definition result_output :: "node \<Rightarrow> string \<Rightarrow> string \<Rightarrow> error + pyval" where
  "result_output n dir_nm field =
     (case map_of (results_dict (core n)) dir_nm of
        None \<Rightarrow> Inl KeyError
      | Some r \<Rightarrow>
          (case map_of (res_output r) field of None \<Rightarrow> Inl AttributeError | Some v \<Rightarrow> Inr v))"

text \<open>
  The exception of node.py:257, 276 and 303,
  \<open>Exception("output from {} doesnt exist".format(from_node))\<close>.
\<close>

definition missing_output :: "node \<Rightarrow> error" where
  "missing_output from_node =
     Exception (''output from '' @ obj_repr (core from_node) @ '' doesnt exist'')"

text \<open>\<open>"{}.{}".format(self.name, to_socket)\<close>.\<close>

definition socket_name :: "node \<Rightarrow> string \<Rightarrow> string" where
  "socket_name n to_socket = name (core n) @ ''.'' @ to_socket"

text \<open>
  \<open>NodeBase._state_dict_el_for_comb(ind, state_inputs, axis_for_input, value)\<close>
  (node.py:335-368), loop by loop.  \<open>ind[slice(a, b + 1)]\<close> on a tuple is
  \<open>take (b + 1 - a) (drop a ind)\<close>.
\<close>

definition el_for_comb_axis ::
  "extern \<Rightarrow> nat list \<Rightarrow> pyval dict \<Rightarrow> bool \<Rightarrow> pyval dict \<Rightarrow> string \<times> nat list \<Rightarrow> error + pyval dict"
  where
  "el_for_comb_axis ext ind st_inputs val state_dict_el inp_ax =
     (case inp_ax of (inp, ax) \<Rightarrow>
        if ax = [] then Inl IndexError
        else (let ind_inp = take (last ax + 1 - hd ax) (drop (hd ax) ind) in
              if val then
                bnd (dict_get st_inputs inp) (\<lambda>a.
                bnd (np_getitem ext a ind_inp) (\<lambda>v. Inr (dict_set state_dict_el inp v)))
              else
                Inr (dict_set state_dict_el inp
                       (PyStr (join_str ''x'' (map (\<lambda>el. str_of ext (PyInt (int el))) ind_inp))))))"

fun el_for_comb_take ::
  "extern \<Rightarrow> nat list \<Rightarrow> nat list \<times> pyval \<Rightarrow> nat \<times> nat \<Rightarrow> error + nat list \<times> pyval" where
  "el_for_comb_take ext ind (ind_inp, partial_input) (inp_ax, comb_ax) =
     (if comb_ax < length ind then
        bnd (np_take ext partial_input (ind ! comb_ax) inp_ax) (\<lambda>v.
          Inr (ind_inp @ [ind ! comb_ax], v))
      else Inl IndexError)"

definition el_for_comb_partial ::
  "extern \<Rightarrow> nat list \<Rightarrow> pyval dict \<Rightarrow> bool \<Rightarrow> pyval dict \<Rightarrow> string \<times> (nat \<times> nat) list
   \<Rightarrow> error + pyval dict" where
  "el_for_comb_partial ext ind st_inputs val state_dict_el inp_shift =
     (case inp_shift of (inp, ax_shift) \<Rightarrow>
        bnd (dict_get st_inputs inp) (\<lambda>a.
        bnd (fold_err (el_for_comb_take ext ind) ([], a) ax_shift) (\<lambda>(ind_inp, partial_input).
          if val then Inr (dict_set state_dict_el inp partial_input)
          else Inr (dict_set state_dict_el inp
                      (PyStr (join_str ''x'' (map (\<lambda>el. str_of ext (PyInt (int el))) ind_inp)))))))"

definition state_dict_el_for_comb ::
  "extern \<Rightarrow> node \<Rightarrow> nat list \<Rightarrow> pyval dict \<Rightarrow> (string \<times> nat list) list \<Rightarrow> bool
   \<Rightarrow> error + pyval dict" where
  "state_dict_el_for_comb ext self ind st_inputs ax_for_inp val =
     bnd (fold_err (el_for_comb_axis ext ind st_inputs val) [] ax_for_inp) (\<lambda>d1.
     bnd (case partial_comb_input (core self) of
            None \<Rightarrow> Inr d1
          | Some pci \<Rightarrow> fold_err (el_for_comb_partial ext ind st_inputs val) d1 pci) (\<lambda>d2.
     (case partial_comb_input (core self) of
        None \<Rightarrow> Inl AttributeError
      | Some pci \<Rightarrow>
          (let rest = filter (\<lambda>(k, v). k \<notin> set (map fst ax_for_inp) \<and> k \<notin> set (map fst pci))
                        st_inputs;
               d3 = fold (\<lambda>(k, v) d. dict_set d k (if val then v else PyNone)) rest d2
           in Inr (sort_key fst d3)))))"

text \<open>
  \<open>NodeBase._state_dict_all_comb(from_node, state_dict)\<close> (node.py:306-331).
  \<open>comb_inputs\<close> is the body of its first loop for one input of the combiner, which
  reads \<open>from_node.state\<close>, and \<open>comb_axes\<close> the body of the loop inside it for one
  \<open>(i, ax)\<close> of \<open>enumerate\<close>.
\<close>

fun comb_axes ::
  "extern \<Rightarrow> pyval dict \<Rightarrow> string \<Rightarrow> (nat \<times> nat) list \<times> nat list \<Rightarrow> nat \<times> nat
   \<Rightarrow> error + (nat \<times> nat) list \<times> nat list" where
  "comb_axes ext state_dict inp (elements_per_axes, all_axes) (i, ax) =
     bnd (dict_get state_dict inp) (\<lambda>a.
     bnd (np_shape ext a) (\<lambda>shp.
       if i < length shp then Inr (dict_set elements_per_axes ax (shp ! i), all_axes @ [ax])
       else Inl IndexError))"

fun comb_inputs ::
  "extern \<Rightarrow> node \<Rightarrow> pyval dict \<Rightarrow> (nat \<times> nat) list \<times> (string \<times> nat list) list \<times> nat list
   \<Rightarrow> string \<Rightarrow> error + (nat \<times> nat) list \<times> (string \<times> nat list) list \<times> nat list" where
  "comb_inputs ext from_node state_dict (elements_per_axes, ax_for_inp, all_axes) inp =
     bnd (state_of from_node) (\<lambda>from_st.
     bnd (dict_get (axis_for_input from_st) inp) (\<lambda>axs.
     bnd (fold_err (comb_axes ext state_dict inp) (elements_per_axes, all_axes)
            (zip [0..<length axs] axs)) (\<lambda>(epa, aa).
       Inr (epa, dict_set ax_for_inp inp axs, aa))))"

definition state_dict_all_comb ::
  "extern \<Rightarrow> node \<Rightarrow> node \<Rightarrow> pyval dict \<Rightarrow> error + pyval dict list" where
  "state_dict_all_comb ext self from_node state_dict =
     bnd (fold_err (comb_inputs ext from_node state_dict) ([], [], [])
            (priv_combiner (core from_node))) (\<lambda>(elements_per_axes, ax_for_inp, all_axes0).
       (let all_axes = sort (remdups all_axes0) in
        bnd (map_err (\<lambda>(inp, ax_l).
               bnd (map_err (list_index all_axes) ax_l) (\<lambda>ax_new_l. Inr (inp, ax_new_l)))
               ax_for_inp) (\<lambda>ax_for_inp'.
          (let shape = map snd (sort elements_per_axes);
               elems = map (\<lambda>i. [0..<i]) shape
           in map_err (\<lambda>ind. state_dict_el_for_comb ext self ind state_dict ax_for_inp' True)
                (itertools_product elems)))))"

text \<open>\<open>NodeBase._get_input_comb(from_node, from_socket, state_dict)\<close> (node.py:291-304).\<close>

definition get_input_comb_el ::
  "extern \<Rightarrow> node \<Rightarrow> string \<Rightarrow> pyval list \<Rightarrow> pyval dict \<Rightarrow> error + pyval list" where
  "get_input_comb_el ext from_node from_socket inputs_all st =
     (let dir_nm_el_from = join_items ext st in
      if is_node_obj (core from_node) then
        bnd (result_output from_node dir_nm_el_from from_socket) (\<lambda>out_from.
          if truthy out_from then Inr (inputs_all @ [out_from])
          else Inl (missing_output from_node))
      else Inr inputs_all)"

definition get_input_comb :: "extern \<Rightarrow> node \<Rightarrow> node \<Rightarrow> string \<Rightarrow> pyval dict \<Rightarrow> error + pyval" where
  "get_input_comb ext self from_node from_socket state_dict =
     bnd (state_dict_all_comb ext self from_node state_dict) (\<lambda>state_dict_all.
     bnd (fold_err (get_input_comb_el ext from_node from_socket) [] state_dict_all) (\<lambda>inputs_all.
       Inr (PyList inputs_all)))"

text \<open>
  \<open>NodeBase.get_input_el(ind, ind_inner)\<close> (node.py:229-289).

  \<open>take_axes\<close> and \<open>partial_split\<close> are the loops over \<open>partial_split_input\<close>
  (node.py:232-236); \<open>ax_shift.sort(reverse=True)\<close> sorts the list of the node in place.
\<close>

fun take_axes ::
  "extern \<Rightarrow> string \<Rightarrow> nat list \<Rightarrow> pyval dict \<Rightarrow> nat \<times> nat \<Rightarrow> error + pyval dict" where
  "take_axes ext inp ind state_dict (orig_ax, new_ax) =
     bnd (dict_get state_dict inp) (\<lambda>a.
       if new_ax < length ind then
         bnd (np_take ext a (ind ! new_ax) orig_ax) (\<lambda>v. Inr (dict_set state_dict inp v))
       else Inl IndexError)"

definition sort_reverse :: "(nat \<times> nat) list \<Rightarrow> (nat \<times> nat) list" where
  "sort_reverse ax_shift = rev (sort ax_shift)"

fun partial_split ::
  "extern \<Rightarrow> nat list \<Rightarrow> pyval dict \<Rightarrow> string \<times> (nat \<times> nat) list \<Rightarrow> error + pyval dict" where
  "partial_split ext ind state_dict (inp, ax_shift) =
     fold_err (take_axes ext inp ind) state_dict (sort_reverse ax_shift)"

text \<open>\<open>{k: state_dict[k] for k in self._inputs.keys()}\<close> (node.py:237).\<close>

definition own_input :: "pyval dict \<Rightarrow> pyval dict \<Rightarrow> string \<Rightarrow> error + pyval dict" where
  "own_input state_dict inputs_dict k =
     bnd (dict_get state_dict k) (\<lambda>v. Inr (dict_set inputs_dict k v))"

text \<open>
  The body of the loop over \<open>needed_outputs\<close> up to the inner states
  (node.py:242-276), on the pair \<open>(state_dict, inputs_dict)\<close>.  \<open>edge_inner_comb\<close> is
  the body of the loop of node.py:268-276.
\<close>

definition edge_inner_comb ::
  "extern \<Rightarrow> node \<Rightarrow> node \<Rightarrow> string \<Rightarrow> string \<Rightarrow> nat list \<Rightarrow> nat option \<Rightarrow>
   pyval dict \<times> pyval dict \<Rightarrow> string \<Rightarrow> error + pyval dict \<times> pyval dict" where
  "edge_inner_comb ext self from_node from_socket to_socket ind ind_inner sd_inp inner_nm =
     (case sd_inp of (state_dict, inputs_dict) \<Rightarrow>
        bnd (dict_get (inner_states (core from_node)) inner_nm) (\<lambda>m1.
        bnd (dict_get m1 ind) (\<lambda>m2.
        bnd (dict_get m2 ind_inner) (\<lambda>v.
          (let state_dict1 = dict_set state_dict inner_nm v in
           bnd (directory_name_state_surv ext from_node state_dict1) (\<lambda>(dir_nm_el_from, surv).
           bnd (result_output from_node dir_nm_el_from from_socket) (\<lambda>out_from.
             if truthy out_from
             then Inr (state_dict1, dict_set inputs_dict (socket_name self to_socket) out_from)
             else Inl (missing_output from_node))))))))"

definition edge_dicts ::
  "extern \<Rightarrow> node \<Rightarrow> nat list \<Rightarrow> nat option \<Rightarrow> pyval dict \<times> pyval dict \<Rightarrow>
   node \<times> string \<times> string \<Rightarrow> error + pyval dict \<times> pyval dict" where
  "edge_dicts ext self ind ind_inner sd_inp edge =
     (case sd_inp of (state_dict, inputs_dict) \<Rightarrow>
      case edge of (from_node, from_socket, to_socket) \<Rightarrow>
        bnd (state_of from_node) (\<lambda>from_st.
          if inner_splitter_comb from_st = [] then
            bnd (if st_combiner from_st \<noteq> [] then
                   bnd (get_input_comb ext self from_node from_socket state_dict) (\<lambda>v.
                     Inr (dict_set inputs_dict (socket_name self to_socket) v))
                 else
                   bnd (directory_name_state_surv ext from_node state_dict)
                     (\<lambda>(dir_nm_el_from, surv).
                       if is_node_obj (core from_node) then
                         bnd (result_output from_node dir_nm_el_from from_socket) (\<lambda>out_from.
                           if truthy out_from
                           then Inr (dict_set inputs_dict (socket_name self to_socket) out_from)
                           else Inl (missing_output from_node))
                       else Inr inputs_dict)) (\<lambda>inputs_dict1.
              (case ind_inner of
                 None \<Rightarrow> Inr (state_dict, inputs_dict1)
               | Some ii \<Rightarrow>
                   bnd (state_of self) (\<lambda>self_st.
                     (let inner_nm = socket_name self to_socket in
                      if inner_nm \<in> set (inner_splitter self_st) then
                        bnd (dict_get inputs_dict1 inner_nm) (\<lambda>seq.
                        bnd (py_getitem seq ii) (\<lambda>el.
                          Inr (dict_set state_dict inner_nm el, dict_set inputs_dict1 inner_nm el)))
                      else Inr (state_dict, inputs_dict1)))))
          else
            fold_err (edge_inner_comb ext self from_node from_socket to_socket ind ind_inner)
              (state_dict, inputs_dict) (inner_splitter_comb from_st)))"

text \<open>The end of the loop body (node.py:280-287): recording the inner state.\<close>

definition edge_inner_states ::
  "node \<Rightarrow> nat list \<Rightarrow> nat option \<Rightarrow> pyval dict \<Rightarrow>
   (string \<times> (nat list \<times> (nat option \<times> pyval) list) list) list \<Rightarrow> node \<times> string \<times> string \<Rightarrow>
   error + (string \<times> (nat list \<times> (nat option \<times> pyval) list) list) list" where
  "edge_inner_states self ind ind_inner inputs_dict ist edge =
     (case edge of (from_node, from_socket, to_socket) \<Rightarrow>
        bnd (state_of self) (\<lambda>self_st.
          (let inner_nm = socket_name self to_socket in
           if inner_splitter_comb self_st \<noteq> [] \<and> inner_nm \<in> set (inner_splitter_comb self_st) then
             bnd (dict_get inputs_dict inner_nm) (\<lambda>v.
               (let m1 = (case map_of ist inner_nm of None \<Rightarrow> [] | Some m \<Rightarrow> m);
                    m2 = (case map_of m1 ind of None \<Rightarrow> [] | Some m \<Rightarrow> m)
                in Inr (dict_set ist inner_nm (dict_set m1 ind (dict_set m2 ind_inner v)))))
           else Inr ist)))"

definition edge_step ::
  "extern \<Rightarrow> node \<Rightarrow> nat list \<Rightarrow> nat option \<Rightarrow>
   pyval dict \<times> pyval dict \<times> (string \<times> (nat list \<times> (nat option \<times> pyval) list) list) list \<Rightarrow>
   node \<times> string \<times> string \<Rightarrow>
   error + pyval dict \<times> pyval dict \<times> (string \<times> (nat list \<times> (nat option \<times> pyval) list) list) list"
  where
  "edge_step ext self ind ind_inner acc edge =
     (case acc of (state_dict, inputs_dict, ist) \<Rightarrow>
        bnd (edge_dicts ext self ind ind_inner (state_dict, inputs_dict) edge)
          (\<lambda>(state_dict1, inputs_dict1).
        bnd (edge_inner_states self ind ind_inner inputs_dict1 ist edge) (\<lambda>ist1.
          Inr (state_dict1, inputs_dict1, ist1))))"

definition get_input_el ::
  "extern \<Rightarrow> node \<Rightarrow> nat list \<Rightarrow> nat option \<Rightarrow> error + pyval dict \<times> pyval dict \<times> node" where
  "get_input_el ext self ind ind_inner =
     bnd (state_of self) (\<lambda>st.
     bnd (state_values st ind) (\<lambda>sd0.
     bnd (case partial_split_input (core self) of
            None \<Rightarrow> Inr sd0
          | Some psi \<Rightarrow> fold_err (partial_split ext ind) sd0 psi) (\<lambda>sd1.
     bnd (case priv_inputs (core self) of
            None \<Rightarrow> Inl AttributeError
          | Some d \<Rightarrow> fold_err (own_input sd1) [] (map fst d)) (\<lambda>inp0.
     bnd (if \<not> write_state (core self) then state_ind st ind else Inr sd1) (\<lambda>sd2.
     bnd (fold_err (edge_step ext self ind ind_inner) (sd2, inp0, inner_states (core self))
            (needed_outputs self)) (\<lambda>(state_dict, inputs_dict, ist).
       Inr (state_dict, inputs_dict,
            upd_core (\<lambda>c. c\<lparr>inner_states := ist,
                            partial_split_input :=
                              map_option (map (\<lambda>(inp, ax_shift). (inp, sort_reverse ax_shift)))
                                (partial_split_input c)\<rparr>) self)))))))"

section \<open>node.py: collecting and checking the outputs of a node\<close>

text \<open>\<open>NodeBase._combined_output(key_out, state_dict, output_el)\<close> (node.py:435-443).\<close>

definition combined_output ::
  "extern \<Rightarrow> node \<Rightarrow> string \<Rightarrow> pyval dict \<Rightarrow> pyval \<Rightarrow> error + node" where
  "combined_output ext self key_out state_dict output_el =
     bnd (state_of self) (\<lambda>st.
       (let dir_nm_comb =
              join_items ext
                (filter (\<lambda>(i, j). i \<notin> set (comb_inp_to_remove st @ inner_combiner st)) state_dict)
        in case map_of (priv_output (core self)) key_out of
             None \<Rightarrow> Inl KeyError
           | Some (OutTuple d v) \<Rightarrow> Inl AttributeError
           | Some (OutDict d) \<Rightarrow>
               (case map_of d dir_nm_comb of
                  Some (PyList vs) \<Rightarrow>
                    Inr (upd_core (\<lambda>c. c\<lparr>priv_output := dict_set (priv_output c) key_out
                           (OutDict (dict_set d dir_nm_comb (PyList (vs @ [output_el]))))\<rparr>) self)
                | Some other \<Rightarrow> Inl AttributeError
                | None \<Rightarrow>
                    Inr (upd_core (\<lambda>c. c\<lparr>priv_output := dict_set (priv_output c) key_out
                           (OutDict (dict_set d dir_nm_comb (PyList [output_el])))\<rparr>) self))))"

text \<open>\<open>self._output[key_out][dir_nm_el] = output_el\<close>.\<close>

definition set_output :: "node \<Rightarrow> string \<Rightarrow> string \<Rightarrow> pyval \<Rightarrow> error + node" where
  "set_output self key_out dir_nm_el output_el =
     (case map_of (priv_output (core self)) key_out of
        None \<Rightarrow> Inl KeyError
      | Some (OutTuple d v) \<Rightarrow> Inl TypeError
      | Some (OutDict d) \<Rightarrow>
          Inr (upd_core (\<lambda>c. c\<lparr>priv_output := dict_set (priv_output c) key_out
                 (OutDict (dict_set d dir_nm_el output_el))\<rparr>) self))"

text \<open>The state dictionary of an element (node.py:509-512 and 546-549).\<close>

definition element_state_dict :: "node \<Rightarrow> state \<Rightarrow> nat list \<Rightarrow> error + pyval dict" where
  "element_state_dict self st ind =
     (if write_state (core self) then state_values st ind else state_ind st ind)"

text \<open>
  \<open>self.wf_inner_splitters_size[self.state._inner_splitter[0]][ind]\<close> (node.py:516
  and 552).
\<close>

definition inner_size_of :: "node \<Rightarrow> state \<Rightarrow> nat list \<Rightarrow> error + nat" where
  "inner_size_of self st ind =
     bnd (dict_get (wf_inner_splitters_size (core self)) (hd (inner_splitter st))) (\<lambda>m.
       dict_get m ind)"

text \<open>
  \<open>Node.get_output\<close> (node.py:502-536): the body of the loop over \<open>ind_inner\<close>, the body
  of the loop over the elements, and the loop over the output names.
\<close>

definition get_output_inner ::
  "extern \<Rightarrow> string \<Rightarrow> nat list \<Rightarrow> node \<Rightarrow> nat \<Rightarrow> error + node" where
  "get_output_inner ext key_out ind self ind_inner =
     bnd (get_input_el ext self ind (Some ind_inner)) (\<lambda>(state_dict, inputs_dict, self1).
     bnd (directory_name_state_surv ext self1 state_dict) (\<lambda>(dir_nm_el, state_surv_dict).
     bnd (result_output self1 dir_nm_el key_out) (\<lambda>output_el.
       if priv_combiner (core self1) = [] then set_output self1 key_out dir_nm_el output_el
       else combined_output ext self1 key_out state_surv_dict output_el)))"

definition get_output_el :: "extern \<Rightarrow> string \<Rightarrow> node \<Rightarrow> nat list \<Rightarrow> error + node" where
  "get_output_el ext key_out self ind =
     bnd (state_of self) (\<lambda>st.
     bnd (element_state_dict self st ind) (\<lambda>state_dict.
       if inner_splitter st \<noteq> [] then
         bnd (inner_size_of self st ind) (\<lambda>inner_size.
           fold_err (get_output_inner ext key_out ind) self [0..<inner_size])
       else if opt_truthy (priv_splitter (core self)) then
         bnd (directory_name_state_surv ext self state_dict) (\<lambda>(dir_nm_el, state_surv_dict).
         bnd (result_output self dir_nm_el key_out) (\<lambda>output_el.
           if priv_combiner (core self) = [] then set_output self key_out dir_nm_el output_el
           else combined_output ext self key_out state_dict output_el))
       else
         bnd (directory_name_state_surv ext self state_dict) (\<lambda>(dir_nm_el, state_surv_dict).
         bnd (result_output self dir_nm_el key_out) (\<lambda>output_el.
           Inr (upd_core (\<lambda>c. c\<lparr>priv_output := dict_set (priv_output c) key_out
                  (OutTuple state_surv_dict output_el)\<rparr>) self)))))"

definition get_output_key :: "extern \<Rightarrow> node \<Rightarrow> string \<Rightarrow> error + node" where
  "get_output_key ext self key_out =
     (let self0 = upd_core (\<lambda>c. c\<lparr>priv_output := dict_set (priv_output c) key_out (OutDict [])\<rparr>)
                    self
      in bnd (state_of self0) (\<lambda>st.
           fold_err (get_output_el ext key_out) self0 (itertools_product (all_elements st))))"

definition get_output :: "extern \<Rightarrow> node \<Rightarrow> error + out_entry dict \<times> node" where
  "get_output ext self =
     bnd (fold_err (get_output_key ext) self (output_names (core self))) (\<lambda>self1.
       Inr (priv_output (core self1), self1))"







section \<open>node.py: workflows\<close>

text \<open>
  A workflow is a \<open>NodeBase\<close> object (\<open>wf_self\<close>) with a graph of child objects.  Python
  holds the children by reference in the graph, in \<open>_node_names\<close>, in \<open>connected_var\<close> and
  in \<open>needed_outputs\<close>; here \<open>nodes\<close> maps the name of each child to the object, and the
  other attributes refer to the children by name (the names of the nodes of a workflow are
  unique).

  \<^item> \<open>graph\<close> lists the children in the iteration order of \<open>self.graph\<close>, and
    \<open>graph_sorted\<close> is the value of the property of that name
    (\<open>nx.topological_sort\<close>, of the absent networkx).
  \<^item> \<open>node_names\<close> are the keys of \<open>_node_names\<close>.
  \<^item> \<open>connected_var\<close> maps a child to its \<open>(to_socket, from_node, from_socket)\<close>.
  \<^item> \<open>needed_inp_wf\<close> holds \<open>(node_nm, inp_wf, inp_nd)\<close>, \<open>wf_output_names\<close> holds tuples
    of two or three names.
  \<^item> \<open>inner_nodes\<close> maps a child to its clones, \<open>node_outputs\<close> maps a child to what its
    \<open>get_output\<close> returned (to the list of what its clones returned, when the workflow
    has a splitter).
\<close>

datatype node_out = OneOut "out_entry dict" | ManyOut "out_entry dict list"

record workflow =
  wf_self :: node
  nodes :: "node dict"
  graph :: "string list"
  graph_sorted :: "string list"
  node_names :: "string list"
  connected_var :: "(string \<times> (string \<times> string \<times> string) list) list"
  needed_inp_wf :: "(string \<times> string \<times> string) list"
  wf_output_names :: "string list list option"
  inner_nodes :: "node list dict"
  node_outputs :: "node_out dict"
  all_inner_splitters :: "string list"
  all_inner_splitters_size :: "(string \<times> (nat list \<times> nat) list) list"

text \<open>
  Methods of the children that the sources do not determine: \<open>nn.get_output()\<close> is chosen
  by the class of the child (\<open>Node.get_output\<close> above for a \<open>Node\<close>, \<open>Workflow.get_output\<close>
  for a sub-workflow, an override for a task class);
  \<open>nn.prepare_state_input()\<close> builds and prepares \<open>State(node=self)\<close> of the absent
  state.py, and is given by the node after the call; \<open>node.inputs.update({k: v})\<close> is a
  method of the input record, whose class is built from the absent specs.py.
\<close>

record wf_extern =
  child_get_output :: "node \<Rightarrow> error + out_entry dict \<times> node"
  prepare_state_input :: "node \<Rightarrow> error + node"
  update_inputs :: "pyval dict \<Rightarrow> string \<Rightarrow> pyval \<Rightarrow> error + pyval dict"

text \<open>The object that a name denotes.\<close>

definition obj_of :: "workflow \<Rightarrow> string \<Rightarrow> error + node" where
  "obj_of wfl nm = (case map_of (nodes wfl) nm of None \<Rightarrow> Inl NoSuchObject | Some n \<Rightarrow> Inr n)"

definition set_obj :: "workflow \<Rightarrow> string \<Rightarrow> node \<Rightarrow> workflow" where
  "set_obj wfl nm n = wfl\<lparr>nodes := dict_set (nodes wfl) nm n\<rparr>"

text \<open>
  A sequence of statements that change the workflow: the first exception ends it, and
  what was changed before stays changed.  The result is the exception, if any, and the
  workflow as the call leaves it.
\<close>

fun seq_steps :: "('s \<Rightarrow> 'a \<Rightarrow> error option \<times> 's) \<Rightarrow> 's \<Rightarrow> 'a list \<Rightarrow> error option \<times> 's" where
  "seq_steps f s [] = (None, s)"
| "seq_steps f s (x # xs) =
     (case f s x of (Some e, s') \<Rightarrow> (Some e, s') | (None, s') \<Rightarrow> seq_steps f s' xs)"

text \<open>\<open>os.path.join(a, *p)\<close> (posixpath).\<close>

fun path_join :: "string \<Rightarrow> string list \<Rightarrow> string" where
  "path_join path [] = path"
| "path_join path (b # p) =
     (if b \<noteq> [] \<and> hd b = CHR ''/'' then path_join b p
      else if path = [] \<or> last path = CHR ''/'' then path_join (path @ b) p
      else path_join (path @ ''/'' @ b) p)"

text \<open>\<open>Workflow.connect_wf_input(inp_wf, node_nm, inp_nd)\<close> (node.py:774-775).\<close>

definition connect_wf_input :: "workflow \<Rightarrow> string \<Rightarrow> string \<Rightarrow> string \<Rightarrow> workflow" where
  "connect_wf_input wfl inp_wf node_nm inp_nd =
     wfl\<lparr>needed_inp_wf := needed_inp_wf wfl @ [(node_nm, inp_wf, inp_nd)]\<rparr>"

text \<open>
  \<open>Workflow.preparing(wf_inputs, wf_inputs_ind, st_inputs)\<close> (node.py:778-830).
  \<open>bind_wf_input\<close> is the body of its first loop (node.py:781-793).
\<close>

definition bind_wf_input ::
  "wf_extern \<Rightarrow> pyval dict option \<Rightarrow> workflow \<Rightarrow> string \<times> string \<times> string
   \<Rightarrow> error option \<times> workflow" where
  "bind_wf_input wx wf_inputs wfl binding =
     (case binding of (node_nm, inp_wf, inp_nd) \<Rightarrow>
        if node_nm \<notin> set (node_names wfl) then (Some KeyError, wfl)
        else (case obj_of wfl node_nm of
                Inl e \<Rightarrow> (Some e, wfl)
              | Inr nd \<Rightarrow>
                  (case wf_inputs of
                     None \<Rightarrow> (Some TypeError, wfl)
                   | Some wi \<Rightarrow>
                       (let key = name (core (wf_self wfl)) @ ''.'' @ inp_wf in
                        case map_of wi key of
                          None \<Rightarrow> (Some (Exception (key @ '' not in the workflow inputs'')), wfl)
                        | Some v \<Rightarrow>
                            (case state_inputs (core nd) of
                               None \<Rightarrow> (Some AttributeError, wfl)
                             | Some si \<Rightarrow>
                                 (let nd1 = upd_core (\<lambda>c. c\<lparr>state_inputs :=
                                              Some (dict_set si (node_nm @ ''.'' @ inp_nd) v)\<rparr>) nd;
                                      wf1 = set_obj wfl node_nm nd1
                                  in case update_inputs wx (inputs (core nd1))
                                            (node_nm @ ''.'' @ inp_nd) v of
                                       Inl e \<Rightarrow> (Some e, wf1)
                                     | Inr i \<Rightarrow>
                                         (None, set_obj wf1 node_nm
                                                  (upd_core (\<lambda>c. c\<lparr>inputs := i\<rparr>) nd1))))))))"

text \<open>
  The body of the loop over \<open>self.connected_var[nn].items()\<close> (node.py:806-821) for the
  child named \<open>nn\<close>.  \<open>needed_outputs\<close> receives the upstream object as it is at this
  moment.
\<close>

definition connect_step ::
  "string \<Rightarrow> workflow \<Rightarrow> string \<times> string \<times> string \<Rightarrow> error option \<times> workflow" where
  "connect_step nn wfl conn =
     (case conn of (inp, out_nm, out_var) \<Rightarrow>
      case obj_of wfl nn of
        Inl e \<Rightarrow> (Some e, wfl)
      | Inr n0 \<Rightarrow>
          (let n1 = upd_core (\<lambda>c. c\<lparr>ready2run_attr := Some False\<rparr>) n0;
               wf1 = set_obj wfl nn n1
           in case obj_of wf1 out_nm of
                Inl e \<Rightarrow> (Some e, wf1)
              | Inr out_node \<Rightarrow>
                  (case state_inputs (core n1) of
                     None \<Rightarrow> (Some AttributeError, wf1)
                   | Some si \<Rightarrow>
                       (case state_inputs (core out_node) of
                          None \<Rightarrow> (Some AttributeError, wf1)
                        | Some so \<Rightarrow>
                            (let n2 = Node ((core n1)\<lparr>state_inputs := Some (dict_update si so)\<rparr>)
                                        (needed_outputs n1 @ [(out_node, out_var, inp)]);
                                 wf2 = set_obj wf1 nn n2
                             in if (\<not> opt_truthy (priv_splitter (core n2)) \<or>
                                    priv_splitter (core n2) = priv_splitter (core out_node)) \<and>
                                   opt_truthy (priv_splitter (core out_node))
                                then
                                  (if priv_combiner (core out_node) \<noteq> [] then
                                     (case state (core out_node) of
                                        None \<Rightarrow> (Some AttributeError, wf2)
                                      | Some ost \<Rightarrow>
                                          (case splitter_setter n2 (splitter_comb ost) of
                                             Inl e \<Rightarrow> (Some e, wf2)
                                           | Inr n3 \<Rightarrow>
                                               (None, set_obj wf2 nn
                                                  (upd_core (\<lambda>c. c\<lparr>
                                                     partial_split_input :=
                                                       Some (partial_comb_input_rem_axes ost),
                                                     partial_comb_input :=
                                                       Some (partial_comb_input_comb_axes ost)\<rparr>)
                                                     n3))))
                                   else
                                     (case splitter_setter n2 (priv_splitter (core out_node)) of
                                        Inl e \<Rightarrow> (Some e, wf2)
                                      | Inr n3 \<Rightarrow> (None, set_obj wf2 nn n3)))
                                else (None, wf2))))))"

text \<open>
  \<open>self._directory_name_state_surv(d)\<close> on an argument that may be \<open>None\<close>, and the
  truth value of such an argument.
\<close>

definition dir_name_opt :: "extern \<Rightarrow> node \<Rightarrow> pyval dict option \<Rightarrow> error + string \<times> pyval dict" where
  "dir_name_opt ext self d =
     (case d of None \<Rightarrow> Inl AttributeError | Some sd \<Rightarrow> directory_name_state_surv ext self sd)"

definition dict_opt_truthy :: "pyval dict option \<Rightarrow> bool" where
  "dict_opt_truthy d = (case d of None \<Rightarrow> False | Some sd \<Rightarrow> sd \<noteq> [])"

text \<open>
  The body of the loop over \<open>self.graph_sorted\<close> (node.py:794-830), in four parts:
  the directory of the workflow element (node.py:795-802), where \<open>st_inputs\<close> is the local
  variable that the loop may rebind; the working directory and the completeness flag of
  the child (node.py:803-804); the \<open>try\<close> block (node.py:805-825), whose
  \<open>except KeyError\<close> covers the lookup \<open>self.connected_var[nn]\<close> (the statements of the
  loop inside the \<open>try\<close> raise no \<open>KeyError\<close>); and the end of the body
  (node.py:827-830).
\<close>

definition prepare_dir ::
  "extern \<Rightarrow> pyval dict option \<Rightarrow> pyval dict option \<Rightarrow> pyval dict option \<Rightarrow> node
   \<Rightarrow> pyval dict option \<times> (error + string)" where
  "prepare_dir ext wf_inputs wf_inputs_ind st_inputs self =
     (let st_inputs1 = (if write_state (core self)
                        then (if \<not> dict_opt_truthy st_inputs then wf_inputs else st_inputs)
                        else st_inputs)
      in (st_inputs1,
          bnd (if write_state (core self) then dir_name_opt ext self st_inputs1
               else dir_name_opt ext self wf_inputs_ind) (\<lambda>(dir_nm_el, surv).
            Inr (if \<not> opt_truthy (priv_splitter (core self)) then [] else dir_nm_el))))"

definition prepare_workingdir :: "workflow \<Rightarrow> string \<Rightarrow> string \<Rightarrow> error option \<times> workflow" where
  "prepare_workingdir wfl nn dir_nm_el =
     (case obj_of wfl nn of
        Inl e \<Rightarrow> (Some e, wfl)
      | Inr n0 \<Rightarrow>
          (case workingdir (core (wf_self wfl)) of
             None \<Rightarrow> (Some TypeError, wfl)
           | Some wd \<Rightarrow>
               (None, set_obj wfl nn
                        (upd_core (\<lambda>c. c\<lparr>workingdir :=
                                     Some (path_join wd [dir_nm_el, name (core n0)]),
                                   priv_is_complete := False\<rparr>) n0))))"

definition prepare_connections :: "workflow \<Rightarrow> string \<Rightarrow> error option \<times> workflow" where
  "prepare_connections wfl nn =
     (case map_of (connected_var wfl) nn of
        None \<Rightarrow> (None, wfl)
      | Some conns \<Rightarrow> seq_steps (connect_step nn) wfl conns)"

definition prepare_state :: "wf_extern \<Rightarrow> workflow \<Rightarrow> string \<Rightarrow> error option \<times> workflow" where
  "prepare_state wx wfl nn =
     (case obj_of wfl nn of
        Inl e \<Rightarrow> (Some e, wfl)
      | Inr n2 \<Rightarrow>
          (let n3 = upd_core (\<lambda>c. c\<lparr>
                      inner_inputs_names :=
                        map (\<lambda>connected. snd (snd connected)) (needed_outputs n2),
                      wf_inner_splitters := all_inner_splitters wfl,
                      wf_inner_splitters_size := all_inner_splitters_size wfl\<rparr>) n2;
               wfl3 = set_obj wfl nn n3
           in case prepare_state_input wx n3 of
                Inl e \<Rightarrow> (Some e, wfl3)
              | Inr n4 \<Rightarrow> (None, set_obj wfl3 nn n4)))"

definition prepare_node ::
  "wf_extern \<Rightarrow> extern \<Rightarrow> pyval dict option \<Rightarrow> pyval dict option \<Rightarrow> pyval dict option \<times> workflow
   \<Rightarrow> string \<Rightarrow> error option \<times> pyval dict option \<times> workflow" where
  "prepare_node wx ext wf_inputs wf_inputs_ind acc nn =
     (case acc of (st_inputs, wfl) \<Rightarrow>
      case prepare_dir ext wf_inputs wf_inputs_ind st_inputs (wf_self wfl) of
        (st_inputs1, Inl e) \<Rightarrow> (Some e, st_inputs1, wfl)
      | (st_inputs1, Inr dir_nm_el) \<Rightarrow>
          (case prepare_workingdir wfl nn dir_nm_el of
             (Some e, wfl1) \<Rightarrow> (Some e, st_inputs1, wfl1)
           | (None, wfl1) \<Rightarrow>
               (case prepare_connections wfl1 nn of
                  (Some e, wfl2) \<Rightarrow> (Some e, st_inputs1, wfl2)
                | (None, wfl2) \<Rightarrow>
                    (case prepare_state wx wfl2 nn of (r, wfl3) \<Rightarrow> (r, st_inputs1, wfl3)))))"

definition preparing ::
  "wf_extern \<Rightarrow> extern \<Rightarrow> workflow \<Rightarrow> pyval dict option \<Rightarrow> pyval dict option \<Rightarrow> pyval dict option
   \<Rightarrow> error option \<times> workflow" where
  "preparing wx ext wfl wf_inputs wf_inputs_ind st_inputs =
     (let wf0 = wfl\<lparr>all_inner_splitters := []\<rparr> in
      case seq_steps (bind_wf_input wx wf_inputs) wf0 (needed_inp_wf wf0) of
        (Some e, wf1) \<Rightarrow> (Some e, wf1)
      | (None, wf1) \<Rightarrow>
          (case seq_steps (prepare_node wx ext wf_inputs wf_inputs_ind) (st_inputs, wf1)
                  (graph_sorted wf1) of
             (r, st, wf2) \<Rightarrow> (r, wf2)))"

text \<open>
  \<open>Workflow.get_output\<close> (node.py:650-685).  \<open>collect_node_output\<close> is the body of its
  first loop, \<open>wf_output_el\<close> the body of the loop over the elements of the workflow, and
  \<open>output_entry\<close> the body of the loop over \<open>wf_output_names\<close>.
\<close>

definition collect_clone ::
  "wf_extern \<Rightarrow> out_entry dict list \<times> node list \<Rightarrow> node \<Rightarrow> error + out_entry dict list \<times> node list"
  where
  "collect_clone wx acc ni =
     (case acc of (outs, clones) \<Rightarrow>
        bnd (child_get_output wx ni) (\<lambda>(out, ni'). Inr (outs @ [out], clones @ [ni'])))"

definition collect_node_output :: "wf_extern \<Rightarrow> workflow \<Rightarrow> string \<Rightarrow> error + workflow" where
  "collect_node_output wx wfl nn =
     bnd (obj_of wfl nn) (\<lambda>n0.
       if opt_truthy (priv_splitter (core (wf_self wfl))) then
         bnd (dict_get (inner_nodes wfl) (name (core n0))) (\<lambda>clones.
         bnd (fold_err (collect_clone wx) ([], []) clones) (\<lambda>(outs, clones').
           Inr (wfl\<lparr>inner_nodes := dict_set (inner_nodes wfl) (name (core n0)) clones',
                   node_outputs := dict_set (node_outputs wfl) (name (core n0)) (ManyOut outs)\<rparr>)))
       else
         bnd (child_get_output wx n0) (\<lambda>(out, n1).
           Inr ((set_obj wfl nn n1)\<lparr>node_outputs :=
                   dict_set (node_outputs wfl) (name (core n0)) (OneOut out)\<rparr>)))"

definition entry_names :: "string list \<Rightarrow> error + string \<times> string \<times> string" where
  "entry_names out =
     (case out of
        [a, b] \<Rightarrow> Inr (a, b, b)
      | [a, b, c] \<Rightarrow> Inr (a, b, c)
      | _ \<Rightarrow> Inl (Exception ''wf_output_names should have 2 or 3 elements''))"

definition wf_output_el ::
  "extern \<Rightarrow> string \<Rightarrow> string \<Rightarrow> string \<Rightarrow> workflow \<Rightarrow> nat \<times> nat list \<Rightarrow> error + workflow" where
  "wf_output_el ext node_nm out_nd_nm out_wf_nm wfl i_ind =
     (case i_ind of (i, ind) \<Rightarrow>
        bnd (state_of (wf_self wfl)) (\<lambda>st.
        bnd (element_state_dict (wf_self wfl) st ind) (\<lambda>wf_inputs_dict.
        bnd (directory_name_state_surv ext (wf_self wfl) wf_inputs_dict) (\<lambda>(dir_nm_el, surv).
        bnd (dict_get (node_outputs wfl) node_nm) (\<lambda>no.
        bnd (case no of
               ManyOut l \<Rightarrow> if i < length l then Inr (l ! i) else Inl IndexError
             | OneOut d \<Rightarrow> Inl KeyError) (\<lambda>d.
        bnd (dict_get d out_nd_nm) (\<lambda>output_el.
        bnd (case output_el of OutTuple sd v \<Rightarrow> Inr v | OutDict d' \<Rightarrow> Inl KeyError) (\<lambda>v.
        bnd (if priv_combiner (core (wf_self wfl)) = []
             then set_output (wf_self wfl) out_wf_nm dir_nm_el v
             else combined_output ext (wf_self wfl) out_wf_nm wf_inputs_dict v) (\<lambda>self1.
          Inr (wfl\<lparr>wf_self := self1\<rparr>))))))))))"

definition key_used :: "string \<Rightarrow> error" where
  "key_used out_wf_nm = Exception (''the key '' @ out_wf_nm @ '' is already used in workflow.result'')"

definition output_entry :: "extern \<Rightarrow> workflow \<Rightarrow> string list \<Rightarrow> error + workflow" where
  "output_entry ext wfl out =
     bnd (entry_names out) (\<lambda>(node_nm, out_nd_nm, out_wf_nm).
       if out_wf_nm \<notin> set (map fst (priv_output (core (wf_self wfl)))) then
         (if opt_truthy (priv_splitter (core (wf_self wfl))) then
            (let wf1 = wfl\<lparr>wf_self := upd_core (\<lambda>c. c\<lparr>priv_output :=
                            dict_set (priv_output c) out_wf_nm (OutDict [])\<rparr>) (wf_self wfl)\<rparr>
             in bnd (state_of (wf_self wf1)) (\<lambda>st.
                  (let els = itertools_product (all_elements st) in
                   fold_err (wf_output_el ext node_nm out_nd_nm out_wf_nm) wf1
                     (zip [0..<length els] els))))
          else
            bnd (dict_get (node_outputs wfl) node_nm) (\<lambda>no.
            bnd (case no of OneOut d \<Rightarrow> dict_get d out_nd_nm | ManyOut l \<Rightarrow> Inl TypeError)
              (\<lambda>entry.
                Inr (wfl\<lparr>wf_self := upd_core (\<lambda>c. c\<lparr>priv_output :=
                           dict_set (priv_output c) out_wf_nm entry\<rparr>) (wf_self wfl)\<rparr>))))
       else Inl (key_used out_wf_nm))"

definition Workflow_get_output ::
  "wf_extern \<Rightarrow> extern \<Rightarrow> workflow \<Rightarrow> error + out_entry dict \<times> workflow" where
  "Workflow_get_output wx ext wfl =
     bnd (fold_err (collect_node_output wx) (wfl\<lparr>node_outputs := []\<rparr>) (graph wfl)) (\<lambda>wf1.
     bnd (case wf_output_names wf1 of
            None \<Rightarrow> Inr wf1
          | Some outs \<Rightarrow> fold_err (output_entry ext) wf1 outs) (\<lambda>wf2.
       Inr (priv_output (core (wf_self wf2)), wf2)))"

section \<open>The elements of a node, as the properties refer to them\<close>

text \<open>
  A call returned without raising.
\<close>

definition is_ok :: "error + 'a \<Rightarrow> bool" where
  "is_ok r = (case r of Inl e \<Rightarrow> False | Inr x \<Rightarrow> True)"

text \<open>
  The directory of one element as the loops of \<open>Node.get_output\<close> and
  \<open>Node._check_all_results\<close> compute it: the directory name, the surviving state
  dictionary and the state dictionary.  An element is a multi-index \<open>ind\<close> and, for a
  node with an inner splitter, an inner index.
\<close>

definition element_dir ::
  "extern \<Rightarrow> node \<Rightarrow> nat list \<Rightarrow> nat option \<Rightarrow> error + string \<times> pyval dict \<times> pyval dict" where
  "element_dir ext n ind ii =
     (case ii of
        None \<Rightarrow>
          bnd (state_of n) (\<lambda>st.
          bnd (element_state_dict n st ind) (\<lambda>sd.
          bnd (directory_name_state_surv ext n sd) (\<lambda>(d, surv). Inr (d, surv, sd))))
      | Some i \<Rightarrow>
          bnd (get_input_el ext n ind (Some i)) (\<lambda>(sd, inp, m).
          bnd (directory_name_state_surv ext n sd) (\<lambda>(d, surv). Inr (d, surv, sd))))"


text \<open>
  The result object of an element is in \<open>results_dict\<close> and has every output field
  (\<open>element_present\<close>); the state dictionary of a multi-index is available and this
  holds for each of its elements (\<open>index_present\<close>).
\<close>

definition element_present :: "extern \<Rightarrow> node \<Rightarrow> nat list \<Rightarrow> nat option \<Rightarrow> bool" where
  "element_present ext n ind ii =
     (case element_dir ext n ind ii of
        Inl e \<Rightarrow> False
      | Inr (d, surv, sd) \<Rightarrow> list_all (\<lambda>k. is_ok (result_output n d k)) (output_names (core n)))"




text \<open>
  The multi-index of an element: \<open>ind\<close>, extended by the inner index when there is
  one.
\<close>

definition elem_index :: "nat list \<Rightarrow> nat option \<Rightarrow> nat list" where
  "elem_index ind ii = (case ii of None \<Rightarrow> ind | Some i \<Rightarrow> ind @ [i])"

text \<open>
  What one element contributes to the combined output of the field \<open>key_out\<close>: its
  multi-index, the name of its bucket (the \<open>dir_nm_comb\<close> of \<open>_combined_output\<close>, which
  \<open>get_output\<close> calls with the state dictionary, or with the surviving state dictionary
  under an inner splitter) and its output value.  \<open>el_entries\<close> lists the contributions
  of the elements of one multi-index, \<open>all_entries\<close> those of all elements, in the order
  in which \<open>get_output\<close> visits them.
\<close>

definition elem_entry ::
  "extern \<Rightarrow> node \<Rightarrow> string \<Rightarrow> nat list \<Rightarrow> nat option \<Rightarrow> error + nat list \<times> string \<times> pyval" where
  "elem_entry ext n key_out ind ii =
     bnd (element_dir ext n ind ii) (\<lambda>(d, surv, sd).
     bnd (result_output n d key_out) (\<lambda>v.
     bnd (state_of n) (\<lambda>st.
       Inr (elem_index ind ii,
            join_items ext
              (filter (\<lambda>(i, j). i \<notin> set (comb_inp_to_remove st @ inner_combiner st))
                 (case ii of None \<Rightarrow> sd | Some i \<Rightarrow> surv)),
            v))))"

definition el_entries ::
  "extern \<Rightarrow> node \<Rightarrow> string \<Rightarrow> nat list \<Rightarrow> error + (nat list \<times> string \<times> pyval) list" where
  "el_entries ext n key_out ind =
     bnd (state_of n) (\<lambda>st.
     bnd (element_state_dict n st ind) (\<lambda>sd.
       if inner_splitter st \<noteq> [] then
         bnd (inner_size_of n st ind) (\<lambda>inner_size.
           map_err (\<lambda>i. elem_entry ext n key_out ind (Some i)) [0..<inner_size])
       else bnd (elem_entry ext n key_out ind None) (\<lambda>e. Inr [e])))"

definition all_entries ::
  "extern \<Rightarrow> node \<Rightarrow> string \<Rightarrow> error + (nat list \<times> string \<times> pyval) list" where
  "all_entries ext n key_out =
     bnd (state_of n) (\<lambda>st.
     bnd (map_err (el_entries ext n key_out) (itertools_product (all_elements st))) (\<lambda>ess.
       Inr (concat ess)))"

section \<open>The directory name, as the specification words it\<close>

text \<open>
  The specification: "concatenate \<open>key:value\<close> pairs in sorted key order joined by \<open>_\<close>;
  the surviving variant filters out variables not present in the splitter RPN \<open>\<union>\<close> inner
  splitters".  \<open>surviving\<close> are the pairs that the surviving variant keeps, in the order
  of the dictionary.
\<close>

definition surviving :: "state \<Rightarrow> pyval dict \<Rightarrow> pyval dict" where
  "surviving st S = filter (\<lambda>(key, val). key \<in> set (splitter_rpn st @ inner_splitter st)) S"

definition spec_dir_name :: "extern \<Rightarrow> state \<Rightarrow> pyval dict \<Rightarrow> string" where
  "spec_dir_name ext st S =
     join_str ''_'' (map (\<lambda>(key, val). key @ '':'' @ str_of ext val)
                       (sort_key fst (surviving st S)))"

section \<open>Workflows, as the properties refer to them\<close>

text \<open>
  What planning has not touched: \<open>child_frame wfl wfl'\<close> holds when the two workflows have
  the same name and the same child names, and every child has in \<open>wfl'\<close> the working
  directory, the state and the completeness flag that it has in \<open>wfl\<close>.
\<close>

definition child_frame :: "workflow \<Rightarrow> workflow \<Rightarrow> bool" where
  "child_frame wfl wfl' \<longleftrightarrow>
     name (core (wf_self wfl')) = name (core (wf_self wfl)) \<and>
     node_names wfl' = node_names wfl \<and>
     (\<forall>nm. map_option (\<lambda>n. (workingdir (core n), state (core n), priv_is_complete (core n)))
             (map_of (nodes wfl') nm) =
           map_option (\<lambda>n. (workingdir (core n), state (core n), priv_is_complete (core n)))
             (map_of (nodes wfl) nm))"

text \<open>
  \<open>Workflow.get_output\<close> with the loop over \<open>wf_output_names\<close> run on the entries \<open>outs\<close>:
  the outputs of the children are collected and the entries \<open>outs\<close> are stored.
\<close>

definition get_output_upto ::
  "wf_extern \<Rightarrow> extern \<Rightarrow> workflow \<Rightarrow> string list list \<Rightarrow> error + workflow" where
  "get_output_upto wx ext wfl outs =
     bnd (fold_err (collect_node_output wx) (wfl\<lparr>node_outputs := []\<rparr>) (graph wfl)) (\<lambda>wf1.
       fold_err (output_entry ext) wf1 outs)"

section \<open>Auxiliary definitions of the proofs\<close>

text \<open>
  Two node objects agree when they differ at most in \<open>inner_states\<close>, in
  \<open>_output\<close> and in the order inside the lists of \<open>partial_split_input\<close>: the
  attributes that \<open>get_input_el\<close>, \<open>get_output\<close> and \<open>_check_all_results\<close> change.
\<close>

definition norm_shift :: "string \<times> (nat \<times> nat) list \<Rightarrow> string \<times> (nat \<times> nat) list" where
  "norm_shift p = (fst p, sort_reverse (snd p))"

definition agree_core :: "node \<Rightarrow> node \<Rightarrow> bool" where
  "agree_core n m \<longleftrightarrow>
     name (core m) = name (core n) \<and>
     obj_repr (core m) = obj_repr (core n) \<and>
     is_node_obj (core m) = is_node_obj (core n) \<and>
     priv_inputs (core m) = priv_inputs (core n) \<and>
     priv_splitter (core m) = priv_splitter (core n) \<and>
     priv_combiner (core m) = priv_combiner (core n) \<and>
     state (core m) = state (core n) \<and>
     write_state (core m) = write_state (core n) \<and>
     priv_is_complete (core m) = priv_is_complete (core n) \<and>
     output_names (core m) = output_names (core n) \<and>
     results_dict (core m) = results_dict (core n) \<and>
     wf_inner_splitters_size (core m) = wf_inner_splitters_size (core n) \<and>
     partial_comb_input (core m) = partial_comb_input (core n) \<and>
     map_option (map norm_shift) (partial_split_input (core m)) =
       map_option (map norm_shift) (partial_split_input (core n))"

definition agree :: "node \<Rightarrow> node \<Rightarrow> bool" where
  "agree n m \<longleftrightarrow> needed_outputs m = needed_outputs n \<and> agree_core n m"

text \<open>
  The two dictionaries of a result of \<open>get_input_el\<close> or of its loop, and the
  statements of \<open>get_input_el\<close> before the loop over \<open>needed_outputs\<close>.
\<close>

definition drop_ist :: "error + 'a \<times> 'b \<times> 'c \<Rightarrow> error + 'a \<times> 'b" where
  "drop_ist r = (case r of Inl e \<Rightarrow> Inl e | Inr (a, b, c) \<Rightarrow> Inr (a, b))"

definition gie_dicts :: "extern \<Rightarrow> node \<Rightarrow> nat list \<Rightarrow> nat option \<Rightarrow> error + pyval dict \<times> pyval dict"
  where "gie_dicts ext n ind ii = drop_ist (get_input_el ext n ind ii)"


text \<open>
  \<open>_check_all_results\<close> without the node: whether the checks of a list of items all
  succeed, for the output fields of a directory, for an element, for a multi-index and
  for the node.
\<close>

fun pure_check :: "('a \<Rightarrow> error + bool) \<Rightarrow> 'a list \<Rightarrow> error + bool" where
  "pure_check g [] = Inr True"
| "pure_check g (x # xs) =
     (case g x of Inl e \<Rightarrow> Inl e | Inr ok \<Rightarrow> if ok then pure_check g xs else Inr False)"


definition field_check :: "node \<Rightarrow> string \<Rightarrow> string \<Rightarrow> error + bool" where
  "field_check n d k = bnd (result_output n d k) (\<lambda>v. Inr (truthy v))"

definition elem_check :: "extern \<Rightarrow> node \<Rightarrow> nat list \<Rightarrow> nat option \<Rightarrow> error + bool" where
  "elem_check ext n ind ii =
     bnd (element_dir ext n ind ii) (\<lambda>(d, surv, sd).
       pure_check (field_check n d) (output_names (core n)))"



text \<open>
  Appending a value to its bucket, as \<open>_combined_output\<close> does, on the dictionary
  of one output field; \<open>collected n key s0 acc s\<close>: the object \<open>s\<close> agrees with \<open>n\<close>, holds
  the buckets \<open>acc\<close> for the field \<open>key\<close> and has the other fields of \<open>s0\<close>.
\<close>

definition bucket_vals :: "pyval dict \<Rightarrow> string \<Rightarrow> pyval list" where
  "bucket_vals d k = (case map_of d k of Some (PyList vs) \<Rightarrow> vs | _ \<Rightarrow> [])"

definition bucket_add :: "string \<times> pyval \<Rightarrow> pyval dict \<Rightarrow> pyval dict" where
  "bucket_add e d = dict_set d (fst e) (PyList (bucket_vals d (fst e) @ [snd e]))"

definition all_lists :: "pyval dict \<Rightarrow> bool" where
  "all_lists d \<longleftrightarrow> (\<forall>(k, v)\<in>set d. \<exists>vs. v = PyList vs)"

definition collected :: "node \<Rightarrow> string \<Rightarrow> node \<Rightarrow> pyval dict \<Rightarrow> node \<Rightarrow> bool" where
  "collected n key s0 acc s \<longleftrightarrow>
     agree n s \<and> map_of (priv_output (core s)) key = Some (OutDict acc) \<and> all_lists acc \<and>
     distinct (map fst acc) \<and>
     (\<forall>k. k \<noteq> key \<longrightarrow> map_of (priv_output (core s)) k = map_of (priv_output (core s0)) k)"

text \<open>
  The multi-indices of the elements of one \<open>ind\<close>.
\<close>

definition el_indices :: "node \<Rightarrow> state \<Rightarrow> nat list \<Rightarrow> nat list list" where
  "el_indices n st ind =
     (if inner_splitter st = [] then [ind]
      else (case inner_size_of n st ind of
              Inl e \<Rightarrow> []
            | Inr inner_size \<Rightarrow> map (\<lambda>i. ind @ [i]) [0..<inner_size]))"

text \<open>
  A workflow with other output names, the names of the outputs that a workflow holds,
  and the relation of a workflow to a later one that holds at least these names and has
  the same \<open>wf_output_names\<close>.
\<close>

definition with_names :: "string list list option \<Rightarrow> workflow \<Rightarrow> workflow" where
  "with_names x wfl = wfl\<lparr>wf_output_names := x\<rparr>"

definition out_keys :: "workflow \<Rightarrow> string set" where
  "out_keys wfl = fst ` set (priv_output (core (wf_self wfl)))"

definition grows :: "workflow \<Rightarrow> workflow \<Rightarrow> bool" where
  "grows wfl wfl' \<longleftrightarrow>
     out_keys wfl \<subseteq> out_keys wfl' \<and> wf_output_names wfl' = wf_output_names wfl"

section \<open>Concrete objects for the examples\<close>

text \<open>
  \<open>str(v)\<close> for \<open>None\<close>, booleans, integers and strings.  The examples use it on such
  values only; a list, whose \<open>str\<close> goes through \<open>repr\<close>, is not rendered.
\<close>

fun digits_of :: "nat \<Rightarrow> string" where
  "digits_of n =
     (if n < 10 then [''0123456789'' ! n]
      else digits_of (n div 10) @ [''0123456789'' ! (n mod 10)])"

declare digits_of.simps [simp del]

fun str_scalar :: "pyval \<Rightarrow> string" where
  "str_scalar PyNone = ''None''"
| "str_scalar (PyBool b) = (if b then ''True'' else ''False'')"
| "str_scalar (PyInt i) = (if i < 0 then ''-'' @ digits_of (nat (- i)) else digits_of (nat i))"
| "str_scalar (PyStr s) = s"
| "str_scalar (PyList xs) = []"

definition ext0 :: extern where
  "ext0 = \<lparr>str_of = str_scalar,
           np_take = (\<lambda>a i ax. py_getitem a i),
           np_shape = (\<lambda>a. case a of PyList xs \<Rightarrow> Inr [length xs] | _ \<Rightarrow> Inr []),
           np_getitem = (\<lambda>a ind. case ind of [] \<Rightarrow> Inr a | i # _ \<Rightarrow> py_getitem a i)\<rparr>"

text \<open>
  A node object with the attribute values that the constructors of node.py assign and,
  in addition, with \<open>_output = {}\<close> and \<open>_inputs = {}\<close>: node.py reads these two
  attributes and never assigns them, so they are those of an object that its user has
  completed.  And a state object without axes.
\<close>

definition blank_core :: "string \<Rightarrow> node_core" where
  "blank_core nm =
     \<lparr>name = nm, obj_repr = ''<Node '' @ nm @ ''>'', is_node_obj = True, inputs = [],
      state_inputs = None, priv_inputs = Some [], priv_splitter = None, priv_combiner = [],
      state = None, write_state = True, priv_is_complete = False, ready2run_attr = None,
      workingdir = None, output_names = [], results_dict = [], priv_output = [],
      inner_states = [], inner_inputs_names = [], wf_inner_splitters = [],
      wf_inner_splitters_size = [], partial_split_input = None, partial_comb_input = None\<rparr>"

definition blank_state :: "string \<Rightarrow> state" where
  "blank_state nm =
     \<lparr>st_name = nm, splitter_rpn = [], splitter_rpn_comb = [], inner_splitter = [],
      inner_splitter_comb = [], inner_combiner = [], comb_inp_to_remove = [],
      st_combiner = [], all_elements = [], axis_for_input = [],
      state_values = (\<lambda>ind. Inr []), state_ind = (\<lambda>ind. Inr []), splitter_comb = None,
      partial_comb_input_rem_axes = [], partial_comb_input_comb_axes = []\<rparr>"

text \<open>
  A node \<open>N\<close> with the splitter \<open>[N.a, N.b]\<close>, whose state splits over \<open>N.a\<close> and
  \<open>N.b\<close>; a node with splitter and combiner already set; a node \<open>B\<close> downstream of a
  node \<open>A\<close> that is complete.
\<close>

definition st_ab :: state where
  "st_ab = (blank_state ''N'')\<lparr>splitter_rpn := [''N.a'', ''N.b'', ''*'']\<rparr>"

definition node_ab :: node where
  "node_ab = Node ((blank_core ''N'')\<lparr>priv_splitter := Some (Lst [Str ''N.a'', Str ''N.b'']),
                                       state := Some st_ab\<rparr>) []"

definition node_comb :: node where
  "node_comb = Node ((blank_core ''N'')\<lparr>priv_splitter := Some (Str ''N.x''),
                                         priv_combiner := [''N.x''],
                                         state := Some ((blank_state ''N'')\<lparr>
                                           splitter_rpn := [''N.x''],
                                           st_combiner := [''N.x'']\<rparr>)\<rparr>) []"

definition node_up :: node where
  "node_up = Node ((blank_core ''A'')\<lparr>priv_is_complete := True\<rparr>) []"

definition node_down :: node where
  "node_down = Node (blank_core ''B'') [(node_up, ''out'', ''x'')]"





text \<open>
  The spec's scenario "combine one axis": splitter \<open>x \<times> y\<close>, combiner \<open>y\<close>, \<open>x = [1, 2]\<close>,
  \<open>y = [10, 20, 30]\<close> and \<open>out = x + y\<close>, with the expected combined output.
\<close>

definition st_c :: state where
  "st_c = (blank_state ''N'')\<lparr>splitter_rpn := [''N.x'', ''N.y'', ''*''],
     all_elements := [[0, 1], [0, 1, 2]], comb_inp_to_remove := [''N.y''],
     st_combiner := [''N.y''],
     state_values := (\<lambda>ind. case ind of
         [i, j] \<Rightarrow> Inr [(''N.x'', PyInt (int i + 1)), (''N.y'', PyInt (10 * (int j + 1)))]
       | _ \<Rightarrow> Inl IndexError)\<rparr>"

definition node_c :: node where
  "node_c = Node ((blank_core ''N'')\<lparr>state := Some st_c,
       priv_splitter := Some (Lst [Str ''N.x'', Str ''N.y'']), priv_combiner := [''N.y''],
       output_names := [''out''],
       results_dict :=
         [(''N.x:1_N.y:10'', \<lparr>res_output = [(''out'', PyInt 11)]\<rparr>),
          (''N.x:1_N.y:20'', \<lparr>res_output = [(''out'', PyInt 21)]\<rparr>),
          (''N.x:1_N.y:30'', \<lparr>res_output = [(''out'', PyInt 31)]\<rparr>),
          (''N.x:2_N.y:10'', \<lparr>res_output = [(''out'', PyInt 12)]\<rparr>),
          (''N.x:2_N.y:20'', \<lparr>res_output = [(''out'', PyInt 22)]\<rparr>),
          (''N.x:2_N.y:30'', \<lparr>res_output = [(''out'', PyInt 32)]\<rparr>)]\<rparr>) []"

definition out_c :: "out_entry dict" where
  "out_c = [(''out'', OutDict [(''N.x:1'', PyList [PyInt 11, PyInt 21, PyInt 31]),
                              (''N.x:2'', PyList [PyInt 12, PyInt 22, PyInt 32])])]"

text \<open>
  A node \<open>N\<close> with an inner splitter.  The upstream node \<open>A\<close> splits over \<open>A.x\<close> with the
  values 1 and 2, and its output \<open>out\<close> is the list \<open>[10, 20]\<close> for the first element and
  \<open>[30]\<close> for the second.  \<open>N\<close> takes this output as its input \<open>a\<close> and splits over its
  items: the inner splitter is \<open>N.a\<close>, of size 2 and 1, and the combiner is \<open>N.a\<close>.  The
  output of \<open>N\<close> is \<open>a + 1\<close>; the expected combined output has one bucket per value of
  \<open>A.x\<close>.
\<close>

definition st_a :: state where
  "st_a = (blank_state ''A'')\<lparr>splitter_rpn := [''A.x''], all_elements := [[0, 1]],
     state_values := (\<lambda>ind. case ind of [i] \<Rightarrow> Inr [(''A.x'', PyInt (int i + 1))]
                              | _ \<Rightarrow> Inl IndexError)\<rparr>"

definition node_a :: node where
  "node_a = Node ((blank_core ''A'')\<lparr>state := Some st_a, priv_splitter := Some (Str ''A.x''),
       output_names := [''out''],
       results_dict := [(''A.x:1'', \<lparr>res_output = [(''out'', PyList [PyInt 10, PyInt 20])]\<rparr>),
                        (''A.x:2'', \<lparr>res_output = [(''out'', PyList [PyInt 30])]\<rparr>)]\<rparr>) []"

definition st_i :: state where
  "st_i = (blank_state ''N'')\<lparr>splitter_rpn := [''A.x''], inner_splitter := [''N.a''],
     inner_combiner := [''N.a''], st_combiner := [''N.a''], all_elements := [[0, 1]],
     state_values := (\<lambda>ind. case ind of [i] \<Rightarrow> Inr [(''A.x'', PyInt (int i + 1))]
                              | _ \<Rightarrow> Inl IndexError)\<rparr>"

definition node_i :: node where
  "node_i = Node ((blank_core ''N'')\<lparr>state := Some st_i,
       priv_splitter := Some (Lst [Str ''A.x'', Str ''N.a'']), priv_combiner := [''N.a''],
       output_names := [''out''],
       wf_inner_splitters_size := [(''N.a'', [([0], 2), ([1], 1)])],
       results_dict :=
         [(''A.x:1_N.a:10'', \<lparr>res_output = [(''out'', PyInt 11)]\<rparr>),
          (''A.x:1_N.a:20'', \<lparr>res_output = [(''out'', PyInt 21)]\<rparr>),
          (''A.x:2_N.a:30'', \<lparr>res_output = [(''out'', PyInt 31)]\<rparr>)]\<rparr>)
     [(node_a, ''out'', ''a'')]"

definition out_i :: "out_entry dict" where
  "out_i = [(''out'', OutDict [(''A.x:1'', PyList [PyInt 11, PyInt 21]),
                              (''A.x:2'', PyList [PyInt 31])])]"



text \<open>
  A workflow \<open>wf\<close> with the node of the scenario above as its only child and two entries of
  \<open>wf_output_names\<close> that expose the output \<open>out\<close> of the child under the same name \<open>o\<close>;
  the child as \<open>preparing\<close> leaves it; the same workflow with a binding of the workflow
  input \<open>x\<close> in place of the output names; and with a binding of the workflow input \<open>y\<close>
  before that one.  The children are plain nodes, whose
  \<open>get_output\<close> is \<open>Node.get_output\<close>; \<open>prepare_state_input\<close> leaves the node as it is and
  \<open>inputs.update\<close> is that of a dictionary.
\<close>

definition wx0 :: wf_extern where
  "wx0 = \<lparr>child_get_output = get_output ext0, prepare_state_input = Inr,
          update_inputs = (\<lambda>d k v. Inr (dict_set d k v))\<rparr>"

definition wf_dup :: workflow where
  "wf_dup =
     \<lparr>wf_self = Node ((blank_core ''wf'')\<lparr>workingdir := Some ''/tmp''\<rparr>) [],
      nodes = [(''N'', node_c)], graph = [''N''], graph_sorted = [''N''], node_names = [''N''],
      connected_var = [], needed_inp_wf = [],
      wf_output_names = Some [[''N'', ''out'', ''o''], [''N'', ''out'', ''o'']],
      inner_nodes = [], node_outputs = [], all_inner_splitters = [],
      all_inner_splitters_size = []\<rparr>"

definition node_c_prepared :: node where
  "node_c_prepared = upd_core (\<lambda>c. c\<lparr>workingdir := Some ''/tmp/N''\<rparr>) node_c"

definition wf_miss :: workflow where
  "wf_miss = wf_dup\<lparr>needed_inp_wf := [(''N'', ''x'', ''a'')], wf_output_names := None\<rparr>"

definition wf_two :: workflow where
  "wf_two = wf_miss\<lparr>needed_inp_wf := [(''N'', ''y'', ''b''), (''N'', ''x'', ''a'')]\<rparr>"

section \<open>Theorems\<close>

subsection \<open>The result cache\<close>

lemma load_result_loop_absent:
  "\<forall>p\<in>set locs. p checksum = None \<Longrightarrow> load_result_loop loads checksum locs = Inr None"
  by (induction locs) auto

lemma load_result_loop_skip:
  "\<forall>p\<in>set pre. p checksum = None \<Longrightarrow>
   load_result_loop loads checksum (pre @ rest) = load_result_loop loads checksum rest"
  by (induction pre) auto

lemma load_result_Some:
  "load_result loads checksum (Some locs) = load_result_loop loads checksum locs"
  by (cases locs) (simp_all add: load_result_def)

text \<open>
  C6.  \<open>load_result\<close> consults the cache roots in order.  The first root that has a
  directory named by the checksum decides: a missing or empty result file gives none,
  whatever the later roots hold, and a non-empty result file gives its deserialised
  content.  When no root has the directory, or the list of roots is empty or none, the
  result is none.
\<close>

theorem load_result_first_root_decides:
  "load_result loads checksum None = Inr None \<and>
   load_result loads checksum (Some []) = Inr None \<and>
   ((\<forall>p\<in>set locs. p checksum = None) \<longrightarrow>
      load_result loads checksum (Some locs) = Inr None) \<and>
   ((\<forall>p\<in>set pre. p checksum = None) \<and> location checksum = Some d \<longrightarrow>
      load_result loads checksum (Some (pre @ location # post)) =
        (case d ''_result.pklz'' of
           None \<Rightarrow> Inr None
         | Some bs \<Rightarrow>
             if bs = [] then Inr None
             else (case loads bs of Inl e \<Rightarrow> Inl e | Inr r \<Rightarrow> Inr (Some r))))"
proof (intro conjI impI)
  show "load_result loads checksum None = Inr None"
    by (simp add: load_result_def)
  show "load_result loads checksum (Some []) = Inr None"
    by (simp add: load_result_def)
next
  assume "\<forall>p\<in>set locs. p checksum = None"
  then show "load_result loads checksum (Some locs) = Inr None"
    by (simp add: load_result_Some load_result_loop_absent)
next
  assume "(\<forall>p\<in>set pre. p checksum = None) \<and> location checksum = Some d"
  then show "load_result loads checksum (Some (pre @ location # post)) =
        (case d ''_result.pklz'' of
           None \<Rightarrow> Inr None
         | Some bs \<Rightarrow>
             if bs = [] then Inr None
             else (case loads bs of Inl e \<Rightarrow> Inl e | Inr r \<Rightarrow> Inr (Some r)))"
    by (simp add: load_result_Some load_result_loop_skip split: option.splits)
qed

theorem load_result_first_root_decides_witness:
  "load_result (\<lambda>bs. Inr (length bs)) ''c1'' None = Inr None \<and>
   load_result (\<lambda>bs. Inr (length bs)) ''c1'' (Some []) = Inr None \<and>
   load_result (\<lambda>bs. Inr (length bs)) ''c1'' (Some [Map.empty, Map.empty]) = Inr None \<and>
   load_result (\<lambda>bs. Inr (length bs)) ''c1''
     (Some ([Map.empty] @ [''c1'' \<mapsto> [''_result.pklz'' \<mapsto> '''']] #
        [[''c1'' \<mapsto> [''_result.pklz'' \<mapsto> ''abc'']]])) = Inr None \<and>
   load_result (\<lambda>bs. Inr (length bs)) ''c1''
     (Some ([Map.empty] @ [''c1'' \<mapsto> [''_result.pklz'' \<mapsto> ''abc'']] # [])) = Inr (Some 3)"
  using load_result_first_root_decides
          [of "\<lambda>bs. Inr (length bs)" "''c1''" "[Map.empty, Map.empty]" "[Map.empty]"
              "[''c1'' \<mapsto> [''_result.pklz'' \<mapsto> '''']]" "[''_result.pklz'' \<mapsto> '''']"
              "[[''c1'' \<mapsto> [''_result.pklz'' \<mapsto> ''abc'']]]"]
        load_result_first_root_decides
          [of "\<lambda>bs. Inr (length bs)" "''c1''" "[]" "[Map.empty]"
              "[''c1'' \<mapsto> [''_result.pklz'' \<mapsto> ''abc'']]" "[''_result.pklz'' \<mapsto> ''abc'']"
              "[]"]
  by simp

subsection \<open>Configuring a node\<close>

lemma upd_core_id: "f (core n) = core n \<Longrightarrow> upd_core f n = n"
  by (cases n) (simp add: upd_core_def)

lemma add_name_idem: "add_name nm (add_name nm s) = add_name nm s"
  by (simp add: add_name_def)

lemma change_splitter_idem: "change_splitter (change_splitter e nm) nm = change_splitter e nm"
  by (induction e nm rule: change_splitter.induct) (simp_all add: add_name_idem)

lemma change_splitter_opt_idem:
  "change_splitter_opt (change_splitter_opt s nm) nm = change_splitter_opt s nm"
  by (cases s) (simp_all add: change_splitter_opt_def change_splitter_idem)

text \<open>
  C3.  Constructing a \<open>Node\<close> raises \<open>TypeError\<close> for every combination of arguments:
  \<open>Node.__init__\<close> passes the keyword \<open>other_splitters\<close> to \<open>NodeBase.__init__\<close>, which
  does not accept it, so the constructor never returns an object.
\<close>

theorem Node_init_always_TypeError:
  "Node_init cls self nm inp splitter wd other_splitters ws combiner = Inl TypeError"
  by (simp add: Node_init_def unexpected_keyword_def NodeBase_init_params_def)

theorem Node_init_always_TypeError_witness:
  "Node_init \<lparr>input_spec = Some [(''x'', None)], input_sets = None, json_files = Map.empty\<rparr>
     (Node (blank_core []) []) ''N'' (InpDict [(''x'', PyInt 1)]) (Some (Str ''x'')) None PyNone
     True CombNone = Inl TypeError"
  using Node_init_always_TypeError
          [of "\<lparr>input_spec = Some [(''x'', None)], input_sets = None, json_files = Map.empty\<rparr>"
              "Node (blank_core []) []" "''N''" "InpDict [(''x'', PyInt 1)]" "Some (Str ''x'')"
              None PyNone True CombNone]
  by simp

lemma change_splitter_truthy:
  "splitter_truthy e \<Longrightarrow> splitter_truthy (change_splitter e nm)"
  by (cases e) (auto simp: add_name_def)

text \<open>
  C4, as the specification states it, fails: the setter compares the new expression with
  the stored splitter, which carries the node's name.  On a node \<open>N\<close> without splitter,
  \<open>split("x")\<close> stores \<open>N.x\<close>, and \<open>split("x")\<close> a second time, with the same expression,
  raises.
\<close>

theorem split_same_expression_counterexample:
  "split (Node (blank_core ''N'') []) (Some (Str ''x'')) [] =
     Inr (Node ((blank_core ''N'')\<lparr>priv_splitter := Some (Str ''N.x'')\<rparr>) []) \<and>
   split (Node ((blank_core ''N'')\<lparr>priv_splitter := Some (Str ''N.x'')\<rparr>) []) (Some (Str ''x'')) [] =
     Inl (Exception ''splitter is already set'')"
  by (simp add: split_def splitter_setter_def blank_core_def opt_truthy_def upd_core_def
        change_splitter_opt_def add_name_def)

text \<open>
  C4, amended.  For a node whose splitter is already set, \<open>split(splitter)\<close> succeeds when
  the new expression equals the stored splitter, and raises "splitter is already set" when
  it differs from the stored splitter.  On success the stored splitter becomes the new
  expression with the node's name prepended to its unqualified leaves; a stored splitter
  that the constructor or the setter produced is already in that form, and then the node
  is unchanged.  So on a node without splitter, \<open>split\<close> with an expression and then
  \<open>split\<close> with the same expression succeeds exactly when the expression is already
  name-qualified.
\<close>

theorem split_again:
  assumes "opt_truthy (priv_splitter (core n))"
  shows "(splitter = priv_splitter (core n) \<longrightarrow>
            split n splitter [] =
              Inr (upd_core (\<lambda>c. c\<lparr>priv_splitter := change_splitter_opt splitter (name c)\<rparr>) n)) \<and>
         (splitter = priv_splitter (core n) \<and>
          priv_splitter (core n) = change_splitter_opt s0 (name (core n)) \<longrightarrow>
            split n splitter [] = Inr n) \<and>
         (splitter \<noteq> priv_splitter (core n) \<longrightarrow>
            split n splitter [] = Inl (Exception ''splitter is already set'')) \<and>
         (\<not> opt_truthy (priv_splitter (core m)) \<and> splitter_truthy e \<longrightarrow>
            (\<exists>m1. split m (Some e) [] = Inr m1 \<and>
                  priv_splitter (core m1) = Some (change_splitter e (name (core m))) \<and>
                  split m1 (Some e) [] =
                    (if change_splitter e (name (core m)) = e then Inr m1
                     else Inl (Exception ''splitter is already set''))))"
proof (intro conjI impI)
  show "split n splitter [] =
          Inr (upd_core (\<lambda>c. c\<lparr>priv_splitter := change_splitter_opt splitter (name c)\<rparr>) n)"
    if "splitter = priv_splitter (core n)"
    using that by (simp add: split_def splitter_setter_def)
  show "split n splitter [] = Inr n"
    if "splitter = priv_splitter (core n) \<and>
        priv_splitter (core n) = change_splitter_opt s0 (name (core n))"
    using that
    by (auto simp: split_def splitter_setter_def change_splitter_opt_idem intro!: upd_core_id)
  show "split n splitter [] = Inl (Exception ''splitter is already set'')"
    if "splitter \<noteq> priv_splitter (core n)"
    using that assms by (auto simp: split_def splitter_setter_def)
  assume h: "\<not> opt_truthy (priv_splitter (core m)) \<and> splitter_truthy e"
  let ?m1 = "upd_core (\<lambda>c. c\<lparr>priv_splitter := Some (change_splitter e (name c))\<rparr>) m"
  have 1: "split m (Some e) [] = Inr ?m1"
    using h by (simp add: split_def splitter_setter_def change_splitter_opt_def)
  have c: "core ?m1 = (core m)\<lparr>priv_splitter := Some (change_splitter e (name (core m)))\<rparr>"
    by (simp add: upd_core_def)
  have 2: "priv_splitter (core ?m1) = Some (change_splitter e (name (core m)))"
    "name (core ?m1) = name (core m)"
    by (simp_all add: c)
  have t: "opt_truthy (priv_splitter (core ?m1))"
    using h by (simp add: 2 opt_truthy_def change_splitter_truthy)
  have 3: "split ?m1 (Some e) [] =
             (if change_splitter e (name (core m)) = e then Inr ?m1
              else Inl (Exception ''splitter is already set''))"
  proof (cases "change_splitter e (name (core m)) = e")
    case True
    have "upd_core (\<lambda>c. c\<lparr>priv_splitter := change_splitter_opt (Some e) (name c)\<rparr>) ?m1 = ?m1"
      by (rule upd_core_id) (simp add: c change_splitter_opt_def True)
    then show ?thesis
      using True t by (simp add: split_def splitter_setter_def 2)
  next
    case False
    then show ?thesis
      using t by (simp add: split_def splitter_setter_def 2)
  qed
  from 1 2(1) 3 show "\<exists>m1. split m (Some e) [] = Inr m1 \<and>
                  priv_splitter (core m1) = Some (change_splitter e (name (core m))) \<and>
                  split m1 (Some e) [] =
                    (if change_splitter e (name (core m)) = e then Inr m1
                     else Inl (Exception ''splitter is already set''))"
    by blast
qed

theorem split_again_witness:
  "opt_truthy (priv_splitter (core node_comb)) \<and>
   priv_splitter (core node_comb) = change_splitter_opt (Some (Str ''x'')) (name (core node_comb)) \<and>
   split node_comb (Some (Str ''N.x'')) [] = Inr node_comb \<and>
   split node_comb (Some (Str ''N.y'')) [] = Inl (Exception ''splitter is already set'') \<and>
   (\<exists>m1. split (Node (blank_core ''N'') []) (Some (Str ''N.x'')) [] = Inr m1 \<and>
         priv_splitter (core m1) = Some (Str ''N.x'') \<and>
         split m1 (Some (Str ''N.x'')) [] = Inr m1)"
  using split_again [of node_comb "Some (Str ''N.x'')" "Some (Str ''x'')"
                        "Node (blank_core ''N'') []" "Str ''N.x''"]
        split_again [of node_comb "Some (Str ''N.y'')" "Some (Str ''x'')"
                        "Node (blank_core ''N'') []" "Str ''N.x''"]
  by (simp add: node_comb_def blank_core_def opt_truthy_def change_splitter_opt_def add_name_def
        upd_core_def)

text \<open>
  C5, as the spec states it, has \<open>combine\<close> succeed on a node whose combiner is already
  set when the new combiner equals the old one.  The setter raises instead.
\<close>

theorem combine_again_counterexample:
  "priv_combiner (core node_comb) = [''N.x''] \<and>
   change_combiner [''N.x''] (name (core node_comb)) = priv_combiner (core node_comb) \<and>
   combine node_comb (CombList [''N.x'']) = Inl (Exception ''combiner is already set'')"
  by (simp add: node_comb_def combine_def combiner_setter_def blank_core_def change_combiner_def
        add_name_def)

text \<open>
  C5, amended.  \<open>combine(combiner)\<close> raises when no splitter has been set, and raises
  "combiner is already set" whenever a combiner is already set, whatever the new
  combiner; with a splitter and no combiner yet, a string or a list of names is stored
  with the node's name prepended.
\<close>

theorem combine_requires_splitter_and_no_combiner:
  "(\<not> opt_truthy (priv_splitter (core n)) \<longrightarrow> (\<exists>e. combine n c = Inl e)) \<and>
   (priv_combiner (core n) \<noteq> [] \<longrightarrow> combine n c = Inl (Exception ''combiner is already set'')) \<and>
   (opt_truthy (priv_splitter (core n)) \<and> priv_combiner (core n) = [] \<longrightarrow>
      combine n (CombList xs) =
        Inr (upd_core (\<lambda>c. c\<lparr>priv_combiner := change_combiner xs (name c)\<rparr>) n) \<and>
      combine n (CombStr s) =
        Inr (upd_core (\<lambda>c. c\<lparr>priv_combiner := change_combiner [s] (name c)\<rparr>) n))"
  by (simp add: combine_def combiner_setter_def)

theorem combine_requires_splitter_and_no_combiner_witness:
  "(\<exists>e. combine (Node (blank_core ''N'') []) (CombStr ''x'') = Inl e) \<and>
   combine node_comb (CombStr ''x'') = Inl (Exception ''combiner is already set'') \<and>
   combine (Node ((blank_core ''N'')\<lparr>priv_splitter := Some (Str ''N.x'')\<rparr>) []) (CombStr ''x'')
     = Inr (Node ((blank_core ''N'')\<lparr>priv_splitter := Some (Str ''N.x''),
                                      priv_combiner := [''N.x'']\<rparr>) [])"
  using combine_requires_splitter_and_no_combiner
          [of "Node (blank_core ''N'') []" "CombStr ''x''" "[]" "''x''"]
        combine_requires_splitter_and_no_combiner [of node_comb "CombStr ''x''" "[]" "''x''"]
        combine_requires_splitter_and_no_combiner
          [of "Node ((blank_core ''N'')\<lparr>priv_splitter := Some (Str ''N.x'')\<rparr>) []" "CombStr ''x''"
              "[]" "''x''"]
  by (simp add: node_comb_def blank_core_def opt_truthy_def upd_core_def change_combiner_def
        add_name_def)

subsection \<open>Readiness\<close>

lemma ready2run_loop_iff: "ready2run_loop xs index \<longleftrightarrow> xs = []"
  by (cases xs) (auto simp: is_finished_def)

text \<open>
  \<open>is_finished\<close> returns false for every node, so \<open>ready2run\<close> is true exactly for a
  node without upstream nodes.
\<close>

lemma ready2run_iff_no_upstream: "ready2run n index \<longleftrightarrow> needed_outputs n = []"
  by (simp add: ready2run_def ready2run_loop_iff)

text \<open>
  C2 asks \<open>ready2run\<close> to be true once every upstream node is complete.  For the node
  \<open>B\<close> with the single upstream node \<open>A\<close>, which is complete, it returns false.
\<close>

theorem ready2run_false_with_complete_upstream:
  "needed_outputs node_down = [(node_up, ''out'', ''x'')] \<and>
   priv_is_complete (core node_up) \<and>
   ready2run node_down (Some [0]) = False \<and> ready2run node_down None = False"
  by (simp add: node_down_def node_up_def ready2run_def is_finished_def)

subsection \<open>Directory names\<close>

lemma state_of_cong:
  assumes "priv_splitter (core m) = priv_splitter (core n)" "state (core m) = state (core n)"
  shows "state_of m = state_of n"
  unfolding state_of_def assms ..

lemma sorted_dict_unique:
  fixes S1 S2 :: "(string \<times> 'v) list"
  assumes "distinct (map fst S1)" "distinct (map fst S2)"
      and "sorted (map fst S1)" "sorted (map fst S2)" "map_of S1 = map_of S2"
  shows "S1 = S2"
proof -
  have s: "set S1 = set S2"
    using assms(1,2,5) by (simp add: map_of_inject_set)
  have "inj_on fst (set S1)"
    using assms(1) by (simp add: distinct_map)
  with s have "inj_on fst (set S1 \<union> set S2)" by simp
  then show ?thesis
    using assms(3) assms(1) assms(4) assms(2) s by (rule map_sorted_distinct_set_unique)
qed

lemma sorted_filter_fst:
  fixes S :: "(string \<times> 'v) list"
  shows "sorted (map fst S) \<Longrightarrow> sort_key fst (filter P S) = filter P S"
  by (simp add: sort_key_id_if_sorted sorted_filter)

lemma distinct_sort_key_fst:
  fixes S :: "(string \<times> 'v) list"
  shows "distinct (map fst S) \<Longrightarrow> distinct (map fst (sort_key fst S))"
proof -
  assume "distinct (map fst S)"
  moreover have "mset (map fst (sort_key fst S)) = mset (map fst S)" by simp
  ultimately show ?thesis by (metis mset_eq_imp_distinct_iff)
qed

lemma sort_same_mapping:
  fixes S1 S2 :: "(string \<times> 'v) list"
  assumes "distinct (map fst S1)" "distinct (map fst S2)" "map_of S1 = map_of S2"
  shows "sort_key fst S1 = sort_key fst S2"
proof (rule sorted_dict_unique)
  show "distinct (map fst (sort_key fst S1))" using assms(1) by (rule distinct_sort_key_fst)
  show "distinct (map fst (sort_key fst S2))" using assms(2) by (rule distinct_sort_key_fst)
  show "sorted (map fst (sort_key fst S1))" "sorted (map fst (sort_key fst S2))" by simp_all
  have s: "set S1 = set S2" using assms by (simp add: map_of_inject_set)
  have "set (sort_key fst S1) = set (sort_key fst S2)" using s by simp
  then show "map_of (sort_key fst S1) = map_of (sort_key fst S2)"
    using distinct_sort_key_fst [OF assms(1)] distinct_sort_key_fst [OF assms(2)]
    by (simp add: map_of_inject_set)
qed

lemma join_str_append:
  "xs \<noteq> [] \<Longrightarrow> ys \<noteq> [] \<Longrightarrow> join_str sep (xs @ ys) = join_str sep xs @ sep @ join_str sep ys"
  by (induction sep xs rule: join_str.induct) (auto simp: neq_Nil_conv)

lemma directory_name_closed_form:
  assumes "state_of n = Inr st"
  shows "directory_name_state_surv ext n S =
           Inr (join_str ''_'' (map (\<lambda>(key, val). key @ '':'' @ str_of ext val) (surviving st S)),
                surviving st S)"
proof -
  have f: "format_kv ext = (\<lambda>(key, val). key @ '':'' @ str_of ext val)"
    by (auto simp: format_kv_def fun_eq_iff)
  show ?thesis
    using assms
    by (cases "S = []")
       (simp_all add: directory_name_state_surv_def join_items_def surviving_def f Let_def)
qed

text \<open>
  C1, as the specification states it, makes the directory name a function of the
  key-to-value mapping alone.  The name follows the iteration order of the dictionary: on
  the node \<open>N\<close> with the splitter \<open>[N.a, N.b]\<close>, the same two pairs inserted in the two
  possible orders give two different names.
\<close>

theorem directory_name_insertion_order_counterexample:
  "map_of [(''N.b'', PyInt 1), (''N.a'', PyInt 2)] = map_of [(''N.a'', PyInt 2), (''N.b'', PyInt 1)] \<and>
   directory_name_state_surv ext0 node_ab [(''N.b'', PyInt 1), (''N.a'', PyInt 2)]
     = Inr (''N.b:1_N.a:2'', [(''N.b'', PyInt 1), (''N.a'', PyInt 2)]) \<and>
   directory_name_state_surv ext0 node_ab [(''N.a'', PyInt 2), (''N.b'', PyInt 1)]
     = Inr (''N.a:2_N.b:1'', [(''N.a'', PyInt 2), (''N.b'', PyInt 1)])"
  by (auto simp: directory_name_state_surv_def state_of_def node_ab_def st_ab_def blank_state_def
       blank_core_def join_items_def format_kv_def ext0_def digits_of.simps)

text \<open>
  C1, amended.  For every state dictionary \<open>S\<close> of a node that has a state, sorted or not,
  the directory name concatenates the surviving \<open>key:value\<close> pairs in the iteration order
  of \<open>S\<close>, joined by \<open>_\<close>; so the name of a dictionary to which further pairs are added is
  the name of the dictionary, \<open>_\<close>, and the name of the added pairs.  It is the name of the
  specification, in sorted key order, when the keys of \<open>S\<close> are in sorted order; and two
  dictionaries with the same key-to-value mapping, whatever their insertion orders, yield
  identical names once their items are sorted by key (as
  \<open>OrderedDict(sorted(...))\<close> of \<open>_state_dict_el_for_comb\<close> does), the name of the
  specification.
\<close>

theorem directory_name_iteration_order:
  assumes "state_of n = Inr st"
  shows "directory_name_state_surv ext n S =
           Inr (join_str ''_'' (map (\<lambda>(key, val). key @ '':'' @ str_of ext val) (surviving st S)),
                surviving st S) \<and>
         (surviving st A \<noteq> [] \<and> surviving st B \<noteq> [] \<and>
          directory_name_state_surv ext n A = Inr (da, sa) \<and>
          directory_name_state_surv ext n B = Inr (db, sb) \<longrightarrow>
            directory_name_state_surv ext n (A @ B) = Inr (da @ ''_'' @ db, sa @ sb)) \<and>
         (sorted (map fst T) \<longrightarrow>
            directory_name_state_surv ext n T = Inr (spec_dir_name ext st T, surviving st T)) \<and>
         (distinct (map fst S1) \<and> distinct (map fst S2) \<and> map_of S1 = map_of S2 \<longrightarrow>
            directory_name_state_surv ext n (sort_key fst S1) =
              directory_name_state_surv ext n (sort_key fst S2) \<and>
            directory_name_state_surv ext n (sort_key fst S1) =
              Inr (spec_dir_name ext st S2, sort_key fst (surviving st S2)))"
proof (intro conjI impI)
  note cf = directory_name_closed_form [OF assms]
  show "directory_name_state_surv ext n S =
           Inr (join_str ''_'' (map (\<lambda>(key, val). key @ '':'' @ str_of ext val) (surviving st S)),
                surviving st S)"
    by (rule cf)
  show "directory_name_state_surv ext n T = Inr (spec_dir_name ext st T, surviving st T)"
    if "sorted (map fst T)"
    using that by (simp add: cf spec_dir_name_def surviving_def sorted_filter_fst)
  show "directory_name_state_surv ext n (A @ B) = Inr (da @ ''_'' @ db, sa @ sb)"
    if "surviving st A \<noteq> [] \<and> surviving st B \<noteq> [] \<and>
          directory_name_state_surv ext n A = Inr (da, sa) \<and>
          directory_name_state_surv ext n B = Inr (db, sb)"
  proof -
    have "surviving st (A @ B) = surviving st A @ surviving st B"
      by (simp add: surviving_def)
    then show ?thesis
      using that by (auto simp: cf join_str_append)
  qed
  assume h: "distinct (map fst S1) \<and> distinct (map fst S2) \<and> map_of S1 = map_of S2"
  then have e: "sort_key fst S1 = sort_key fst S2" by (simp add: sort_same_mapping)
  show "directory_name_state_surv ext n (sort_key fst S1) =
          directory_name_state_surv ext n (sort_key fst S2)"
    by (simp add: e)
  have "surviving st (sort_key fst S2) = sort_key fst (surviving st S2)"
    by (simp add: surviving_def filter_sort)
  then show "directory_name_state_surv ext n (sort_key fst S1) =
              Inr (spec_dir_name ext st S2, sort_key fst (surviving st S2))"
    by (simp add: e cf spec_dir_name_def)
qed

theorem directory_name_iteration_order_witness:
  "directory_name_state_surv ext0 node_ab [(''N.b'', PyInt 1), (''N.c'', PyInt 3), (''N.a'', PyInt 2)]
     = Inr (''N.b:1_N.a:2'', [(''N.b'', PyInt 1), (''N.a'', PyInt 2)]) \<and>
   directory_name_state_surv ext0 node_ab ([(''N.b'', PyInt 1)] @ [(''N.a'', PyInt 2)])
     = Inr (''N.b:1'' @ ''_'' @ ''N.a:2'', [(''N.b'', PyInt 1)] @ [(''N.a'', PyInt 2)]) \<and>
   directory_name_state_surv ext0 node_ab [(''N.a'', PyInt 2), (''N.b'', PyInt 1), (''N.c'', PyInt 3)]
     = Inr (spec_dir_name ext0 st_ab [(''N.a'', PyInt 2), (''N.b'', PyInt 1), (''N.c'', PyInt 3)],
            [(''N.a'', PyInt 2), (''N.b'', PyInt 1)]) \<and>
   directory_name_state_surv ext0 node_ab (sort_key fst [(''N.b'', PyInt 1), (''N.a'', PyInt 2)])
     = directory_name_state_surv ext0 node_ab (sort_key fst [(''N.a'', PyInt 2), (''N.b'', PyInt 1)]) \<and>
   directory_name_state_surv ext0 node_ab (sort_key fst [(''N.b'', PyInt 1), (''N.a'', PyInt 2)])
     = Inr (''N.a:2_N.b:1'', [(''N.a'', PyInt 2), (''N.b'', PyInt 1)]) \<and>
   spec_dir_name ext0 st_ab [(''N.a'', PyInt 2), (''N.b'', PyInt 1)] = ''N.a:2_N.b:1''"
proof -
  have st: "state_of node_ab = Inr st_ab"
    by (simp add: state_of_def node_ab_def blank_core_def)
  have a: "directory_name_state_surv ext0 node_ab [(''N.b'', PyInt 1)]
             = Inr (''N.b:1'', [(''N.b'', PyInt 1)])"
    "directory_name_state_surv ext0 node_ab [(''N.a'', PyInt 2)]
             = Inr (''N.a:2'', [(''N.a'', PyInt 2)])"
    by (simp_all add: directory_name_state_surv_def st join_items_def format_kv_def st_ab_def
          blank_state_def ext0_def digits_of.simps)
  have s: "sorted (map fst [(''N.a'', PyInt 2), (''N.b'', PyInt 1), (''N.c'', PyInt 3)])"
    by (simp add: less_eq_char_def less_char_def)
  have m: "map_of [(''N.b'', PyInt 1), (''N.a'', PyInt 2)] =
           map_of [(''N.a'', PyInt 2), (''N.b'', PyInt 1)]"
    by auto
  have sp: "spec_dir_name ext0 st_ab [(''N.a'', PyInt 2), (''N.b'', PyInt 1)] = ''N.a:2_N.b:1''"
    by (simp add: spec_dir_name_def surviving_def st_ab_def blank_state_def ext0_def
          digits_of.simps less_eq_char_def less_char_def)
  have sv: "surviving st_ab [(''N.b'', PyInt 1), (''N.c'', PyInt 3), (''N.a'', PyInt 2)] =
              [(''N.b'', PyInt 1), (''N.a'', PyInt 2)]"
    "surviving st_ab [(''N.a'', PyInt 2), (''N.b'', PyInt 1), (''N.c'', PyInt 3)] =
              [(''N.a'', PyInt 2), (''N.b'', PyInt 1)]"
    "surviving st_ab [(''N.b'', PyInt 1)] = [(''N.b'', PyInt 1)]"
    "surviving st_ab [(''N.a'', PyInt 2)] = [(''N.a'', PyInt 2)]"
    "surviving st_ab [(''N.a'', PyInt 2), (''N.b'', PyInt 1)] =
              [(''N.a'', PyInt 2), (''N.b'', PyInt 1)]"
    by (simp_all add: surviving_def st_ab_def blank_state_def)
  show ?thesis
    using directory_name_iteration_order [OF st, of ext0
        "[(''N.b'', PyInt 1), (''N.c'', PyInt 3), (''N.a'', PyInt 2)]"
        "[(''N.b'', PyInt 1)]" "[(''N.a'', PyInt 2)]" "''N.b:1''" "[(''N.b'', PyInt 1)]"
        "''N.a:2''" "[(''N.a'', PyInt 2)]"
        "[(''N.a'', PyInt 2), (''N.b'', PyInt 1), (''N.c'', PyInt 3)]"
        "[(''N.b'', PyInt 1), (''N.a'', PyInt 2)]" "[(''N.a'', PyInt 2), (''N.b'', PyInt 1)]"]
      a s m sp sv
    by (simp add: ext0_def digits_of.simps less_eq_char_def less_char_def)
qed

subsection \<open>Node objects that differ in what the loops change\<close>

lemma agree_coreI: "agree n m \<Longrightarrow> agree_core n m"
  by (simp add: agree_def)


lemma agree_refl: "agree n n" by (simp add: agree_def agree_core_def)
lemma agree_sym: "agree n m \<Longrightarrow> agree m n" by (simp add: agree_def agree_core_def)
lemma agree_trans: "agree n m \<Longrightarrow> agree m k \<Longrightarrow> agree n k"
  by (simp add: agree_def agree_core_def)

lemma sort_reverse_idem: "sort_reverse (sort_reverse xs) = sort_reverse xs"
proof -
  have "sort (rev (sort xs)) = sort xs"
    by (rule properties_for_sort) simp_all
  then show ?thesis by (simp add: sort_reverse_def)
qed

lemma norm_shift_idem: "norm_shift (norm_shift p) = norm_shift p"
  by (simp add: norm_shift_def sort_reverse_idem)

lemma partial_split_norm: "partial_split ext ind sd (norm_shift p) = partial_split ext ind sd p"
  by (cases p) (simp add: norm_shift_def sort_reverse_idem)

lemma fold_partial_split_norm:
  "fold_err (partial_split ext ind) sd (map norm_shift psi) = fold_err (partial_split ext ind) sd psi"
  by (induction psi arbitrary: sd) (simp_all add: partial_split_norm split: sum.splits)

lemma norm_shift_eq: "(\<lambda>(inp, ax_shift). (inp, sort_reverse ax_shift)) = norm_shift"
  by (auto simp: norm_shift_def)

lemma agree_state_of:
  assumes "agree_core n m"
  shows "state_of m = state_of n"
proof -
  have "priv_splitter (core m) = priv_splitter (core n)" "state (core m) = state (core n)"
    using assms by (simp_all add: agree_core_def)
  then show ?thesis by (rule state_of_cong)
qed

lemma agree_result_output:
  assumes "agree_core n m"
  shows "result_output m = result_output n"
proof -
  have "results_dict (core m) = results_dict (core n)"
    using assms by (simp add: agree_core_def)
  then show ?thesis
    unfolding result_output_def by simp
qed

lemma agree_dnss:
  assumes "agree_core n m"
  shows "directory_name_state_surv ext m = directory_name_state_surv ext n"
  unfolding directory_name_state_surv_def agree_state_of [OF assms] ..

lemma agree_socket_name: "agree_core n m \<Longrightarrow> socket_name m = socket_name n"
  by (auto simp: agree_core_def socket_name_def fun_eq_iff)

lemma agree_el_for_comb:
  assumes "agree_core n m"
  shows "state_dict_el_for_comb ext m = state_dict_el_for_comb ext n"
proof -
  have "partial_comb_input (core m) = partial_comb_input (core n)"
    using assms by (simp add: agree_core_def)
  then show ?thesis
    unfolding state_dict_el_for_comb_def by simp
qed

lemma agree_all_comb:
  assumes "agree_core n m"
  shows "state_dict_all_comb ext m = state_dict_all_comb ext n"
  unfolding state_dict_all_comb_def agree_el_for_comb [OF assms] ..

lemma agree_get_input_comb:
  assumes "agree_core n m"
  shows "get_input_comb ext m = get_input_comb ext n"
  unfolding get_input_comb_def agree_all_comb [OF assms] ..

lemma agree_edge_inner_comb:
  assumes "agree_core n m"
  shows "edge_inner_comb ext m = edge_inner_comb ext n"
  unfolding edge_inner_comb_def agree_socket_name [OF assms] ..

lemma agree_edge_dicts:
  assumes "agree_core n m"
  shows "edge_dicts ext m = edge_dicts ext n"
  unfolding edge_dicts_def agree_socket_name [OF assms]
        agree_edge_inner_comb [OF assms] agree_get_input_comb [OF assms]
        agree_state_of [OF assms] ..

lemma agree_edge_inner_states:
  assumes "agree_core n m"
  shows "edge_inner_states m = edge_inner_states n"
  unfolding edge_inner_states_def agree_socket_name [OF assms]
        agree_state_of [OF assms] ..

lemma agree_edge_step:
  assumes "agree_core n m"
  shows "edge_step ext m = edge_step ext n"
  unfolding edge_step_def agree_edge_dicts [OF assms]
        agree_edge_inner_states [OF assms] ..

lemma bnd_Inl_iff: "bnd m f = Inl e \<longleftrightarrow> m = Inl e \<or> (\<exists>x. m = Inr x \<and> f x = Inl e)"
  by (cases m) simp_all

lemma bnd_Inr_iff: "bnd m f = Inr y \<longleftrightarrow> (\<exists>x. m = Inr x \<and> f x = Inr y)"
  by (cases m) simp_all

lemma edge_inner_states_err:
  "edge_inner_states n ind ii inp ist edge = Inl e \<Longrightarrow>
   edge_inner_states n ind ii inp ist' edge = Inl e"
  by (cases edge)
     (auto simp: edge_inner_states_def Let_def bnd_Inl_iff split: if_splits)

lemma edge_step_drop_ist:
  "drop_ist (edge_step ext n ind ii (sd, inp, ist) edge) =
   drop_ist (edge_step ext n ind ii (sd, inp, ist') edge)"
proof (cases "edge_dicts ext n ind ii (sd, inp) edge")
  case (Inl e)
  then show ?thesis by (simp add: edge_step_def drop_ist_def)
next
  case (Inr p)
  obtain sd1 inp1 where p: "p = (sd1, inp1)" by (cases p)
  show ?thesis
  proof (cases "edge_inner_states n ind ii inp1 ist edge")
    case (Inl e)
    then have "edge_inner_states n ind ii inp1 ist' edge = Inl e"
      by (rule edge_inner_states_err)
    with Inl Inr p show ?thesis by (simp add: edge_step_def drop_ist_def)
  next
    case a: (Inr i1)
    show ?thesis
    proof (cases "edge_inner_states n ind ii inp1 ist' edge")
      case (Inl e)
      then have "edge_inner_states n ind ii inp1 ist edge = Inl e"
        by (rule edge_inner_states_err)
      with a show ?thesis by simp
    next
      case b: (Inr i2)
      with a Inr p show ?thesis by (simp add: edge_step_def drop_ist_def)
    qed
  qed
qed

lemma fold_edges_drop_ist:
  "drop_ist (fold_err (edge_step ext n ind ii) (sd, inp, ist) es) =
   drop_ist (fold_err (edge_step ext n ind ii) (sd, inp, ist') es)"
proof (induction es arbitrary: sd inp ist ist')
  case Nil
  then show ?case by (simp add: drop_ist_def)
next
  case (Cons edge es)
  have h: "drop_ist (edge_step ext n ind ii (sd, inp, ist) edge) =
        drop_ist (edge_step ext n ind ii (sd, inp, ist') edge)"
    by (rule edge_step_drop_ist)
  show ?case
  proof (cases "edge_step ext n ind ii (sd, inp, ist) edge")
    case (Inl e)
    with h have "\<exists>e'. edge_step ext n ind ii (sd, inp, ist') edge = Inl e'"
      by (cases "edge_step ext n ind ii (sd, inp, ist') edge") (auto simp: drop_ist_def)
    with Inl h show ?thesis by (auto simp: drop_ist_def)
  next
    case (Inr t)
    obtain a b c where t: "t = (a, b, c)" by (cases t)
    with Inr h obtain c' where
      r: "edge_step ext n ind ii (sd, inp, ist') edge = Inr (a, b, c')"
      by (cases "edge_step ext n ind ii (sd, inp, ist') edge") (auto simp: drop_ist_def)
    show ?thesis using Inr t r Cons.IH [of a b c c'] by simp
  qed
qed

lemma drop_ist_bnd:
  "drop_ist (bnd m (\<lambda>(a, b, c). Inr (a, b, g a b c))) = drop_ist m"
  by (cases m) (auto simp: drop_ist_def)

lemma drop_ist_distrib: "drop_ist (bnd m f) = bnd m (\<lambda>x. drop_ist (f x))"
  by (cases m) (simp_all add: drop_ist_def)

lemma get_input_el_agree_result:
  assumes "get_input_el ext n ind ii = Inr (sd, inp, m)"
  shows "agree n m"
proof -
  from assms obtain ist where
    "m = upd_core (\<lambda>c. c\<lparr>inner_states := ist,
                            partial_split_input :=
                              map_option (map (\<lambda>(inp, ax_shift). (inp, sort_reverse ax_shift)))
                                (partial_split_input c)\<rparr>) n"
    by (auto simp: get_input_el_def bnd_Inr_iff)
  then show ?thesis
    by (simp add: agree_def agree_core_def upd_core_def norm_shift_eq option.map_comp comp_def
          norm_shift_idem)
qed

lemma psplit_norm:
  "(case map_option (map norm_shift) p of None \<Rightarrow> Inr sd0
    | Some psi \<Rightarrow> fold_err (partial_split ext ind) sd0 psi) =
   (case p of None \<Rightarrow> Inr sd0 | Some psi \<Rightarrow> fold_err (partial_split ext ind) sd0 psi)"
  by (cases p) (simp_all add: fold_partial_split_norm)

lemma get_input_el_drop:
  "gie_dicts ext n ind ii =
     bnd (state_of n) (\<lambda>st.
     bnd (state_values st ind) (\<lambda>sd0.
     bnd (case map_option (map norm_shift) (partial_split_input (core n)) of
            None \<Rightarrow> Inr sd0
          | Some psi \<Rightarrow> fold_err (partial_split ext ind) sd0 psi) (\<lambda>sd1.
     bnd (case priv_inputs (core n) of
            None \<Rightarrow> Inl AttributeError
          | Some d \<Rightarrow> fold_err (own_input sd1) [] (map fst d)) (\<lambda>inp0.
     bnd (if \<not> write_state (core n) then state_ind st ind else Inr sd1) (\<lambda>sd2.
       drop_ist (fold_err (edge_step ext n ind ii) (sd2, inp0, []) (needed_outputs n)))))))"
proof -
  have e: "\<And>M G. bnd M (\<lambda>x. drop_ist (case x of (a, b, c) \<Rightarrow> Inr (a, b, G a b c))) =
            drop_ist (M :: error + pyval dict \<times> pyval dict \<times> 'z)"
    subgoal for M G by (cases M) (auto simp: drop_ist_def)
    done
  show ?thesis
    unfolding gie_dicts_def get_input_el_def drop_ist_distrib e psplit_norm
      fold_edges_drop_ist [of ext n ind ii _ _ "inner_states (core n)" _ "[]"] ..
qed

lemma agree_gie_dicts:
  assumes "agree n m"
  shows "gie_dicts ext m ind ii = gie_dicts ext n ind ii"
proof -
  have h: "map_option (map norm_shift) (partial_split_input (core m)) =
        map_option (map norm_shift) (partial_split_input (core n))"
      "priv_inputs (core m) = priv_inputs (core n)"
      "write_state (core m) = write_state (core n)"
      "needed_outputs m = needed_outputs n"
    using assms by (simp_all add: agree_def agree_core_def)
  note c = agree_coreI [OF assms]
  show ?thesis
    unfolding get_input_el_drop h agree_state_of [OF c] agree_edge_step [OF c] ..
qed


lemma pure_check_True:
  "pure_check g xs = Inr True \<Longrightarrow> x \<in> set xs \<Longrightarrow> g x = Inr True"
  by (induction xs) (auto split: sum.splits if_splits)

lemma pure_check_False:
  "\<forall>x\<in>set xs. \<exists>ok. g x = Inr ok \<Longrightarrow> x \<in> set xs \<Longrightarrow> g x = Inr False \<Longrightarrow>
   pure_check g xs = Inr False"
  by (induction xs) (auto split: sum.splits if_splits)

lemma pure_check_noerr:
  "\<forall>x\<in>set xs. \<exists>ok. g x = Inr ok \<Longrightarrow> \<exists>ok. pure_check g xs = Inr ok"
  by (induction xs) (auto split: sum.splits if_splits)


lemma agree_element_dir:
  assumes "agree n s"
  shows "element_dir ext s ind ii = element_dir ext n ind ii"
proof (cases ii)
  case None
  have h: "write_state (core s) = write_state (core n)"
    using assms by (simp add: agree_def agree_core_def)
  show ?thesis
    by (simp add: element_dir_def None element_state_dict_def h
      agree_state_of [OF agree_coreI [OF assms]] agree_dnss [OF agree_coreI [OF assms]])
next
  case (Some i)
  have g: "gie_dicts ext s ind (Some i) = gie_dicts ext n ind (Some i)"
    by (rule agree_gie_dicts [OF assms])
  have e: "\<And>M k. bnd M (\<lambda>(sd, inp, m). k sd) = bnd (drop_ist M) (\<lambda>(sd, inp). k sd)"
    subgoal for M k by (cases M) (auto simp: drop_ist_def)
    done
  show ?thesis
    unfolding element_dir_def Some option.case e agree_dnss [OF agree_coreI [OF assms]]
    using g by (simp add: gie_dicts_def)
qed




lemma is_ok_iff: "is_ok r \<longleftrightarrow> (\<exists>x. r = Inr x)"
  by (cases r) (simp_all add: is_ok_def)

lemma fold_err_append:
  "fold_err f s (xs @ ys) = bnd (fold_err f s xs) (\<lambda>s'. fold_err f s' ys)"
  by (induction xs arbitrary: s) (simp_all split: sum.splits)







lemma falsy_elem_check:
  assumes "element_dir ext n ind ii = Inr (d, surv, sd)"
    and "key_out \<in> set (output_names (core n))"
    and "result_output n d key_out = Inr v" and "\<not> truthy v"
  shows "elem_check ext n ind ii \<noteq> Inr True"
proof
  assume "elem_check ext n ind ii = Inr True"
  then have "pure_check (field_check n d) (output_names (core n)) = Inr True"
    using assms(1) by (simp add: elem_check_def)
  then have "field_check n d key_out = Inr True"
    using assms(2) by (rule pure_check_True)
  then show False using assms(3,4) by (simp add: field_check_def)
qed


lemma element_present_noerr:
  assumes "element_present ext n ind ii"
  shows "\<exists>ok. elem_check ext n ind ii = Inr ok"
proof -
  from assms obtain d surv sd where
    e: "element_dir ext n ind ii = Inr (d, surv, sd)"
    and a: "\<forall>k\<in>set (output_names (core n)). is_ok (result_output n d k)"
    by (auto simp: element_present_def list_all_iff split: sum.splits)
  have "\<forall>k\<in>set (output_names (core n)). \<exists>ok. field_check n d k = Inr ok"
    using a by (auto simp: field_check_def is_ok_iff)
  then have "\<exists>ok. pure_check (field_check n d) (output_names (core n)) = Inr ok"
    by (rule pure_check_noerr)
  with e show ?thesis by (simp add: elem_check_def)
qed

lemma falsy_elem_check_False:
  assumes "element_dir ext n ind ii = Inr (d, surv, sd)"
    and "key_out \<in> set (output_names (core n))"
    and "result_output n d key_out = Inr v" and "\<not> truthy v"
    and "element_present ext n ind ii"
  shows "elem_check ext n ind ii = Inr False"
  using element_present_noerr [OF assms(5)] falsy_elem_check [OF assms(1-4)] by auto





subsection \<open>The combined output\<close>

lemma map_of_dict_set: "map_of (dict_set d k v) = (map_of d)(k \<mapsto> v)"
  by (induction d k v rule: dict_set.induct) (auto simp: fun_eq_iff)

lemma keys_dict_set: "fst ` set (dict_set d k v) = insert k (fst ` set d)"
  by (induction d k v rule: dict_set.induct) auto

lemma set_dict_set: "set (dict_set d k v) \<subseteq> insert (k, v) (set d)"
  by (induction d k v rule: dict_set.induct) auto

lemma distinct_dict_set: "distinct (map fst d) \<Longrightarrow> distinct (map fst (dict_set d k v))"
proof (induction d k v rule: dict_set.induct)
  case (1 k v)
  then show ?case by simp
next
  case (2 k' v' d k v)
  then show ?case
    using keys_dict_set [of d k v] by (auto simp: image_iff)
qed

lemma all_lists_bucket_add: "all_lists d \<Longrightarrow> all_lists (bucket_add e d)"
  using set_dict_set [of d "fst e" "PyList (bucket_vals d (fst e) @ [snd e])"]
  by (auto simp: all_lists_def bucket_add_def)

lemma bucket_vals_bucket_add:
  "bucket_vals (bucket_add e d) k = bucket_vals d k @ (if fst e = k then [snd e] else [])"
  by (simp add: bucket_vals_def bucket_add_def map_of_dict_set)

lemma fold_bucket_add:
  "bucket_vals (fold bucket_add es d) k = bucket_vals d k @ map snd (filter (\<lambda>e. fst e = k) es)"
  by (induction es arbitrary: d) (simp_all add: bucket_vals_bucket_add)

lemma fold_bucket_add_keys:
  "fst ` set (fold bucket_add es d) = fst ` set d \<union> fst ` set es"
  by (induction es arbitrary: d) (auto simp: bucket_add_def keys_dict_set)

lemma fold_bucket_add_distinct:
  "distinct (map fst d) \<Longrightarrow> distinct (map fst (fold bucket_add es d))"
  by (induction es arbitrary: d) (simp_all add: bucket_add_def distinct_dict_set)

lemma fold_bucket_add_all_lists:
  "all_lists d \<Longrightarrow> all_lists (fold bucket_add es d)"
  by (induction es arbitrary: d) (simp_all add: all_lists_bucket_add)

lemma buckets_from_empty:
  assumes "(k, v) \<in> set (fold bucket_add es [])"
  shows "v = PyList (map snd (filter (\<lambda>e. fst e = k) es))"
proof -
  let ?d = "fold bucket_add es []"
  have d: "distinct (map fst ?d)" by (rule fold_bucket_add_distinct) simp
  have "all_lists ?d" by (rule fold_bucket_add_all_lists) (simp add: all_lists_def)
  with assms obtain vs where vs: "v = PyList vs" by (auto simp: all_lists_def)
  have "map_of ?d k = Some v" using d assms by simp
  then have "bucket_vals ?d k = vs" using vs by (simp add: bucket_vals_def)
  moreover have "bucket_vals ?d k = map snd (filter (\<lambda>e. fst e = k) es)"
    by (simp add: fold_bucket_add) (simp add: bucket_vals_def)
  ultimately show ?thesis using vs by simp
qed

lemma length_itertools_product:
  "xs \<in> set (itertools_product xss) \<Longrightarrow> length xs = length xss"
  by (induction xss arbitrary: xs) auto

lemma sorted_wrt_concat_map:
  assumes "sorted_wrt R xs"
    and "\<And>x. x \<in> set xs \<Longrightarrow> sorted_wrt S (f x)"
    and "\<And>x y a b. x \<in> set xs \<Longrightarrow> y \<in> set xs \<Longrightarrow> R x y \<Longrightarrow> a \<in> set (f x) \<Longrightarrow> b \<in> set (f y) \<Longrightarrow> S a b"
  shows "sorted_wrt S (concat (map f xs))"
  using assms
proof (induction xs)
  case Nil
  then show ?case by simp
next
  case (Cons x xs)
  have "sorted_wrt S (concat (map f xs))"
  proof (rule Cons.IH)
    show "sorted_wrt R xs" using Cons.prems(1) by simp
    show "\<And>z. z \<in> set xs \<Longrightarrow> sorted_wrt S (f z)" using Cons.prems(2) by simp
    show "\<And>u v a b. u \<in> set xs \<Longrightarrow> v \<in> set xs \<Longrightarrow> R u v \<Longrightarrow> a \<in> set (f u) \<Longrightarrow>
           b \<in> set (f v) \<Longrightarrow> S a b"
      using Cons.prems(3) by (meson list.set_intros(2))
  qed
  moreover have "sorted_wrt S (f x)" using Cons.prems(2) by simp
  moreover have "\<forall>a\<in>set (f x). \<forall>b\<in>set (concat (map f xs)). S a b"
    using Cons.prems(1,3) by fastforce
  ultimately show ?case by (simp add: sorted_wrt_append)
qed

lemma itertools_product_sorted:
  fixes xss :: "nat list list"
  assumes "\<forall>xs\<in>set xss. sorted_wrt (<) xs"
  shows "sorted_wrt (<) (itertools_product xss)"
  using assms
proof (induction xss)
  case Nil
  then show ?case by simp
next
  case (Cons xs xss)
  have ih: "sorted_wrt (<) (itertools_product xss)" using Cons by simp
  have "sorted_wrt (<) (concat (map (\<lambda>x. map ((#) x) (itertools_product xss)) xs))"
  proof (rule sorted_wrt_concat_map [where R = "(<)"])
    show "sorted_wrt (<) xs" using Cons.prems by simp
  next
    fix x
    show "sorted_wrt (<) (map ((#) x) (itertools_product xss))"
      using ih by (simp add: sorted_wrt_map)
  next
    fix x y :: nat and a b
    assume "x < y" "a \<in> set (map ((#) x) (itertools_product xss))"
      "b \<in> set (map ((#) y) (itertools_product xss))"
    then show "a < b" by auto
  qed
  then show ?case by simp
qed

lemma less_append_same_length:
  fixes xs ys :: "nat list"
  assumes "xs < ys" "length xs = length ys"
  shows "xs @ u < ys @ v"
  using assms
  by (induction xs ys rule: list_induct2') auto

lemma agree_upd_output:
  "agree n s \<Longrightarrow> agree n (upd_core (\<lambda>c. c\<lparr>priv_output := x c\<rparr>) s)"
  by (simp add: agree_def agree_core_def upd_core_def)

lemma bnd_Inr_D: "bnd m f = Inr y \<Longrightarrow> \<exists>x. m = Inr x \<and> f x = Inr y"
  by (simp add: bnd_Inr_iff)

lemma combined_output_sim:
  assumes j: "collected n key s0 acc s" and st: "state_of n = Inr st"
    and c: "combined_output ext s key sdict v = Inr s'"
  shows "collected n key s0
           (bucket_add (join_items ext
              (filter (\<lambda>(i, j). i \<notin> set (comb_inp_to_remove st @ inner_combiner st)) sdict), v) acc)
           s'"
proof -
  let ?b = "join_items ext
              (filter (\<lambda>(i, j). i \<notin> set (comb_inp_to_remove st @ inner_combiner st)) sdict)"
  have a: "agree n s" and o: "map_of (priv_output (core s)) key = Some (OutDict acc)"
    and al: "all_lists acc" and di: "distinct (map fst acc)"
    and fr: "\<forall>k. k \<noteq> key \<longrightarrow> map_of (priv_output (core s)) k = map_of (priv_output (core s0)) k"
    using j by (simp_all add: collected_def)
  have so: "state_of s = Inr st" using st agree_state_of [OF agree_coreI [OF a]] by simp
  have s': "s' = upd_core (\<lambda>c. c\<lparr>priv_output := dict_set (priv_output (core s)) key
                           (OutDict (bucket_add (?b, v) acc))\<rparr>) s"
  proof (cases "map_of acc ?b")
    case None
    with c so o show ?thesis
      by (simp add: combined_output_def bucket_add_def bucket_vals_def upd_core_def)
  next
    case (Some w)
    then have "(?b, w) \<in> set acc" by (rule map_of_SomeD)
    with al obtain vs where "w = PyList vs" by (auto simp: all_lists_def)
    with Some c so o show ?thesis
      by (simp add: combined_output_def bucket_add_def bucket_vals_def upd_core_def)
  qed
  have "agree n s'" unfolding s' by (rule agree_upd_output [OF a])
  moreover have "map_of (priv_output (core s')) key = Some (OutDict (bucket_add (?b, v) acc))"
    unfolding s' by (simp add: upd_core_def map_of_dict_set)
  moreover have "all_lists (bucket_add (?b, v) acc)" using al by (rule all_lists_bucket_add)
  moreover have "distinct (map fst (bucket_add (?b, v) acc))"
    using di by (simp add: bucket_add_def distinct_dict_set)
  moreover have "\<forall>k. k \<noteq> key \<longrightarrow> map_of (priv_output (core s')) k = map_of (priv_output (core s0)) k"
    unfolding s' using fr by (simp add: upd_core_def map_of_dict_set)
  ultimately show ?thesis by (simp add: collected_def)
qed

lemma get_input_el_output:
  assumes "get_input_el ext s ind ii = Inr (sd, inp, s1)"
  shows "priv_output (core s1) = priv_output (core s)"
proof -
  from assms obtain ist where
    "s1 = upd_core (\<lambda>c. c\<lparr>inner_states := ist,
                            partial_split_input :=
                              map_option (map (\<lambda>(inp, ax_shift). (inp, sort_reverse ax_shift)))
                                (partial_split_input c)\<rparr>) s"
    by (auto simp: get_input_el_def bnd_Inr_iff)
  then show ?thesis by (simp add: upd_core_def)
qed

lemma collected_agree_change:
  assumes "collected n key s0 acc s" "agree s s1" "priv_output (core s1) = priv_output (core s)"
  shows "collected n key s0 acc s1"
  using assms agree_trans [of n s s1] by (simp add: collected_def)

lemma get_output_inner_sim:
  assumes j: "collected n key s0 acc s" and cb: "priv_combiner (core n) \<noteq> []"
    and g: "get_output_inner ext key ind s i = Inr s'"
  shows "\<exists>e. elem_entry ext n key ind (Some i) = Inr e \<and> collected n key s0 (bucket_add (snd e) acc) s'"
proof -
  have a: "agree n s" using j by (simp add: collected_def)
  from g obtain sd inp s1 where gi: "get_input_el ext s ind (Some i) = Inr (sd, inp, s1)"
    by (cases "get_input_el ext s ind (Some i)") (auto simp: get_output_inner_def)
  have a1: "agree s s1" using gi by (rule get_input_el_agree_result)
  have an: "agree n s1" using a a1 by (rule agree_trans)
  have j1: "collected n key s0 acc s1"
    using j a1 get_input_el_output [OF gi] by (rule collected_agree_change)
  note c1 = agree_coreI [OF an]
  from g gi obtain d surv where dn: "directory_name_state_surv ext n sd = Inr (d, surv)"
    by (cases "directory_name_state_surv ext n sd")
       (auto simp: get_output_inner_def agree_dnss [OF c1])
  from g gi dn obtain v where ro: "result_output n d key = Inr v"
    by (cases "result_output n d key")
       (auto simp: get_output_inner_def agree_dnss [OF c1] agree_result_output [OF c1])
  have pc: "priv_combiner (core s1) \<noteq> []" using an cb by (simp add: agree_def agree_core_def)
  have co: "combined_output ext s1 key surv v = Inr s'"
    using g gi dn ro pc
    by (simp add: get_output_inner_def agree_dnss [OF c1] agree_result_output [OF c1])
  obtain st where st: "state_of n = Inr st"
    using co agree_state_of [OF c1]
    by (cases "state_of n") (auto simp: combined_output_def)
  have ed: "element_dir ext n ind (Some i) = Inr (d, surv, sd)"
  proof -
    have "element_dir ext s ind (Some i) =
        bnd (directory_name_state_surv ext s sd) (\<lambda>(d, surv). Inr (d, surv, sd))"
      using gi by (simp add: element_dir_def)
    then show ?thesis
      using dn by (simp add: agree_element_dir [OF a] agree_dnss [OF agree_coreI [OF a]])
  qed
  have "elem_entry ext n key ind (Some i) =
      Inr (elem_index ind (Some i),
           join_items ext
             (filter (\<lambda>(i, j). i \<notin> set (comb_inp_to_remove st @ inner_combiner st)) surv), v)"
    using ed ro st by (simp add: elem_entry_def)
  moreover have "collected n key s0
           (bucket_add (join_items ext
              (filter (\<lambda>(i, j). i \<notin> set (comb_inp_to_remove st @ inner_combiner st)) surv), v) acc)
           s'"
    using j1 st co by (rule combined_output_sim)
  ultimately show ?thesis by simp
qed

lemma fold_err_sim1:
  assumes "\<And>s x acc s'. JJ acc s \<Longrightarrow> x \<in> set xs \<Longrightarrow> f s x = Inr s' \<Longrightarrow>
             \<exists>e. g x = Inr e \<and> JJ (bucket_add (snd e) acc) s'"
    and "JJ acc s" "fold_err f s xs = Inr s'"
  shows "\<exists>es. map_err g xs = Inr es \<and> JJ (fold bucket_add (map snd es) acc) s'"
  using assms
proof (induction xs arbitrary: s acc)
  case Nil
  then show ?case by simp
next
  case (Cons x xs)
  from Cons.prems(3) obtain s1 where s1: "f s x = Inr s1" "fold_err f s1 xs = Inr s'"
    by (cases "f s x") auto
  from Cons.prems(1) [OF Cons.prems(2) _ s1(1)] obtain e where
    e: "g x = Inr e" "JJ (bucket_add (snd e) acc) s1" by auto
  have "\<exists>es. map_err g xs = Inr es \<and> JJ (fold bucket_add (map snd es) (bucket_add (snd e) acc)) s'"
    using Cons.prems(1) e(2) s1(2) by (intro Cons.IH) auto
  with e show ?case by auto
qed

lemma fold_err_sim:
  assumes "\<And>s x acc s'. JJ acc s \<Longrightarrow> x \<in> set xs \<Longrightarrow> f s x = Inr s' \<Longrightarrow>
             \<exists>es. g x = Inr es \<and> JJ (fold bucket_add (map snd es) acc) s'"
    and "JJ acc s" "fold_err f s xs = Inr s'"
  shows "\<exists>ess. map_err g xs = Inr ess \<and> JJ (fold bucket_add (map snd (concat ess)) acc) s'"
  using assms
proof (induction xs arbitrary: s acc)
  case Nil
  then show ?case by simp
next
  case (Cons x xs)
  from Cons.prems(3) obtain s1 where s1: "f s x = Inr s1" "fold_err f s1 xs = Inr s'"
    by (cases "f s x") auto
  from Cons.prems(1) [OF Cons.prems(2) _ s1(1)] obtain es where
    e: "g x = Inr es" "JJ (fold bucket_add (map snd es) acc) s1" by auto
  have "\<exists>ess. map_err g xs = Inr ess \<and>
          JJ (fold bucket_add (map snd (concat ess)) (fold bucket_add (map snd es) acc)) s'"
    using Cons.prems(1) e(2) s1(2) by (intro Cons.IH) auto
  with e show ?case by auto
qed

lemma get_output_el_sim:
  assumes j: "collected n key s0 acc s" and cb: "priv_combiner (core n) \<noteq> []"
    and sp: "opt_truthy (priv_splitter (core n))"
    and g: "get_output_el ext key s ind = Inr s'"
  shows "\<exists>es. el_entries ext n key ind = Inr es \<and>
              collected n key s0 (fold bucket_add (map snd es) acc) s'"
proof -
  have a: "agree n s" using j by (simp add: collected_def)
  note c = agree_coreI [OF a]
  have h: "write_state (core s) = write_state (core n)"
     "wf_inner_splitters_size (core s) = wf_inner_splitters_size (core n)"
     "priv_combiner (core s) = priv_combiner (core n)"
     "priv_splitter (core s) = priv_splitter (core n)"
    using a by (simp_all add: agree_def agree_core_def)
  from g obtain st where st: "state_of n = Inr st"
    by (cases "state_of n") (auto simp: get_output_el_def agree_state_of [OF c])
  have esd: "element_state_dict s st ind = element_state_dict n st ind"
    by (simp add: element_state_dict_def h)
  have isz: "inner_size_of s st ind = inner_size_of n st ind"
    by (simp add: inner_size_of_def h)
  from g st obtain sd where sd: "element_state_dict n st ind = Inr sd"
    by (cases "element_state_dict n st ind")
       (auto simp: get_output_el_def agree_state_of [OF c] esd)
  show ?thesis
  proof (cases "inner_splitter st = []")
    case True
    from g st sd True sp obtain d surv where dn: "directory_name_state_surv ext n sd = Inr (d, surv)"
      by (cases "directory_name_state_surv ext n sd")
         (auto simp: get_output_el_def agree_state_of [OF c] esd h agree_dnss [OF c])
    from g st sd True sp dn obtain v where ro: "result_output n d key = Inr v"
      by (cases "result_output n d key")
         (auto simp: get_output_el_def agree_state_of [OF c] esd h agree_dnss [OF c]
            agree_result_output [OF c])
    have co: "combined_output ext s key sd v = Inr s'"
      using g st sd True sp dn ro cb
      by (simp add: get_output_el_def agree_state_of [OF c] esd h agree_dnss [OF c]
            agree_result_output [OF c])
    have ed: "element_dir ext n ind None = Inr (d, surv, sd)"
      using st sd dn by (simp add: element_dir_def)
    have "el_entries ext n key ind =
        Inr [(elem_index ind None,
           join_items ext
             (filter (\<lambda>(i, j). i \<notin> set (comb_inp_to_remove st @ inner_combiner st)) sd), v)]"
      using st sd True ed ro by (simp add: el_entries_def elem_entry_def)
    moreover have "collected n key s0
           (bucket_add (join_items ext
              (filter (\<lambda>(i, j). i \<notin> set (comb_inp_to_remove st @ inner_combiner st)) sd), v) acc)
           s'"
      using j st co by (rule combined_output_sim)
    ultimately show ?thesis by simp
  next
    case False
    from g st sd False obtain sz where sz: "inner_size_of n st ind = Inr sz"
      by (cases "inner_size_of n st ind")
         (auto simp: get_output_el_def agree_state_of [OF c] esd isz)
    have f: "fold_err (get_output_inner ext key ind) s [0..<sz] = Inr s'"
      using g st sd False sz by (simp add: get_output_el_def agree_state_of [OF c] esd isz)
    have "\<exists>es. map_err (\<lambda>i. elem_entry ext n key ind (Some i)) [0..<sz] = Inr es \<and>
            collected n key s0 (fold bucket_add (map snd es) acc) s'"
      by (rule fold_err_sim1 [where JJ = "collected n key s0", OF _ j f])
         (rule get_output_inner_sim [OF _ cb])
    then show ?thesis
      using st sd False sz by (simp add: el_entries_def)
  qed
qed

lemma get_output_key_sim:
  assumes a: "agree n s" and cb: "priv_combiner (core n) \<noteq> []"
    and sp: "opt_truthy (priv_splitter (core n))"
    and g: "get_output_key ext s key = Inr s'"
  shows "\<exists>es. all_entries ext n key = Inr es \<and> collected n key s (fold bucket_add (map snd es) []) s'"
proof -
  let ?s0 = "upd_core (\<lambda>c. c\<lparr>priv_output := dict_set (priv_output c) key (OutDict [])\<rparr>) s"
  have a0: "agree n ?s0" by (rule agree_upd_output [OF a])
  have j0: "collected n key s [] ?s0"
    using a0 by (simp add: collected_def upd_core_def map_of_dict_set all_lists_def)
  note c = agree_coreI [OF a0]
  from g obtain st where st: "state_of n = Inr st"
    by (cases "state_of n") (auto simp: get_output_key_def Let_def agree_state_of [OF c])
  have f: "fold_err (get_output_el ext key) ?s0 (itertools_product (all_elements st)) = Inr s'"
    using g st by (simp add: get_output_key_def Let_def agree_state_of [OF c])
  have "\<exists>ess. map_err (el_entries ext n key) (itertools_product (all_elements st)) = Inr ess \<and>
          collected n key s (fold bucket_add (map snd (concat ess)) []) s'"
    by (rule fold_err_sim [where JJ = "collected n key s", OF _ j0 f])
       (rule get_output_el_sim [OF _ cb sp])
  then show ?thesis using st by (auto simp: all_entries_def)
qed

lemma get_output_keys_sim:
  assumes cb: "priv_combiner (core n) \<noteq> []"
    and sp: "opt_truthy (priv_splitter (core n))"
    and a: "agree n s"
    and f: "fold_err (get_output_key ext) s keys = Inr s'"
    and k: "key \<in> set keys"
  shows "\<exists>es. all_entries ext n key = Inr es \<and>
              map_of (priv_output (core s')) key = Some (OutDict (fold bucket_add (map snd es) []))"
  using a f k
proof (induction keys arbitrary: s)
  case Nil
  then show ?case by simp
next
  case (Cons k keys)
  from Cons.prems(2) obtain s1 where s1: "get_output_key ext s k = Inr s1"
    "fold_err (get_output_key ext) s1 keys = Inr s'"
    by (cases "get_output_key ext s k") auto
  from get_output_key_sim [OF Cons.prems(1) cb sp s1(1)] obtain es where
    es: "all_entries ext n k = Inr es" "collected n k s (fold bucket_add (map snd es) []) s1"
    by blast
  have a1: "agree n s1" using es(2) by (simp add: collected_def)
  show ?case
  proof (cases "key \<in> set keys")
    case True
    then show ?thesis using Cons.IH [OF a1 s1(2)] by simp
  next
    case False
    with Cons.prems(3) have kk: "key = k" by simp
    have keep: "map_of (priv_output (core s')) key = map_of (priv_output (core s1)) key"
      using a1 s1(2) False
    proof (induction keys arbitrary: s1)
      case Nil
      then show ?case by simp
    next
      case (Cons k2 keys)
      from Cons.prems(2) obtain s2 where s2: "get_output_key ext s1 k2 = Inr s2"
        "fold_err (get_output_key ext) s2 keys = Inr s'"
        by (cases "get_output_key ext s1 k2") auto
      from get_output_key_sim [OF Cons.prems(1) cb sp s2(1)] obtain es2 :: "(nat list \<times> string \<times> pyval) list" where
        "collected n k2 s1 (fold bucket_add (map snd es2) []) s2" by blast
      then have "agree n s2" "map_of (priv_output (core s2)) key = map_of (priv_output (core s1)) key"
        using Cons.prems(3) by (auto simp: collected_def)
      then show ?case using Cons.IH [OF _ s2(2)] Cons.prems(3) by simp
    qed
    show ?thesis using es kk keep by (simp add: collected_def)
  qed
qed

lemma map_err_Inr: "map_err g xs = Inr ys \<Longrightarrow> list_all2 (\<lambda>x y. g x = Inr y) xs ys"
  by (induction xs arbitrary: ys) (auto split: sum.splits)

lemma elem_entry_index: "elem_entry ext n key ind ii = Inr e \<Longrightarrow> fst e = elem_index ind ii"
  by (auto simp: elem_entry_def bnd_Inr_iff)

lemma list_all2_map_fst:
  "list_all2 (\<lambda>x y. g x = Inr y) xs ys \<Longrightarrow> (\<And>x y. g x = Inr y \<Longrightarrow> fst y = h x) \<Longrightarrow>
   map fst ys = map h xs"
  by (induction rule: list_all2_induct) auto

lemma el_entries_indices:
  assumes "el_entries ext n key ind = Inr es" "state_of n = Inr st"
  shows "map fst es = el_indices n st ind"
proof (cases "inner_splitter st = []")
  case True
  with assms show ?thesis
    by (auto simp: el_entries_def el_indices_def bnd_Inr_iff elem_index_def
          dest!: elem_entry_index)
next
  case False
  with assms obtain sz where sz: "inner_size_of n st ind = Inr sz"
    "map_err (\<lambda>i. elem_entry ext n key ind (Some i)) [0..<sz] = Inr es"
    by (auto simp: el_entries_def bnd_Inr_iff)
  have "map fst es = map (\<lambda>i. elem_index ind (Some i)) [0..<sz]"
    by (rule list_all2_map_fst [OF map_err_Inr [OF sz(2)]]) (rule elem_entry_index)
  with False sz(1) show ?thesis by (simp add: el_indices_def elem_index_def)
qed

lemma all_entries_indices:
  assumes "all_entries ext n key = Inr es" "state_of n = Inr st"
  shows "map fst es = concat (map (el_indices n st) (itertools_product (all_elements st)))"
proof -
  from assms obtain ess where
    m: "map_err (el_entries ext n key) (itertools_product (all_elements st)) = Inr ess"
    and es: "es = concat ess"
    by (auto simp: all_entries_def bnd_Inr_iff)
  have "list_all2 (\<lambda>x y. el_entries ext n key x = Inr y) (itertools_product (all_elements st)) ess"
    by (rule map_err_Inr [OF m])
  then have "map (map fst) ess = map (el_indices n st) (itertools_product (all_elements st))"
    by (induction rule: list_all2_induct) (auto simp: el_entries_indices [OF _ assms(2)])
  then show ?thesis by (simp add: es map_concat)
qed

lemma append_single_less: "(xs :: nat list) @ [i] < xs @ [j] \<longleftrightarrow> i < j"
  by (induction xs) auto

lemma el_indices_sorted: "sorted_wrt (<) (el_indices n st ind)"
  by (auto simp: el_indices_def sorted_wrt_map append_single_less split: sum.splits
        intro!: sorted_wrt_mono_rel [of _ "(<)"] )

lemma entries_sorted:
  assumes "all_entries ext n key = Inr es" "state_of n = Inr st"
    and "\<forall>ax\<in>set (all_elements st). sorted_wrt (<) ax"
  shows "sorted_wrt (<) (map fst es)"
  unfolding all_entries_indices [OF assms(1,2)]
proof (rule sorted_wrt_concat_map [where R = "(<)"])
  show "sorted_wrt (<) (itertools_product (all_elements st))"
    by (rule itertools_product_sorted [OF assms(3)])
next
  fix x show "sorted_wrt (<) (el_indices n st x)" by (rule el_indices_sorted)
next
  fix x y a b
  assume x: "x \<in> set (itertools_product (all_elements st))"
    and y: "y \<in> set (itertools_product (all_elements st))"
    and l: "x < y" and a: "a \<in> set (el_indices n st x)" and b: "b \<in> set (el_indices n st y)"
  have len: "length x = length y"
    using x y by (simp add: length_itertools_product)
  from a b show "a < b"
    using l less_append_same_length [OF l len]
    by (auto simp: el_indices_def split: if_splits sum.splits)
qed

text \<open>
  C7.  For a node with a splitter and a combiner on which \<open>get_output\<close> returns, the
  combined output of every output field is a dictionary of buckets with distinct names;
  the buckets are those of the elements, and the list in each bucket holds the values of
  the elements of that bucket in the order in which the elements are visited.  The
  elements are visited in ascending lexicographic order of their multi-index (the axes
  being ascending ranges).
\<close>

theorem combined_output_in_element_order:
  assumes "get_output ext n = Inr (out, n')"
    and "opt_truthy (priv_splitter (core n))" and "priv_combiner (core n) \<noteq> []"
    and "key_out \<in> set (output_names (core n))" and "state_of n = Inr st"
  shows "\<exists>es d. all_entries ext n key_out = Inr es \<and>
           map_of out key_out = Some (OutDict d) \<and>
           distinct (map fst d) \<and>
           fst ` set d = (fst \<circ> snd) ` set es \<and>
           (\<forall>(k, v)\<in>set d. v = PyList (map (snd \<circ> snd) (filter (\<lambda>e. fst (snd e) = k) es))) \<and>
           ((\<forall>ax\<in>set (all_elements st). sorted_wrt (<) ax) \<longrightarrow> sorted_wrt (<) (map fst es))"
proof -
  from assms(1) obtain s' where f: "fold_err (get_output_key ext) n (output_names (core n)) = Inr s'"
    and out: "out = priv_output (core s')"
    by (auto simp: get_output_def bnd_Inr_iff)
  from get_output_keys_sim [OF assms(3) assms(2) agree_refl f assms(4)] obtain es where
    es: "all_entries ext n key_out = Inr es"
    "map_of (priv_output (core s')) key_out = Some (OutDict (fold bucket_add (map snd es) []))"
    by blast
  let ?d = "fold bucket_add (map snd es) []"
  have so: "state_of n = Inr st" using assms(5) .
  have "distinct (map fst ?d)" by (rule fold_bucket_add_distinct) simp
  moreover have "fst ` set ?d = (fst \<circ> snd) ` set es"
    by (simp add: fold_bucket_add_keys image_comp)
  moreover have "\<forall>(k, v)\<in>set ?d. v = PyList (map (snd \<circ> snd) (filter (\<lambda>e. fst (snd e) = k) es))"
  proof (clarify)
    fix k v assume "(k, v) \<in> set ?d"
    then have "v = PyList (map snd (filter (\<lambda>e. fst e = k) (map snd es)))"
      by (rule buckets_from_empty)
    then show "v = PyList (map (snd \<circ> snd) (filter (\<lambda>e. fst (snd e) = k) es))"
      by (simp add: filter_map comp_def)
  qed
  moreover have "(\<forall>ax\<in>set (all_elements st). sorted_wrt (<) ax) \<longrightarrow> sorted_wrt (<) (map fst es)"
    using entries_sorted [OF es(1) so] by blast
  ultimately show ?thesis using es out by blast
qed

lemmas c_defs = node_c_def st_c_def out_c_def blank_core_def blank_state_def ext0_def

lemma get_output_node_c:
  "get_output ext0 node_c = Inr (out_c, upd_core (\<lambda>c. c\<lparr>priv_output := out_c\<rparr>) node_c)"
  by (simp add: get_output_def get_output_key_def get_output_el_def combined_output_def
        state_of_def element_state_dict_def directory_name_state_surv_def result_output_def
        join_items_def format_kv_def digits_of.simps upd_core_def opt_truthy_def c_defs)

lemmas i_defs = node_i_def st_i_def node_a_def st_a_def out_i_def blank_core_def blank_state_def
  ext0_def

lemmas gie_defs = get_input_el_def edge_step_def edge_dicts_def edge_inner_states_def
  state_of_def directory_name_state_surv_def result_output_def socket_name_def
  join_items_def format_kv_def digits_of.simps upd_core_def Let_def dict_get_def

lemma upt_two: "[0..<2] = [0, Suc 0]"
  by (simp add: upt_rec)

lemma get_output_node_i:
  "get_output ext0 node_i = Inr (out_i, upd_core (\<lambda>c. c\<lparr>priv_output := out_i\<rparr>) node_i)"
  by (simp add: get_output_def get_output_key_def get_output_el_def get_output_inner_def
        inner_size_of_def combined_output_def element_state_dict_def upt_two gie_defs i_defs)

lemma all_entries_node_i:
  "all_entries ext0 node_i ''out'' =
     Inr [([0, 0], ''A.x:1'', PyInt 11), ([0, 1], ''A.x:1'', PyInt 21), ([1, 0], ''A.x:2'', PyInt 31)]"
  by (simp add: all_entries_def el_entries_def elem_entry_def element_dir_def elem_index_def
        inner_size_of_def element_state_dict_def upt_two gie_defs i_defs)

theorem combined_output_in_element_order_witness:
  "get_output ext0 node_c = Inr (out_c, upd_core (\<lambda>c. c\<lparr>priv_output := out_c\<rparr>) node_c) \<and>
   (\<exists>es d. all_entries ext0 node_c ''out'' = Inr es \<and>
      map_of out_c ''out'' = Some (OutDict d) \<and> distinct (map fst d) \<and>
      fst ` set d = (fst \<circ> snd) ` set es \<and>
      (\<forall>(k, v)\<in>set d. v = PyList (map (snd \<circ> snd) (filter (\<lambda>e. fst (snd e) = k) es))) \<and>
      sorted_wrt (<) (map fst es)) \<and>
   get_output ext0 node_i = Inr (out_i, upd_core (\<lambda>c. c\<lparr>priv_output := out_i\<rparr>) node_i) \<and>
   all_entries ext0 node_i ''out'' =
     Inr [([0, 0], ''A.x:1'', PyInt 11), ([0, 1], ''A.x:1'', PyInt 21), ([1, 0], ''A.x:2'', PyInt 31)] \<and>
   (\<exists>d. map_of out_i ''out'' = Some (OutDict d) \<and> distinct (map fst d) \<and>
      fst ` set d = {''A.x:1'', ''A.x:2''} \<and>
      (\<forall>(k, v)\<in>set d. v = PyList (map (snd \<circ> snd) (filter (\<lambda>e. fst (snd e) = k)
         [([0::nat, 0], ''A.x:1'', PyInt 11), ([0, 1], ''A.x:1'', PyInt 21),
          ([1, 0], ''A.x:2'', PyInt 31)]))))"
proof -
  let ?es = "[([0, 0], ''A.x:1'', PyInt 11), ([0, 1], ''A.x:1'', PyInt 21),
          ([1::nat, 0::nat], ''A.x:2'', PyInt 31)]"
  have h: "opt_truthy (priv_splitter (core node_c))" "priv_combiner (core node_c) \<noteq> []"
    "''out'' \<in> set (output_names (core node_c))" "state_of node_c = Inr st_c"
    by (simp_all add: opt_truthy_def state_of_def c_defs)
  have s: "\<forall>ax\<in>set (all_elements st_c). sorted_wrt (<) ax"
    by (simp add: c_defs)
  have hi: "opt_truthy (priv_splitter (core node_i))" "priv_combiner (core node_i) \<noteq> []"
    "''out'' \<in> set (output_names (core node_i))" "state_of node_i = Inr st_i"
    by (simp_all add: opt_truthy_def state_of_def i_defs)
  have c: "\<exists>es d. all_entries ext0 node_c ''out'' = Inr es \<and>
      map_of out_c ''out'' = Some (OutDict d) \<and> distinct (map fst d) \<and>
      fst ` set d = (fst \<circ> snd) ` set es \<and>
      (\<forall>(k, v)\<in>set d. v = PyList (map (snd \<circ> snd) (filter (\<lambda>e. fst (snd e) = k) es))) \<and>
      sorted_wrt (<) (map fst es)"
    using combined_output_in_element_order [OF get_output_node_c h] s by blast
  from combined_output_in_element_order [OF get_output_node_i hi]
  obtain es d where e: "all_entries ext0 node_i ''out'' = Inr es"
    and m: "map_of out_i ''out'' = Some (OutDict d)" and dd: "distinct (map fst d)"
    and k: "fst ` set d = (fst \<circ> snd) ` set es"
    and v: "\<forall>(k, v)\<in>set d. v = PyList (map (snd \<circ> snd) (filter (\<lambda>e. fst (snd e) = k) es))"
    by blast
  have es: "es = ?es" using e unfolding all_entries_node_i by simp
  have k': "fst ` set d = {''A.x:1'', ''A.x:2''}"
    unfolding k es by simp
  have i: "\<exists>d. map_of out_i ''out'' = Some (OutDict d) \<and> distinct (map fst d) \<and>
      fst ` set d = {''A.x:1'', ''A.x:2''} \<and>
      (\<forall>(k, v)\<in>set d. v = PyList (map (snd \<circ> snd) (filter (\<lambda>e. fst (snd e) = k) ?es)))"
  proof (intro exI [of _ d] conjI)
    show "map_of out_i ''out'' = Some (OutDict d)" by (rule m)
    show "distinct (map fst d)" by (rule dd)
    show "fst ` set d = {''A.x:1'', ''A.x:2''}" by (rule k')
    show "\<forall>(k, v)\<in>set d. v = PyList (map (snd \<circ> snd) (filter (\<lambda>e. fst (snd e) = k) ?es))"
      using v unfolding es .
  qed
  show ?thesis
  proof (intro conjI)
    show "get_output ext0 node_c = Inr (out_c, upd_core (\<lambda>c. c\<lparr>priv_output := out_c\<rparr>) node_c)"
      by (rule get_output_node_c)
    show "get_output ext0 node_i = Inr (out_i, upd_core (\<lambda>c. c\<lparr>priv_output := out_i\<rparr>) node_i)"
      by (rule get_output_node_i)
    show "all_entries ext0 node_i ''out'' = Inr ?es" by (rule all_entries_node_i)
  qed (rule c, rule i)
qed

subsection \<open>Falsy output values\<close>


















subsection \<open>Planning a workflow\<close>


lemma seq_steps_append:
  "seq_steps f s (xs @ ys) =
     (case seq_steps f s xs of (Some e, s') \<Rightarrow> (Some e, s') | (None, s') \<Rightarrow> seq_steps f s' ys)"
  by (induction xs arbitrary: s) (auto split: prod.splits option.splits)

lemma child_frame_refl: "child_frame w w"
  by (simp add: child_frame_def)

lemma child_frame_trans: "child_frame a b \<Longrightarrow> child_frame b c \<Longrightarrow> child_frame a c"
  by (simp add: child_frame_def)

lemma child_frame_set_obj:
  assumes "map_of (nodes w) nm = Some n"
    and "workingdir (core n') = workingdir (core n)" "state (core n') = state (core n)"
    and "priv_is_complete (core n') = priv_is_complete (core n)"
  shows "child_frame w (set_obj w nm n')"
  using assms by (simp add: child_frame_def set_obj_def map_of_dict_set)

lemma bind_wf_input_frame: "child_frame w (snd (bind_wf_input wx wi w b))"
proof -
  obtain node_nm inp_wf inp_nd where b: "b = (node_nm, inp_wf, inp_nd)" by (cases b)
  show ?thesis
  proof (cases "map_of (nodes w) node_nm")
    case None
    then show ?thesis
      by (simp add: b bind_wf_input_def obj_of_def child_frame_refl)
  next
    case (Some nd)
    have 1: "\<And>x. child_frame w (set_obj w node_nm (upd_core (\<lambda>c. c\<lparr>state_inputs := x c\<rparr>) nd))"
      by (rule child_frame_set_obj [OF Some]) (simp_all add: upd_core_def)
    have 2: "\<And>x y. child_frame w
        (set_obj (set_obj w node_nm (upd_core (\<lambda>c. c\<lparr>state_inputs := x c\<rparr>) nd)) node_nm
           (upd_core (\<lambda>c. c\<lparr>inputs := y\<rparr>) (upd_core (\<lambda>c. c\<lparr>state_inputs := x c\<rparr>) nd)))"
      using Some
      by (simp add: child_frame_def set_obj_def map_of_dict_set upd_core_def)
    show ?thesis
      using Some 1 2
      by (auto simp: b bind_wf_input_def obj_of_def child_frame_refl Let_def
            split: option.splits sum.splits)
  qed
qed

lemma seq_bind_frame:
  "child_frame w (snd (seq_steps (bind_wf_input wx wi) w bs))"
proof (induction bs arbitrary: w)
  case Nil
  then show ?case by (simp add: child_frame_refl)
next
  case (Cons b bs)
  have f: "child_frame w (snd (bind_wf_input wx wi w b))" by (rule bind_wf_input_frame)
  show ?case
  proof (cases "bind_wf_input wx wi w b")
    case (Pair r w1)
    show ?thesis
    proof (cases r)
      case None
      with Pair f Cons.IH [of w1] show ?thesis
        by (auto intro: child_frame_trans)
    next
      case (Some e)
      with Pair f show ?thesis by simp
    qed
  qed
qed

lemma bind_missing:
  assumes "map_of wi (name (core (wf_self w)) @ ''.'' @ inp_wf) = None"
  shows "\<exists>e. fst (bind_wf_input wx (Some wi) w (node_nm, inp_wf, inp_nd)) = Some e"
    and "node_nm \<in> set (node_names w) \<Longrightarrow> map_of (nodes w) node_nm \<noteq> None \<Longrightarrow>
         fst (bind_wf_input wx (Some wi) w (node_nm, inp_wf, inp_nd)) =
           Some (Exception (name (core (wf_self w)) @ ''.'' @ inp_wf @ '' not in the workflow inputs''))"
  using assms
  by (auto simp: bind_wf_input_def obj_of_def Let_def split: sum.splits option.splits)

lemma missing_binding:
  assumes n: "needed_inp_wf w = pre @ (node_nm, inp_wf, inp_nd) # post"
    and m: "map_of wi (name (core (wf_self w)) @ ''.'' @ inp_wf) = None"
  shows "\<exists>e. fst (preparing wx ext w (Some wi) wii sti) = Some e"
    and "child_frame w (snd (preparing wx ext w (Some wi) wii sti))"
    and "fst (seq_steps (bind_wf_input wx (Some wi)) (w\<lparr>all_inner_splitters := []\<rparr>) pre) = None \<Longrightarrow>
         node_nm \<in> set (node_names w) \<Longrightarrow> map_of (nodes w) node_nm \<noteq> None \<Longrightarrow>
         fst (preparing wx ext w (Some wi) wii sti) =
           Some (Exception (name (core (wf_self w)) @ ''.'' @ inp_wf @ '' not in the workflow inputs''))"
proof -
  let ?w0 = "w\<lparr>all_inner_splitters := []\<rparr>"
  let ?f = "bind_wf_input wx (Some wi)"
  obtain r1 w1 where p: "seq_steps ?f ?w0 pre = (r1, w1)" by (cases "seq_steps ?f ?w0 pre")
  have f0: "child_frame w ?w0" by (simp add: child_frame_def)
  have f1: "child_frame ?w0 w1" using seq_bind_frame [of ?w0 wx "Some wi" pre] p by simp
  have fw1: "child_frame w w1" using f0 f1 by (rule child_frame_trans)
  have nm1: "name (core (wf_self w1)) = name (core (wf_self w))"
    "node_names w1 = node_names w"
    using fw1 by (simp_all add: child_frame_def)
  have m1: "map_of wi (name (core (wf_self w1)) @ ''.'' @ inp_wf) = None"
    using m nm1 by simp
  obtain r2 w2 where q: "?f w1 (node_nm, inp_wf, inp_nd) = (r2, w2)"
    by (cases "?f w1 (node_nm, inp_wf, inp_nd)")
  from bind_missing(1) [OF m1, of wx node_nm inp_nd] q obtain e2 where e2: "r2 = Some e2" by auto
  have f2: "child_frame w1 w2" using bind_wf_input_frame [of w1 wx "Some wi"] q
    by (metis snd_conv)
  have all: "seq_steps ?f ?w0 (needed_inp_wf ?w0) =
      (case r1 of Some e \<Rightarrow> (Some e, w1) | None \<Rightarrow> (Some e2, w2))"
    using p q e2 by (simp add: n seq_steps_append split: option.splits)
  show "\<exists>e. fst (preparing wx ext w (Some wi) wii sti) = Some e"
    using all by (cases r1) (simp_all add: preparing_def Let_def)
  show "child_frame w (snd (preparing wx ext w (Some wi) wii sti))"
    using all fw1 child_frame_trans [OF fw1 f2]
    by (cases r1) (simp_all add: preparing_def Let_def)
  assume a: "fst (seq_steps ?f ?w0 pre) = None" "node_nm \<in> set (node_names w)"
    "map_of (nodes w) node_nm \<noteq> None"
  have r1: "r1 = None" using a(1) p by simp
  have "map_of (nodes w1) node_nm \<noteq> None"
    using fw1 a(3) by (auto simp: child_frame_def dest!: spec [where x = node_nm])
  with bind_missing(2) [OF m1, of node_nm wx inp_nd] a(2) nm1 q e2
  have "e2 = Exception (name (core (wf_self w)) @ ''.'' @ inp_wf @ '' not in the workflow inputs'')"
    by simp
  then show "fst (preparing wx ext w (Some wi) wii sti) =
           Some (Exception (name (core (wf_self w)) @ ''.'' @ inp_wf @ '' not in the workflow inputs''))"
    using all r1 by (simp add: preparing_def Let_def)
qed

text \<open>
  C9, as the specification states it, fails: the exception that \<open>preparing\<close> raises need
  not name the missing input.  In the workflow \<open>wf\<close> with the bindings of the inputs \<open>y\<close>
  and \<open>x\<close> to the child \<open>N\<close>, called with \<open>wf.y\<close> and without \<open>wf.x\<close>, the first binding
  is satisfied and raises \<open>AttributeError\<close>, because \<open>N\<close> has no \<open>state_inputs\<close>.
\<close>

theorem preparing_other_exception_counterexample:
  "needed_inp_wf wf_two = [(''N'', ''y'', ''b''), (''N'', ''x'', ''a'')] \<and>
   map_of [(''wf.y'', PyInt 1)] (name (core (wf_self wf_two)) @ ''.'' @ ''x'') = None \<and>
   fst (preparing wx0 ext0 wf_two (Some [(''wf.y'', PyInt 1)]) None None) = Some AttributeError"
  by (simp add: preparing_def bind_wf_input_def obj_of_def wf_two_def wf_miss_def wf_dup_def
        blank_core_def node_c_def Let_def)

text \<open>
  C9, amended.  When a binding recorded by \<open>connect_wf_input\<close> names a workflow input that
  is not among the \<open>wf_inputs\<close> passed to \<open>preparing\<close>, then \<open>preparing\<close> raises an
  exception, and at that moment no child has got a working directory, a state or a reset
  completeness flag: the loop over the children has not started.  When the binding is
  reached (the bindings recorded before it raise nothing and its node is a child of the
  workflow), the exception is the one whose message names the missing input; otherwise
  it is the exception of the earlier failure.
\<close>

theorem preparing_raises_missing_input:
  assumes "needed_inp_wf w = pre @ (node_nm, inp_wf, inp_nd) # post"
    and "map_of wi (name (core (wf_self w)) @ ''.'' @ inp_wf) = None"
  shows "(\<exists>e. fst (preparing wx ext w (Some wi) wii sti) = Some e) \<and>
         child_frame w (snd (preparing wx ext w (Some wi) wii sti)) \<and>
         (fst (seq_steps (bind_wf_input wx (Some wi)) (w\<lparr>all_inner_splitters := []\<rparr>) pre) = None \<and>
          node_nm \<in> set (node_names w) \<and> map_of (nodes w) node_nm \<noteq> None \<longrightarrow>
          fst (preparing wx ext w (Some wi) wii sti) =
            Some (Exception (name (core (wf_self w)) @ ''.'' @ inp_wf @
                             '' not in the workflow inputs'')))"
  using missing_binding [OF assms, of wx ext wii sti] by blast

theorem preparing_raises_missing_input_witness:
  "fst (preparing wx0 ext0 wf_miss (Some []) None None) =
     Some (Exception ''wf.x not in the workflow inputs'') \<and>
   child_frame wf_miss (snd (preparing wx0 ext0 wf_miss (Some []) None None))"
  using preparing_raises_missing_input
    [of wf_miss "[]" "''N''" "''x''" "''a''" "[]" "[]" wx0 ext0 None None]
  by (simp add: wf_miss_def wf_dup_def blank_core_def)

subsection \<open>The output names of a workflow\<close>


lemma with_names_simps:
  "obj_of (with_names x w) = obj_of w"
  "set_obj (with_names x w) nm n = with_names x (set_obj w nm n)"
  "wf_self (with_names x w) = wf_self w"
  "node_names (with_names x w) = node_names w"
  "connected_var (with_names x w) = connected_var w"
  "needed_inp_wf (with_names x w) = needed_inp_wf w"
  "graph_sorted (with_names x w) = graph_sorted w"
  "all_inner_splitters (with_names x w) = all_inner_splitters w"
  "all_inner_splitters_size (with_names x w) = all_inner_splitters_size w"
  "(with_names x w)\<lparr>all_inner_splitters := y\<rparr> = with_names x (w\<lparr>all_inner_splitters := y\<rparr>)"
  by (simp_all add: with_names_def obj_of_def set_obj_def fun_eq_iff)

lemma seq_steps_commute:
  assumes "\<And>s x. f (U s) x = (case f s x of (r, s') \<Rightarrow> (r, U s'))"
  shows "seq_steps f (U s) xs = (case seq_steps f s xs of (r, s') \<Rightarrow> (r, U s'))"
  by (induction xs arbitrary: s) (auto simp: assms split: prod.splits option.splits)

lemma bind_wf_input_names:
  "bind_wf_input wx wi (with_names x w) b =
     (case bind_wf_input wx wi w b of (r, w') \<Rightarrow> (r, with_names x w'))"
  by (cases b)
     (simp add: bind_wf_input_def with_names_simps Let_def split: sum.split option.split)

lemma connect_step_names:
  "connect_step nn (with_names x w) c =
     (case connect_step nn w c of (r, w') \<Rightarrow> (r, with_names x w'))"
  by (cases c)
     (simp add: connect_step_def with_names_simps Let_def split: sum.split option.split)

lemma seq_connect_names:
  "seq_steps (connect_step nn) (with_names x s) cs =
     (case seq_steps (connect_step nn) s cs of (r, s') \<Rightarrow> (r, with_names x s'))"
  by (rule seq_steps_commute [where U = "with_names x" and f = "connect_step nn"])
     (rule connect_step_names)

lemma prepare_workingdir_names:
  "prepare_workingdir (with_names x w) nn d =
     (case prepare_workingdir w nn d of (r, w') \<Rightarrow> (r, with_names x w'))"
  by (simp add: prepare_workingdir_def with_names_simps split: sum.split option.split)

lemma prepare_connections_names:
  "prepare_connections (with_names x w) nn =
     (case prepare_connections w nn of (r, w') \<Rightarrow> (r, with_names x w'))"
  by (simp add: prepare_connections_def with_names_simps seq_connect_names split: option.split)

lemma prepare_state_names:
  "prepare_state wx (with_names x w) nn =
     (case prepare_state wx w nn of (r, w') \<Rightarrow> (r, with_names x w'))"
  by (simp add: prepare_state_def with_names_simps Let_def split: sum.split option.split)

lemma prepare_node_names:
  "prepare_node wx ext wi wii (st, with_names x w) nn =
     (case prepare_node wx ext wi wii (st, w) nn of (r, st', w') \<Rightarrow> (r, st', with_names x w'))"
  by (simp add: prepare_node_def with_names_simps prepare_workingdir_names
        prepare_connections_names prepare_state_names
        split: sum.split option.split prod.split)

lemma preparing_names:
  "preparing wx ext (with_names x w) wi wii sti =
     (case preparing wx ext w wi wii sti of (r, w') \<Rightarrow> (r, with_names x w'))"
proof -
  have 1: "\<And>s bs. seq_steps (bind_wf_input wx wi) (with_names x s) bs =
      (case seq_steps (bind_wf_input wx wi) s bs of (r, s') \<Rightarrow> (r, with_names x s'))"
    by (rule seq_steps_commute [where U = "with_names x" and f = "bind_wf_input wx wi"])
       (rule bind_wf_input_names)
  have 2: "\<And>q nn. prepare_node wx ext wi wii (apsnd (with_names x) q) nn =
      (case prepare_node wx ext wi wii q nn of (r, q') \<Rightarrow> (r, apsnd (with_names x) q'))"
    subgoal for q nn by (cases q) (simp add: prepare_node_names split: prod.splits)
    done
  have 3: "\<And>q nns. seq_steps (prepare_node wx ext wi wii) (apsnd (with_names x) q) nns =
      (case seq_steps (prepare_node wx ext wi wii) q nns of (r, q') \<Rightarrow> (r, apsnd (with_names x) q'))"
    by (rule seq_steps_commute [where U = "apsnd (with_names x)"
          and f = "prepare_node wx ext wi wii"]) (rule 2)
  have 4: "\<And>w1 nns. seq_steps (prepare_node wx ext wi wii) (sti, with_names x w1) nns =
      (case seq_steps (prepare_node wx ext wi wii) (sti, w1) nns of
         (r, q') \<Rightarrow> (r, apsnd (with_names x) q'))"
    subgoal for w1 nns using 3 [of "(sti, w1)" nns] by simp
    done
  show ?thesis
    by (simp add: preparing_def Let_def with_names_simps 1 4 split: prod.split option.split)
qed


lemma grows_refl: "grows w w"
  by (simp add: grows_def)

lemma grows_trans: "grows a b \<Longrightarrow> grows b c \<Longrightarrow> grows a c"
  by (auto simp: grows_def)

lemma fold_err_grows:
  assumes "\<And>s x s'. f s x = Inr s' \<Longrightarrow> grows s s'"
    and "fold_err f s xs = Inr s'"
  shows "grows s s'"
  using assms(2)
proof (induction xs arbitrary: s)
  case Nil
  then show ?case by (simp add: grows_refl)
next
  case (Cons x xs)
  then obtain s1 where 1: "f s x = Inr s1" and 2: "fold_err f s1 xs = Inr s'"
    by (auto split: sum.splits)
  from assms(1) [OF 1] Cons.IH [OF 2] show ?case by (rule grows_trans)
qed

lemma keys_dict_set_mono: "fst ` set d \<subseteq> fst ` set (dict_set d k v)"
  by (auto simp: keys_dict_set)

lemma set_output_keys:
  assumes "set_output self k d v = Inr self'"
  shows "fst ` set (priv_output (core self)) \<subseteq> fst ` set (priv_output (core self'))"
proof -
  from assms obtain x where
    "priv_output (core self') = dict_set (priv_output (core self)) k x"
    by (auto simp: set_output_def upd_core_def split: option.splits out_entry.splits)
  then show ?thesis by (simp add: keys_dict_set_mono)
qed

lemma combined_output_keys:
  assumes "combined_output ext self k sd v = Inr self'"
  shows "fst ` set (priv_output (core self)) \<subseteq> fst ` set (priv_output (core self'))"
proof -
  from assms obtain st where st: "state_of self = Inr st"
    unfolding combined_output_def by (auto simp: bnd_Inr_iff)
  define dn where "dn = join_items ext
     (filter (\<lambda>(i, j). i \<notin> set (comb_inp_to_remove st @ inner_combiner st)) sd)"
  from assms [unfolded combined_output_def st] have c: "(case map_of (priv_output (core self)) k of
             None \<Rightarrow> Inl KeyError
           | Some (OutTuple d v) \<Rightarrow> Inl AttributeError
           | Some (OutDict d) \<Rightarrow>
               (case map_of d dn of
                  Some (PyList vs) \<Rightarrow>
                    Inr (upd_core (\<lambda>c. c\<lparr>priv_output := dict_set (priv_output c) k
                           (OutDict (dict_set d dn (PyList (vs @ [v]))))\<rparr>) self)
                | Some other \<Rightarrow> Inl AttributeError
                | None \<Rightarrow>
                    Inr (upd_core (\<lambda>c. c\<lparr>priv_output := dict_set (priv_output c) k
                           (OutDict (dict_set d dn (PyList [v])))\<rparr>) self))) = Inr self'"
    unfolding combined_output_def dn_def bnd.simps Let_def .
  then obtain d where d: "map_of (priv_output (core self)) k = Some (OutDict d)"
    by (cases "map_of (priv_output (core self)) k"; simp split: out_entry.splits)
  have "\<exists>x. priv_output (core self') = dict_set (priv_output (core self)) k x"
  proof (cases "map_of d dn")
    case None
    with c d show ?thesis by (auto simp: upd_core_def)
  next
    case (Some val)
    with c d show ?thesis by (cases val) (auto simp: upd_core_def)
  qed
  then obtain x where "priv_output (core self') = dict_set (priv_output (core self)) k x" ..
  then show ?thesis by (simp add: keys_dict_set_mono)
qed

lemma wf_output_el_grows:
  assumes "wf_output_el ext a b nm w iv = Inr w'"
  shows "grows w w'"
proof -
  obtain i ind where iv: "iv = (i, ind)" by (cases iv)
  from assms obtain self1 sd dn v where
    s: "(if priv_combiner (core (wf_self w)) = []
         then set_output (wf_self w) nm dn v
         else combined_output ext (wf_self w) nm sd v) = Inr self1"
    and w': "w' = w\<lparr>wf_self := self1\<rparr>"
    unfolding wf_output_el_def iv by (auto simp: bnd_Inr_iff)
  from s have "fst ` set (priv_output (core (wf_self w))) \<subseteq> fst ` set (priv_output (core self1))"
    by (auto dest: set_output_keys combined_output_keys split: if_splits)
  then show ?thesis by (simp add: grows_def out_keys_def w')
qed

lemma output_entry_grows:
  assumes "output_entry ext w out = Inr w'"
  shows "grows w w'"
    and "entry_names out = Inr (a, b, nm) \<Longrightarrow> nm \<in> out_keys w'"
proof -
  from assms obtain a' b' nm' where en: "entry_names out = Inr (a', b', nm')"
    unfolding output_entry_def by (auto simp: bnd_Inr_iff)
  let ?w1 = "w\<lparr>wf_self := upd_core (\<lambda>c. c\<lparr>priv_output :=
                 dict_set (priv_output c) nm' (OutDict [])\<rparr>) (wf_self w)\<rparr>"
  have g1: "grows w ?w1" "nm' \<in> out_keys ?w1"
    by (auto simp: grows_def out_keys_def upd_core_def keys_dict_set)
  have "grows w w' \<and> nm' \<in> out_keys w'"
  proof (cases "opt_truthy (priv_splitter (core (wf_self w)))")
    case True
    with assms en obtain xs where
      "fold_err (wf_output_el ext a' b' nm') ?w1 xs = Inr w'"
      unfolding output_entry_def by (auto simp: bnd_Inr_iff Let_def split: if_splits)
    then have "grows ?w1 w'"
      by (rule fold_err_grows [rotated]) (rule wf_output_el_grows)
    with g1 show ?thesis by (auto simp: grows_def)
  next
    case False
    with assms en obtain entry where
      "w' = w\<lparr>wf_self := upd_core (\<lambda>c. c\<lparr>priv_output :=
                 dict_set (priv_output c) nm' entry\<rparr>) (wf_self w)\<rparr>"
      unfolding output_entry_def by (auto simp: bnd_Inr_iff split: if_splits)
    then show ?thesis
      by (auto simp: grows_def out_keys_def upd_core_def keys_dict_set)
  qed
  then show "grows w w'" and "entry_names out = Inr (a, b, nm) \<Longrightarrow> nm \<in> out_keys w'"
    using en by simp_all
qed

lemma output_entry_used:
  assumes "entry_names out = Inr (a, b, nm)" and "nm \<in> out_keys w"
  shows "output_entry ext w out = Inl (key_used nm)"
  using assms by (simp add: output_entry_def out_keys_def)

lemma fold_output_entry_dup:
  assumes e1: "entry_names e1 = Inr (n1, f1, nm)" and e2: "entry_names e2 = Inr (n2, f2, nm)"
  shows "\<exists>e. fold_err (output_entry ext) w (pre @ e1 # mid @ e2 # post) = Inl e"
    and "fold_err (output_entry ext) w (pre @ e1 # mid) = Inr w2 \<Longrightarrow>
         fold_err (output_entry ext) w (pre @ e1 # mid @ e2 # post) = Inl (key_used nm)"
proof -
  have split: "pre @ e1 # mid @ e2 # post = (pre @ e1 # mid) @ e2 # post" by simp
  have *: "fold_err (output_entry ext) w (pre @ e1 # mid) = Inr w2 \<Longrightarrow>
         fold_err (output_entry ext) w (pre @ e1 # mid @ e2 # post) = Inl (key_used nm)" for w2
  proof -
    assume a: "fold_err (output_entry ext) w (pre @ e1 # mid) = Inr w2"
    then obtain wa where
      1: "fold_err (output_entry ext) w pre = Inr wa" and
      23: "fold_err (output_entry ext) wa (e1 # mid) = Inr w2"
      by (auto simp: fold_err_append bnd_Inr_iff)
    from 23 obtain wb where
      2: "output_entry ext wa e1 = Inr wb" and
      3: "fold_err (output_entry ext) wb mid = Inr w2"
      by (cases "output_entry ext wa e1") simp_all
    have "nm \<in> out_keys wb" using output_entry_grows(2) [OF 2 e1] .
    moreover have "grows wb w2"
      using 3 by (rule fold_err_grows [rotated]) (rule output_entry_grows(1))
    ultimately have "nm \<in> out_keys w2" by (auto simp: grows_def)
    then have "output_entry ext w2 e2 = Inl (key_used nm)" using e2 by (simp add: output_entry_used)
    then show ?thesis unfolding split fold_err_append [of _ _ "pre @ e1 # mid"] a by simp
  qed
  show "fold_err (output_entry ext) w (pre @ e1 # mid) = Inr w2 \<Longrightarrow>
         fold_err (output_entry ext) w (pre @ e1 # mid @ e2 # post) = Inl (key_used nm)"
    by (rule *)
  show "\<exists>e. fold_err (output_entry ext) w (pre @ e1 # mid @ e2 # post) = Inl e"
  proof (cases "fold_err (output_entry ext) w (pre @ e1 # mid)")
    case (Inl e)
    then show ?thesis unfolding split fold_err_append [of _ _ "pre @ e1 # mid"] by simp
  next
    case (Inr w2)
    then show ?thesis using * by blast
  qed
qed

lemma collect_node_output_names:
  "collect_node_output wx w nn = Inr w' \<Longrightarrow> wf_output_names w' = wf_output_names w"
  by (auto simp: collect_node_output_def bnd_Inr_iff set_obj_def split: if_splits)

lemma fold_collect_names:
  "fold_err (collect_node_output wx) w xs = Inr w' \<Longrightarrow> wf_output_names w' = wf_output_names w"
proof (induction xs arbitrary: w)
  case Nil
  then show ?case by simp
next
  case (Cons x xs)
  then obtain w1 where 1: "collect_node_output wx w x = Inr w1"
    and 2: "fold_err (collect_node_output wx) w1 xs = Inr w'"
    by (auto split: sum.splits)
  from Cons.IH [OF 2] collect_node_output_names [OF 1] show ?case by simp
qed

lemma get_output_duplicate:
  assumes n: "wf_output_names w = Some (pre @ e1 # mid @ e2 # post)"
    and e1: "entry_names e1 = Inr (n1, f1, nm)" and e2: "entry_names e2 = Inr (n2, f2, nm)"
  shows "\<exists>e. Workflow_get_output wx ext w = Inl e"
    and "fold_err (collect_node_output wx) (w\<lparr>node_outputs := []\<rparr>) (graph w) = Inr w1 \<Longrightarrow>
         fold_err (output_entry ext) w1 (pre @ e1 # mid) = Inr w2 \<Longrightarrow>
         Workflow_get_output wx ext w = Inl (key_used nm)"
proof -
  let ?c = "fold_err (collect_node_output wx) (w\<lparr>node_outputs := []\<rparr>) (graph w)"
  have nm: "?c = Inr w1 \<Longrightarrow> wf_output_names w1 = Some (pre @ e1 # mid @ e2 # post)" for w1
    using fold_collect_names [of wx "w\<lparr>node_outputs := []\<rparr>" "graph w" w1] n by simp
  show "\<exists>e. Workflow_get_output wx ext w = Inl e"
  proof (cases ?c)
    case (Inl e)
    then show ?thesis by (simp add: Workflow_get_output_def)
  next
    case (Inr w1)
    from fold_output_entry_dup(1) [OF e1 e2, of ext w1 pre mid post] obtain e where
      "fold_err (output_entry ext) w1 (pre @ e1 # mid @ e2 # post) = Inl e" ..
    then show ?thesis using Inr nm [OF Inr] by (simp add: Workflow_get_output_def)
  qed
  assume c: "?c = Inr w1" and f: "fold_err (output_entry ext) w1 (pre @ e1 # mid) = Inr w2"
  from fold_output_entry_dup(2) [OF e1 e2 f, of post]
  show "Workflow_get_output wx ext w = Inl (key_used nm)"
    using c nm [OF c] by (simp add: Workflow_get_output_def)
qed

lemma preparing_wf_dup:
  "preparing wx0 ext0 wf_dup (Some []) None None =
     (None, wf_dup\<lparr>nodes := [(''N'', node_c_prepared)]\<rparr>)"
  by (simp add: preparing_def prepare_node_def prepare_dir_def prepare_workingdir_def
        prepare_connections_def prepare_state_def dir_name_opt_def dict_opt_truthy_def
        directory_name_state_surv_def obj_of_def set_obj_def opt_truthy_def upd_core_def
        wf_dup_def wx0_def blank_core_def node_c_prepared_def node_c_def Let_def)

lemma get_output_node_c_prepared:
  "get_output ext0 node_c_prepared =
     Inr (out_c, upd_core (\<lambda>c. c\<lparr>priv_output := out_c\<rparr>) node_c_prepared)"
  by (simp add: get_output_def get_output_key_def get_output_el_def combined_output_def
        state_of_def element_state_dict_def directory_name_state_surv_def result_output_def
        join_items_def format_kv_def digits_of.simps upd_core_def opt_truthy_def c_defs
        node_c_prepared_def)

lemma wf_dup_fields:
  "graph wf_dup = [''N'']"
  "nodes wf_dup = [(''N'', node_c)]"
  "wf_output_names wf_dup = Some [[''N'', ''out'', ''o''], [''N'', ''out'', ''o'']]"
  "wf_self wf_dup = Node ((blank_core ''wf'')\<lparr>workingdir := Some ''/tmp''\<rparr>) []"
  "node_outputs wf_dup = []"
  by (simp_all add: wf_dup_def)

lemma collect_wf_dup:
  "collect_node_output wx0
     (wf_dup\<lparr>nodes := [(''N'', node_c_prepared)], node_outputs := []\<rparr>) ''N'' =
   Inr (wf_dup\<lparr>nodes := [(''N'', upd_core (\<lambda>c. c\<lparr>priv_output := out_c\<rparr>) node_c_prepared)],
               node_outputs := [(''N'', OneOut out_c)]\<rparr>)"
  by (simp add: collect_node_output_def obj_of_def set_obj_def opt_truthy_def wx0_def
        get_output_node_c_prepared wf_dup_fields)
     (simp add: wf_dup_def blank_core_def node_c_prepared_def node_c_def upd_core_def)

lemma upto_wf_dup: "\<not> isl (get_output_upto wx0 ext0 wf_dup [[''N'', ''out'', ''o'']])"
  by (simp add: wf_dup_fields get_output_upto_def collect_node_output_def
        obj_of_def set_obj_def opt_truthy_def wx0_def get_output_node_c output_entry_def
        entry_names_def dict_get_def upd_core_def blank_core_def out_c_def)
     (simp add: node_c_def blank_core_def)

text \<open>
  C8, as the specification states it, fails: on the workflow \<open>wf\<close> whose two output entries
  expose the same name \<open>o\<close>, \<open>preparing\<close> returns without an exception, and the
  duplicate-name exception is raised by \<open>get_output\<close> on the prepared workflow.
\<close>

theorem duplicate_output_name_counterexample:
  "fst (preparing wx0 ext0 wf_dup (Some []) None None) = None \<and>
   Workflow_get_output wx0 ext0 (snd (preparing wx0 ext0 wf_dup (Some []) None None)) =
     Inl (Exception ''the key o is already used in workflow.result'')"
  by (simp add: preparing_wf_dup Workflow_get_output_def wf_dup_fields collect_wf_dup
        output_entry_def entry_names_def key_used_def dict_get_def opt_truthy_def upd_core_def
        blank_core_def out_c_def)

text \<open>
  C8, amended: when two entries of \<open>wf_output_names\<close> expose the same output name,
  \<open>preparing\<close> raises what it raises on the workflow without output names (it never reads
  them), and \<open>Workflow.get_output\<close> raises an exception; when the outputs of the children
  are collected and the entries before the second of the two are stored without an
  exception, that exception is the duplicate-name exception for the shared name.
\<close>

theorem duplicate_output_name_raised_by_get_output:
  assumes "wf_output_names w = Some (pre @ e1 # mid @ e2 # post)"
    and "entry_names e1 = Inr (n1, f1, nm)" and "entry_names e2 = Inr (n2, f2, nm)"
  shows "fst (preparing wx ext w wi wii sti) =
           fst (preparing wx ext (w\<lparr>wf_output_names := None\<rparr>) wi wii sti) \<and>
         (\<exists>e. Workflow_get_output wx ext w = Inl e) \<and>
         (\<not> isl (get_output_upto wx ext w (pre @ e1 # mid)) \<longrightarrow>
          Workflow_get_output wx ext w = Inl (key_used nm))"
proof (intro conjI impI)
  show "fst (preparing wx ext w wi wii sti) =
          fst (preparing wx ext (w\<lparr>wf_output_names := None\<rparr>) wi wii sti)"
    using preparing_names [of wx ext None w wi wii sti]
    by (simp add: with_names_def split: prod.splits)
  show "\<exists>e. Workflow_get_output wx ext w = Inl e"
    using assms by (rule get_output_duplicate(1))
  assume "\<not> isl (get_output_upto wx ext w (pre @ e1 # mid))"
  then obtain w2 where "get_output_upto wx ext w (pre @ e1 # mid) = Inr w2"
    by (cases "get_output_upto wx ext w (pre @ e1 # mid)") simp_all
  then obtain w1 where
    c: "fold_err (collect_node_output wx) (w\<lparr>node_outputs := []\<rparr>) (graph w) = Inr w1"
    and f: "fold_err (output_entry ext) w1 (pre @ e1 # mid) = Inr w2"
    by (auto simp: get_output_upto_def bnd_Inr_iff)
  from assms c f show "Workflow_get_output wx ext w = Inl (key_used nm)"
    by (rule get_output_duplicate(2))
qed

theorem duplicate_output_name_raised_by_get_output_witness:
  "fst (preparing wx0 ext0 wf_dup (Some []) None None) =
     fst (preparing wx0 ext0 (wf_dup\<lparr>wf_output_names := None\<rparr>) (Some []) None None) \<and>
   Workflow_get_output wx0 ext0 wf_dup = Inl (key_used ''o'')"
  using duplicate_output_name_raised_by_get_output
    [of wf_dup "[]" "[''N'', ''out'', ''o'']" "[]" "[''N'', ''out'', ''o'']" "[]"
        "''N''" "''out''" "''o''" "''N''" "''out''" wx0 ext0 "Some []" None None]
    upto_wf_dup
  by (simp add: wf_dup_fields entry_names_def)

end
